theory Spec2Isabelle
  imports Main "HOL-Library.Word"
begin

unbundle bit_operations_syntax

section \<open>Machine types\<close>

text \<open>
  The driver is C++ for a 64-bit target: \<open>size_t\<close> and \<open>uint64_t\<close> are 64-bit words,
  \<open>uint32_t\<close> is a 32-bit word, and arithmetic on them wraps. A \<open>double\<close> is never
  computed with by the driver, only handed on, so it is carried as its IEEE-754 bit
  pattern. A \<open>uint8_t\<close> and a \<open>char\<close> are both one byte, which is what an Isabelle
  \<open>char\<close> is, so byte buffers and \<open>std::string\<close> values are both \<open>string\<close>.
\<close>

type_synonym u32 = "32 word"
type_synonym u64 = "64 word"
type_synonym size_t = "64 word"
type_synonym i64 = "64 word"
type_synonym f64 = "64 word"
type_synonym bytes = string

section \<open>The byte window: \<open>io-public.h\<close>\<close>

text \<open>
  Modelled from the spec: \<open>wuffs_base__u64__sat_add\<close> is called by
  \<open>wuffs_base__io_buffer__compact\<close> and by \<open>DecodeJson\<close> but is not defined in the
  sources at hand. The spec calls it saturating addition of unsigned 64-bit values.
\<close>

definition wuffs_base__u64__sat_add :: "u64 \<Rightarrow> u64 \<Rightarrow> u64" where
  "wuffs_base__u64__sat_add x y = (if unat x + unat y < 2 ^ 64 then x + y else - 1)"

record io_buffer_meta =
  wi :: size_t
  ri :: size_t
  pos :: u64
  closed :: bool

text \<open>
  \<open>wuffs_base__io_buffer\<close>: the slice \<open>data\<close> is the list of its bytes, so \<open>data.len\<close> is
  the length of the list. The header documents the invariants \<open>wi \<le> len\<close> and
  \<open>ri \<le> wi\<close>; nothing in the code enforces them.
\<close>

record io_buffer =
  data :: bytes
  meta :: io_buffer_meta


text \<open>
  \<open>memmove (ptr, ptr + r, n)\<close> within one array: the \<open>n\<close> bytes from index \<open>r\<close> on are
  copied to the front, the bytes from index \<open>n\<close> on stay. This is what C does when
  \<open>r + n\<close> is within the array; beyond it C has no defined behaviour.
\<close>

definition memmove_to_front :: "bytes \<Rightarrow> nat \<Rightarrow> nat \<Rightarrow> bytes" where
  "memmove_to_front d r n = take n (drop r d) @ drop n d"

text \<open>\<open>wuffs_base__io_buffer__compact\<close>, for a non-null \<open>buf\<close>.\<close>

definition wuffs_base__io_buffer__compact :: "io_buffer \<Rightarrow> io_buffer" where
  "wuffs_base__io_buffer__compact buf =
     (if ri (meta buf) = 0 then buf
      else
        let pos' = wuffs_base__u64__sat_add (pos (meta buf)) (ri (meta buf));
            n = wi (meta buf) - ri (meta buf);
            data' = (if n \<noteq> 0
                     then memmove_to_front (data buf) (unat (ri (meta buf))) (unat n)
                     else data buf)
        in buf\<lparr>data := data', meta := (meta buf)\<lparr>wi := n, ri := 0, pos := pos'\<rparr>\<rparr>)"

section \<open>Tokens, the token window and decoder statuses\<close>

text \<open>
  Modelled from the spec: \<open>wuffs_base__token\<close> and its accessors
  \<open>value_base_category()\<close>, \<open>value_base_detail()\<close>, \<open>continued()\<close> and \<open>length()\<close> are
  not defined in the sources at hand. The spec's data model gives a token a length in
  source bytes, a category, a detail bitfield and a continued flag; the code reads the
  category as \<open>int64_t\<close> and the detail and the length as \<open>uint64_t\<close>.
\<close>

record token =
  value_base_category :: int
  value_base_detail :: u64
  continued :: bool
  token_length :: u64

text \<open>
  Modelled from the spec: the category constants \<open>WUFFS_BASE__TOKEN__VBC__*\<close> are not
  defined in the sources at hand. The spec's wire contract lists the categories in the
  order \<open>Filler=0\<close>, \<open>Structure\<close>, \<open>String\<close>, \<open>UnicodeCodePoint\<close>, \<open>Literal\<close>,
  \<open>Number\<close>.
\<close>

definition WUFFS_BASE__TOKEN__VBC__FILLER :: int where
  "WUFFS_BASE__TOKEN__VBC__FILLER = 0"

definition WUFFS_BASE__TOKEN__VBC__STRUCTURE :: int where
  "WUFFS_BASE__TOKEN__VBC__STRUCTURE = 1"

definition WUFFS_BASE__TOKEN__VBC__STRING :: int where
  "WUFFS_BASE__TOKEN__VBC__STRING = 2"

definition WUFFS_BASE__TOKEN__VBC__UNICODE_CODE_POINT :: int where
  "WUFFS_BASE__TOKEN__VBC__UNICODE_CODE_POINT = 3"

definition WUFFS_BASE__TOKEN__VBC__LITERAL :: int where
  "WUFFS_BASE__TOKEN__VBC__LITERAL = 4"

definition WUFFS_BASE__TOKEN__VBC__NUMBER :: int where
  "WUFFS_BASE__TOKEN__VBC__NUMBER = 5"

text \<open>
  \<open>wuffs_base__token_buffer\<close>: an array of tokens with the same metadata as the byte
  window.
\<close>

record token_buffer =
  tok_data :: "token list"
  tok_meta :: io_buffer_meta

text \<open>
  Modelled from the spec: \<open>wuffs_base__token_buffer::compact\<close> is not defined in the
  sources at hand. The spec says that it moves the unread tokens to index 0 without
  touching bytes; the metadata follows \<open>wuffs_base__io_buffer__compact\<close>.
\<close>

definition wuffs_base__token_buffer__compact :: "token_buffer \<Rightarrow> token_buffer" where
  "wuffs_base__token_buffer__compact buf =
     (if ri (tok_meta buf) = 0 then buf
      else
        let pos' = wuffs_base__u64__sat_add (pos (tok_meta buf)) (ri (tok_meta buf));
            n = wi (tok_meta buf) - ri (tok_meta buf);
            data' = take (unat n) (drop (unat (ri (tok_meta buf))) (tok_data buf))
                      @ drop (unat n) (tok_data buf)
        in buf\<lparr>tok_data := data', tok_meta := (tok_meta buf)\<lparr>wi := n, ri := 0, pos := pos'\<rparr>\<rparr>)"

text \<open>
  Modelled from the spec: \<open>wuffs_base__status\<close> is not defined in the sources at hand.
  The spec gives the low-level decoder a resumable status: ok (a null \<open>repr\<close>), the two
  suspensions \<open>short_read\<close> and \<open>short_write\<close>, or a terminal error with a message.
\<close>

datatype status =
  Status_ok
  | Suspension_short_read
  | Suspension_short_write
  | Status_error string

section \<open>External collaborators\<close>

text \<open>
  The low-level tokenizer, the input, the number parsers, the UTF-8 encoder, the base-16
  decoder and the values of the token detail bits and of the decoder's work buffer
  length are outside the sources at hand. They are parameters of the model, collected in
  one record: \<open>'d\<close> is the state of the tokenizer, \<open>'i\<close> the state of the input.

  \<^item> \<open>decode_tokens\<close> is \<open>dec->decode_tokens(&tok_buf, io_buf, work_buf)\<close> on the empty work
    buffer: it returns the status and the updated decoder, token window and byte window.
  \<^item> \<open>CopyIn\<close> is \<open>input.CopyIn(io_buf)\<close>: it returns the error message and the updated
    input and byte window.
  \<^item> \<open>alloc\<close> is \<open>wuffs_json__decoder::alloc()\<close>: \<open>None\<close> is the null pointer.
  \<^item> the three parsers return \<open>Some\<close> of the value exactly when the C result's status
    \<open>is_ok()\<close>.
  \<^item> \<open>utf_8__encode\<close> returns the bytes that \<open>wuffs_base__utf_8__encode\<close> writes into its
    four-byte destination.
  \<^item> \<open>base_16__decode4\<close> takes the length of the destination and the source bytes (the
    source is always closed, the options are always the default ones) and returns the
    status, \<open>num_dst\<close>, \<open>num_src\<close> and the contents of the destination.
\<close>

record ('d, 'i) env =
  alloc :: "'d option"
  set_quirk_enabled :: "'d \<Rightarrow> u32 \<Rightarrow> bool \<Rightarrow> 'd"
  decode_tokens :: "'d \<Rightarrow> token_buffer \<Rightarrow> io_buffer \<Rightarrow> status \<times> 'd \<times> token_buffer \<times> io_buffer"
  BringsItsOwnIOBuffer :: "'i \<Rightarrow> io_buffer option"
  CopyIn :: "'i \<Rightarrow> io_buffer \<Rightarrow> string \<times> 'i \<times> io_buffer"
  parse_number_u64 :: "bytes \<Rightarrow> u64 option"
  parse_number_i64 :: "bytes \<Rightarrow> i64 option"
  parse_number_f64 :: "bytes \<Rightarrow> f64 option"
  utf_8__encode :: "u32 \<Rightarrow> bytes"
  base_16__decode4 :: "nat \<Rightarrow> bytes \<Rightarrow> status \<times> size_t \<times> size_t \<times> bytes"
  WORKBUF_LEN_MAX_INCL_WORST_CASE :: nat
  STRUCTURE__PUSH :: u64
  STRUCTURE__POP :: u64
  STRUCTURE__TO_LIST :: u64
  STRING__CONVERT_0_DST_1_SRC_DROP :: u64
  STRING__CONVERT_1_DST_1_SRC_COPY :: u64
  STRING__CONVERT_1_DST_4_SRC_BACKSLASH_X :: u64
  STRING__CHAIN_MUST_BE_UTF_8 :: u64
  LITERAL__NULL :: u64
  LITERAL__TRUE :: u64
  NUMBER__FORMAT_TEXT :: u64
  NUMBER__CONTENT_INTEGER_SIGNED :: u64
  NUMBER__CONTENT_FLOATING_POINT :: u64
  NUMBER__CONTENT_NEG_INF :: u64
  NUMBER__CONTENT_POS_INF :: u64
  NUMBER__CONTENT_NEG_NAN :: u64
  NUMBER__CONTENT_POS_NAN :: u64

section \<open>Loops that need not end\<close>

text \<open>
  Every \<open>while (true)\<close> of the driver runs a body that either leaves the loop with a
  result (\<open>Inl\<close>) or goes round again with a new state (\<open>Inr\<close>). With a tokenizer that
  never produces a token, or an input that never delivers a byte and never closes, the
  loop runs forever: the value \<open>None\<close>.
\<close>

partial_function (option) while_true :: "('s \<Rightarrow> ('r + 's) option) \<Rightarrow> 's \<Rightarrow> 'r option" where
  "while_true body s =
     (case body s of
        None \<Rightarrow> None
      | Some (Inl r) \<Rightarrow> Some r
      | Some (Inr s') \<Rightarrow> while_true body s')"

section \<open>The refill loop: \<open>WUFFS_AUX__DECODE_JSON__GET_THE_NEXT_TOKEN\<close>\<close>

text \<open>
  The variables that the macro reads and writes; they are also exactly the reference
  parameters of \<open>DecodeJson_WalkJsonPointerFragment\<close>.
\<close>

record ('d, 'i) ctx =
  tok_buf :: token_buffer
  tok_status :: status
  dec :: 'd
  io_buf :: io_buffer
  io_error_message :: string
  cursor_index :: size_t
  input :: 'i

text \<open>
  What the macro leaves behind: a jump to the label \<open>done\<close> with \<open>ret_error_message\<close>
  set, or the variables \<open>token\<close>, \<open>token_ptr\<close> (as an index into the byte window) and
  \<open>token_len\<close>. Reading \<open>tok_buf.data.ptr[ri]\<close> beyond the token array has no defined
  behaviour in C++; the model says so.
\<close>

datatype ('d, 'i) fetched =
  Goto_done string "('d, 'i) ctx"
  | Undefined_behaviour
  | Fetched token size_t u64 "('d, 'i) ctx"

text \<open>
  The tail of the loop body: the check of the work buffer length and the call of the
  tokenizer on the empty work buffer.
\<close>

definition GET_THE_NEXT_TOKEN_decode ::
  "('d, 'i) env \<Rightarrow> ('d, 'i) ctx \<Rightarrow> (string \<times> ('d, 'i) ctx) + ('d, 'i) ctx" where
  "GET_THE_NEXT_TOKEN_decode E s =
     (if WORKBUF_LEN_MAX_INCL_WORST_CASE E \<noteq> 0
      then Inl (''wuffs_aux::DecodeJson: internal error: bad WORKBUF_LEN'', s)
      else
        case decode_tokens E (dec s) (tok_buf s) (io_buf s) of
          (st, d', tb', ib') \<Rightarrow>
            Inr (s\<lparr>tok_status := st, dec := d', tok_buf := tb', io_buf := ib'\<rparr>))"

text \<open>
  The \<open>short_read\<close> branch up to and including \<open>cursor_index = io_buf->meta.ri\<close>: the
  three checks, the compaction, the check for a full window and the reset of the cursor.
  A moved-from \<open>io_error_message\<close> is left empty; nothing reads it again.
\<close>

definition GET_THE_NEXT_TOKEN_compact ::
  "('d, 'i) ctx \<Rightarrow> (string \<times> ('d, 'i) ctx) + ('d, 'i) ctx" where
  "GET_THE_NEXT_TOKEN_compact s =
     (if io_error_message s \<noteq> []
      then Inl (io_error_message s, s\<lparr>io_error_message := []\<rparr>)
      else if cursor_index s \<noteq> ri (meta (io_buf s))
      then Inl (''wuffs_aux::DecodeJson: internal error: bad cursor_index'', s)
      else if closed (meta (io_buf s))
      then Inl (''wuffs_aux::DecodeJson: internal error: io_buf is closed'', s)
      else
        let b = wuffs_base__io_buffer__compact (io_buf s) in
        if length (data b) \<le> unat (wi (meta b))
        then Inl (''wuffs_aux::DecodeJson: internal error: io_buf is full'', s\<lparr>io_buf := b\<rparr>)
        else Inr (s\<lparr>io_buf := b, cursor_index := ri (meta b)\<rparr>))"

text \<open>One round of the macro's \<open>while\<close> loop, entered when \<open>tok_buf\<close> has no unread token.\<close>

definition GET_THE_NEXT_TOKEN_refill ::
  "('d, 'i) env \<Rightarrow> ('d, 'i) ctx \<Rightarrow> (string \<times> ('d, 'i) ctx) + ('d, 'i) ctx" where
  "GET_THE_NEXT_TOKEN_refill E s =
     (case tok_status s of
        Status_ok \<Rightarrow> GET_THE_NEXT_TOKEN_decode E s
      | Suspension_short_write \<Rightarrow>
          GET_THE_NEXT_TOKEN_decode E
            (s\<lparr>tok_buf := wuffs_base__token_buffer__compact (tok_buf s)\<rparr>)
      | Suspension_short_read \<Rightarrow>
          (case GET_THE_NEXT_TOKEN_compact s of
             Inl e \<Rightarrow> Inl e
           | Inr s1 \<Rightarrow>
               (case CopyIn E (input s1) (io_buf s1) of
                  (msg, inp', b') \<Rightarrow>
                    GET_THE_NEXT_TOKEN_decode E
                      (s1\<lparr>io_error_message := msg, input := inp', io_buf := b'\<rparr>)))
      | Status_error m \<Rightarrow> Inl (m, s))"

text \<open>
  After the loop: take the token at \<open>tok_buf.meta.ri\<close>, check it against the byte
  window, and advance \<open>cursor_index\<close>.
\<close>

definition GET_THE_NEXT_TOKEN_pop :: "('d, 'i) ctx \<Rightarrow> ('d, 'i) fetched" where
  "GET_THE_NEXT_TOKEN_pop s =
     (let tb = tok_buf s; r = ri (tok_meta tb) in
      if length (tok_data tb) \<le> unat r then Undefined_behaviour
      else
        let token = tok_data tb ! unat r;
            s1 = s\<lparr>tok_buf := tb\<lparr>tok_meta := (tok_meta tb)\<lparr>ri := r + 1\<rparr>\<rparr>\<rparr>;
            token_len = token_length token
        in
          if ri (meta (io_buf s)) < cursor_index s
             \<or> ri (meta (io_buf s)) - cursor_index s < token_len
          then Goto_done ''wuffs_aux::DecodeJson: internal error: bad token indexes'' s1
          else Fetched token (cursor_index s) token_len
                 (s1\<lparr>cursor_index := cursor_index s + token_len\<rparr>))"

definition GET_THE_NEXT_TOKEN_body ::
  "('d, 'i) env \<Rightarrow> ('d, 'i) ctx \<Rightarrow> (('d, 'i) fetched + ('d, 'i) ctx) option" where
  "GET_THE_NEXT_TOKEN_body E s =
     (if wi (tok_meta (tok_buf s)) \<le> ri (tok_meta (tok_buf s))
      then (case GET_THE_NEXT_TOKEN_refill E s of
              Inl (m, s') \<Rightarrow> Some (Inl (Goto_done m s'))
            | Inr s' \<Rightarrow> Some (Inr s'))
      else Some (Inl (GET_THE_NEXT_TOKEN_pop s)))"

definition GET_THE_NEXT_TOKEN ::
  "('d, 'i) env \<Rightarrow> ('d, 'i) ctx \<Rightarrow> ('d, 'i) fetched option" where
  "GET_THE_NEXT_TOKEN E s = while_true (GET_THE_NEXT_TOKEN_body E) s"

text \<open>
  The source bytes of a token: \<open>token_len\<close> bytes from \<open>token_ptr\<close>. The macro has
  checked that they end at or before \<open>io_buf->meta.ri\<close>.
\<close>

definition token_src :: "io_buffer \<Rightarrow> size_t \<Rightarrow> u64 \<Rightarrow> bytes" where
  "token_src buf token_ptr token_len = take (unat token_len) (drop (unat token_ptr) (data buf))"

section \<open>JSON Pointer strings: \<open>DecodeJson_SplitJsonPointer\<close>\<close>

text \<open>
  The loop of \<open>DecodeJson_SplitJsonPointer\<close>, with the local \<open>fragment\<close> as an
  accumulator. Indices into a \<open>std::string\<close> never wrap (each is incremented only while
  it is below the size), so they are natural numbers here. The pair \<open>([], 0)\<close> is the
  report of a syntax error.
\<close>

function DecodeJson_SplitJsonPointer_loop :: "string \<Rightarrow> nat \<Rightarrow> string \<Rightarrow> string \<times> nat" where
  "DecodeJson_SplitJsonPointer_loop s i fragment =
     (if i < length s
      then
        if s ! i = CHR ''/'' then (fragment, i)
        else if s ! i \<noteq> CHR ''~''
        then DecodeJson_SplitJsonPointer_loop s (i + 1) (fragment @ [s ! i])
        else if length s \<le> i + 1 then ([], 0)
        else if s ! (i + 1) = CHR ''0''
        then DecodeJson_SplitJsonPointer_loop s (i + 1 + 1) (fragment @ ''~'')
        else if s ! (i + 1) = CHR ''1''
        then DecodeJson_SplitJsonPointer_loop s (i + 1 + 1) (fragment @ ''/'')
        else ([], 0)
      else (fragment, i))"
  by pat_completeness auto
termination
  by (relation "measure (\<lambda>(s, i, fragment). length s - i)") auto

declare DecodeJson_SplitJsonPointer_loop.simps [simp del]

definition DecodeJson_SplitJsonPointer :: "string \<Rightarrow> nat \<Rightarrow> string \<times> nat" where
  "DecodeJson_SplitJsonPointer s i = DecodeJson_SplitJsonPointer_loop s i []"

text \<open>
  What section 4.4 of the spec says of one fragment, for comparison with the code: the
  fragment is the substring up to the next \<open>/\<close>; in it \<open>~0\<close> stands for \<open>~\<close> and \<open>~1\<close>
  for \<open>/\<close>, and a \<open>~\<close> that ends it or is followed by any other byte is a syntax error.
\<close>

definition spec_raw_fragment :: "string \<Rightarrow> nat \<Rightarrow> string" where
  "spec_raw_fragment s i = takeWhile (\<lambda>c. c \<noteq> CHR ''/'') (drop i s)"

fun spec_unescape :: "string \<Rightarrow> string option" where
  "spec_unescape [] = Some []"
| "spec_unescape (c # cs) =
     (if c \<noteq> CHR ''~'' then map_option ((#) c) (spec_unescape cs)
      else case cs of
             [] \<Rightarrow> None
           | c1 # cs1 \<Rightarrow>
               if c1 = CHR ''0'' then map_option ((#) CHR ''~'') (spec_unescape cs1)
               else if c1 = CHR ''1'' then map_option ((#) CHR ''/'') (spec_unescape cs1)
               else None)"

section \<open>String assembly: \<open>DecodeJson_DecodeBackslashX\<close>\<close>

text \<open>
  One round of the loop over \<open>encoded\<close>: a call of the base-16 decoder on a 64-byte
  destination. The result of the function is the returned message together with the
  final value of the reference parameter \<open>str\<close>.
\<close>

definition DecodeJson_DecodeBackslashX_body ::
  "('d, 'i) env \<Rightarrow> string \<times> bytes \<Rightarrow> ((string \<times> string) + (string \<times> bytes)) option" where
  "DecodeJson_DecodeBackslashX_body E = (\<lambda>(str, encoded).
     if 0 < length encoded
     then
       case base_16__decode4 E 64 encoded of
         (Status_error m, num_dst, num_src, decoded) \<Rightarrow> Some (Inl (m, str))
       | (_, num_dst, num_src, decoded) \<Rightarrow>
           if 64 < unat num_dst \<or> length encoded < unat num_src
           then Some (Inl (''wuffs_aux::DecodeJson: internal error: inconsistent base16 decoding'',
                        str))
           else Some (Inr (str @ take (unat num_dst) decoded, drop (unat num_src) encoded))
     else Some (Inl ([], str)))"

definition DecodeJson_DecodeBackslashX ::
  "('d, 'i) env \<Rightarrow> string \<Rightarrow> bytes \<Rightarrow> (string \<times> string) option" where
  "DecodeJson_DecodeBackslashX E str src =
     while_true (DecodeJson_DecodeBackslashX_body E) (str, src)"

section \<open>The pointer walker: \<open>DecodeJson_WalkJsonPointerFragment\<close>\<close>

definition DecodeJson_BadJsonPointer :: string where
  "DecodeJson_BadJsonPointer = ''wuffs_aux::DecodeJson: bad JSON Pointer''"

definition DecodeJson_NoMatch :: string where
  "DecodeJson_NoMatch = ''wuffs_aux::DecodeJson: no match''"

definition unexpected_token :: string where
  "unexpected_token = ''wuffs_aux::DecodeJson: internal error: unexpected token''"

text \<open>
  Every loop of the function starts with the macro, so the function is a machine that
  fetches one token per step. Its places are the five loops, each with the loop's local
  variables: the first \<open>while (true)\<close>; the \<open>for\<close> loop of \<open>do_dict\<close> that reads a key
  into \<open>str\<close>; the loop at \<open>skip_the_next_dict_value\<close> with \<open>skip_depth\<close>; the \<open>for\<close> loop
  of \<open>do_list\<close> with \<open>remaining\<close> and \<open>skip_depth\<close>; the loop at
  \<open>check_that_a_value_follows\<close>.
\<close>

datatype walk_label =
  At_entry
  | Do_dict_key string
  | Skip_the_next_dict_value u32
  | Do_list_skip u64 u32
  | Check_that_a_value_follows

text \<open>The function returns a message and leaves its reference parameters updated.\<close>

datatype ('d, 'i) walked =
  Walked string "('d, 'i) ctx"
  | Walk_undefined_behaviour

type_synonym ('d, 'i) walk_step = "('d, 'i) walked + walk_label \<times> ('d, 'i) ctx"

text \<open>The head of \<open>do_list\<close>, before its loop: the fragment is parsed as a number.\<close>

definition do_list :: "('d, 'i) env \<Rightarrow> string \<Rightarrow> ('d, 'i) ctx \<Rightarrow> ('d, 'i) walk_step" where
  "do_list E json_pointer_fragment s =
     (case parse_number_u64 E json_pointer_fragment of
        None \<Rightarrow> Inl (Walked DecodeJson_NoMatch s)
      | Some remaining \<Rightarrow>
          if remaining = 0 then Inr (Check_that_a_value_follows, s)
          else Inr (Do_list_skip remaining 0, s))"

text \<open>The first loop: the container that the fragment descends into.\<close>

definition walk_at_entry ::
  "('d, 'i) env \<Rightarrow> string \<Rightarrow> token \<Rightarrow> ('d, 'i) ctx \<Rightarrow> ('d, 'i) walk_step" where
  "walk_at_entry E json_pointer_fragment token s =
     (let vbc = value_base_category token; vbd = value_base_detail token in
      if vbc = WUFFS_BASE__TOKEN__VBC__FILLER then Inr (At_entry, s)
      else if vbc \<noteq> WUFFS_BASE__TOKEN__VBC__STRUCTURE \<or> \<not> (vbd AND STRUCTURE__PUSH E \<noteq> 0)
      then Inl (Walked DecodeJson_NoMatch s)
      else if vbd AND STRUCTURE__TO_LIST E \<noteq> 0 then do_list E json_pointer_fragment s
      else Inr (Do_dict_key [], s))"

text \<open>
  The end of one round of the key loop, after the \<open>switch\<close>: a continued token keeps
  the loop going, a finished key is compared with the fragment.
\<close>

definition dict_key_end ::
  "string \<Rightarrow> token \<Rightarrow> string \<Rightarrow> ('d, 'i) ctx \<Rightarrow> ('d, 'i) walk_step" where
  "dict_key_end json_pointer_fragment token str s =
     (if continued token then Inr (Do_dict_key str, s)
      else if str = json_pointer_fragment then Inl (Walked [] s)
      else Inr (Skip_the_next_dict_value 0, s))"

text \<open>One round of the key loop of \<open>do_dict\<close>.\<close>

definition walk_dict_key ::
  "('d, 'i) env \<Rightarrow> string \<Rightarrow> string \<Rightarrow> token \<Rightarrow> size_t \<Rightarrow> u64 \<Rightarrow> ('d, 'i) ctx
     \<Rightarrow> ('d, 'i) walk_step option" where
  "walk_dict_key E json_pointer_fragment str token token_ptr token_len s =
     (let vbc = value_base_category token; vbd = value_base_detail token in
      if vbc = WUFFS_BASE__TOKEN__VBC__FILLER then Some (Inr (Do_dict_key str, s))
      else if vbc = WUFFS_BASE__TOKEN__VBC__STRUCTURE
      then
        if vbd AND STRUCTURE__PUSH E \<noteq> 0 then Some (Inl (Walked unexpected_token s))
        else Some (Inl (Walked DecodeJson_NoMatch s))
      else if vbc = WUFFS_BASE__TOKEN__VBC__STRING
      then
        if vbd AND STRING__CONVERT_0_DST_1_SRC_DROP E \<noteq> 0
        then Some (dict_key_end json_pointer_fragment token str s)
        else if vbd AND STRING__CONVERT_1_DST_1_SRC_COPY E \<noteq> 0
        then Some (dict_key_end json_pointer_fragment token
                     (str @ token_src (io_buf s) token_ptr token_len) s)
        else if vbd AND STRING__CONVERT_1_DST_4_SRC_BACKSLASH_X E \<noteq> 0
        then
          case DecodeJson_DecodeBackslashX E str (token_src (io_buf s) token_ptr token_len) of
            None \<Rightarrow> None
          | Some (ret_error_message, str') \<Rightarrow>
              if ret_error_message \<noteq> [] then Some (Inl (Walked ret_error_message s))
              else Some (dict_key_end json_pointer_fragment token str' s)
        else Some (Inl (Walked unexpected_token s))
      else if vbc = WUFFS_BASE__TOKEN__VBC__UNICODE_CODE_POINT
      then Some (dict_key_end json_pointer_fragment token
                   (str @ utf_8__encode E (ucast vbd)) s)
      else Some (Inl (Walked unexpected_token s)))"

text \<open>One round of the loop at \<open>skip_the_next_dict_value\<close>.\<close>

definition walk_skip_dict_value ::
  "('d, 'i) env \<Rightarrow> u32 \<Rightarrow> token \<Rightarrow> ('d, 'i) ctx \<Rightarrow> ('d, 'i) walk_step" where
  "walk_skip_dict_value E skip_depth token s =
     (let vbc = value_base_category token; vbd = value_base_detail token in
      if continued token \<or> vbc = WUFFS_BASE__TOKEN__VBC__FILLER
      then Inr (Skip_the_next_dict_value skip_depth, s)
      else if vbc = WUFFS_BASE__TOKEN__VBC__STRUCTURE \<and> vbd AND STRUCTURE__PUSH E \<noteq> 0
      then Inr (Skip_the_next_dict_value (skip_depth + 1), s)
      else
        let skip_depth' =
              (if vbc = WUFFS_BASE__TOKEN__VBC__STRUCTURE then skip_depth - 1 else skip_depth)
        in if skip_depth' = 0 then Inr (Do_dict_key [], s)
           else Inr (Skip_the_next_dict_value skip_depth', s))"

text \<open>One round of the loop of \<open>do_list\<close>.\<close>

definition walk_list_skip ::
  "('d, 'i) env \<Rightarrow> u64 \<Rightarrow> u32 \<Rightarrow> token \<Rightarrow> ('d, 'i) ctx \<Rightarrow> ('d, 'i) walk_step" where
  "walk_list_skip E remaining skip_depth token s =
     (let vbc = value_base_category token; vbd = value_base_detail token in
      if continued token \<or> vbc = WUFFS_BASE__TOKEN__VBC__FILLER
      then Inr (Do_list_skip remaining skip_depth, s)
      else if vbc = WUFFS_BASE__TOKEN__VBC__STRUCTURE \<and> vbd AND STRUCTURE__PUSH E \<noteq> 0
      then Inr (Do_list_skip remaining (skip_depth + 1), s)
      else if vbc = WUFFS_BASE__TOKEN__VBC__STRUCTURE \<and> skip_depth = 0
      then Inl (Walked DecodeJson_NoMatch s)
      else
        let skip_depth' =
              (if vbc = WUFFS_BASE__TOKEN__VBC__STRUCTURE then skip_depth - 1 else skip_depth)
        in if 0 < skip_depth' then Inr (Do_list_skip remaining skip_depth', s)
           else if remaining - 1 = 0 then Inr (Check_that_a_value_follows, s)
           else Inr (Do_list_skip (remaining - 1) skip_depth', s))"

text \<open>
  One round of the loop at \<open>check_that_a_value_follows\<close>: the first token that is not
  filler is put back (\<open>tok_buf.meta.ri--\<close>, \<open>cursor_index -= token_len\<close>).
\<close>

definition walk_check_that_a_value_follows ::
  "('d, 'i) env \<Rightarrow> token \<Rightarrow> u64 \<Rightarrow> ('d, 'i) ctx \<Rightarrow> ('d, 'i) walk_step" where
  "walk_check_that_a_value_follows E token token_len s =
     (let vbc = value_base_category token; vbd = value_base_detail token in
      if vbc = WUFFS_BASE__TOKEN__VBC__FILLER then Inr (Check_that_a_value_follows, s)
      else
        let tb = tok_buf s;
            s' = s\<lparr>tok_buf := tb\<lparr>tok_meta := (tok_meta tb)\<lparr>ri := ri (tok_meta tb) - 1\<rparr>\<rparr>,
                   cursor_index := cursor_index s - token_len\<rparr>
        in if vbc = WUFFS_BASE__TOKEN__VBC__STRUCTURE \<and> vbd AND STRUCTURE__POP E \<noteq> 0
           then Inl (Walked DecodeJson_NoMatch s')
           else Inl (Walked [] s'))"

definition walk_token ::
  "('d, 'i) env \<Rightarrow> string \<Rightarrow> walk_label \<Rightarrow> token \<Rightarrow> size_t \<Rightarrow> u64 \<Rightarrow> ('d, 'i) ctx
     \<Rightarrow> ('d, 'i) walk_step option" where
  "walk_token E json_pointer_fragment label token token_ptr token_len s =
     (case label of
        At_entry \<Rightarrow> Some (walk_at_entry E json_pointer_fragment token s)
      | Do_dict_key str \<Rightarrow>
          walk_dict_key E json_pointer_fragment str token token_ptr token_len s
      | Skip_the_next_dict_value skip_depth \<Rightarrow>
          Some (walk_skip_dict_value E skip_depth token s)
      | Do_list_skip remaining skip_depth \<Rightarrow>
          Some (walk_list_skip E remaining skip_depth token s)
      | Check_that_a_value_follows \<Rightarrow>
          Some (walk_check_that_a_value_follows E token token_len s))"

text \<open>
  One step: the macro, then the round of the current loop. The macro's \<open>goto done\<close>
  returns \<open>ret_error_message\<close>.
\<close>

definition walk_step ::
  "('d, 'i) env \<Rightarrow> string \<Rightarrow> walk_label \<times> ('d, 'i) ctx \<Rightarrow> ('d, 'i) walk_step option" where
  "walk_step E json_pointer_fragment = (\<lambda>(label, s).
     case GET_THE_NEXT_TOKEN E s of
       None \<Rightarrow> None
     | Some (Goto_done ret_error_message s') \<Rightarrow> Some (Inl (Walked ret_error_message s'))
     | Some Undefined_behaviour \<Rightarrow> Some (Inl Walk_undefined_behaviour)
     | Some (Fetched token token_ptr token_len s') \<Rightarrow>
         walk_token E json_pointer_fragment label token token_ptr token_len s')"

definition DecodeJson_WalkJsonPointerFragment ::
  "('d, 'i) env \<Rightarrow> ('d, 'i) ctx \<Rightarrow> string \<Rightarrow> ('d, 'i) walked option" where
  "DecodeJson_WalkJsonPointerFragment E s json_pointer_fragment =
     while_true (walk_step E json_pointer_fragment) (At_entry, s)"

section \<open>The event driver: \<open>DecodeJson\<close>\<close>

record DecodeJsonResult =
  error_message :: string
  cursor_position :: u64

text \<open>
  \<open>DecodeJsonCallbacks\<close> is a class with virtual member functions. An object of it is a
  state \<open>'c\<close> together with its member functions, each of which returns its result and
  the new state. \<open>Done\<close> takes the result, the input and the byte window by reference,
  so it returns all three.
\<close>

record ('i, 'c) DecodeJsonCallbacks =
  AppendNull :: "'c \<Rightarrow> string \<times> 'c"
  AppendBool :: "bool \<Rightarrow> 'c \<Rightarrow> string \<times> 'c"
  AppendI64 :: "i64 \<Rightarrow> 'c \<Rightarrow> string \<times> 'c"
  AppendF64 :: "f64 \<Rightarrow> 'c \<Rightarrow> string \<times> 'c"
  AppendTextString :: "string \<Rightarrow> 'c \<Rightarrow> string \<times> 'c"
  AppendByteString :: "string \<Rightarrow> 'c \<Rightarrow> string \<times> 'c"
  Push :: "u32 \<Rightarrow> 'c \<Rightarrow> string \<times> 'c"
  Pop :: "u32 \<Rightarrow> 'c \<Rightarrow> string \<times> 'c"
  Done :: "DecodeJsonResult \<Rightarrow> 'i \<Rightarrow> io_buffer \<Rightarrow> 'c \<Rightarrow> DecodeJsonResult \<times> 'i \<times> io_buffer \<times> 'c"

text \<open>The two member functions that the class defines itself.\<close>

definition DecodeJsonCallbacks_AppendByteString :: "string \<Rightarrow> 'c \<Rightarrow> string \<times> 'c" where
  "DecodeJsonCallbacks_AppendByteString val this =
     (''wuffs_aux::DecodeJson: unexpected JSON byte string'', this)"

definition DecodeJsonCallbacks_Done ::
  "DecodeJsonResult \<Rightarrow> 'i \<Rightarrow> io_buffer \<Rightarrow> 'c \<Rightarrow> DecodeJsonResult \<times> 'i \<times> io_buffer \<times> 'c" where
  "DecodeJsonCallbacks_Done result inp buffer this = (result, inp, buffer, this)"

text \<open>
  The calls of the callbacks are the observable behaviour of the driver. The model keeps
  a log of them, in order, each with its arguments; \<open>Ev_Done\<close> holds the result as it is
  handed to \<open>Done\<close>.
\<close>

datatype event =
  Ev_AppendNull
  | Ev_AppendBool bool
  | Ev_AppendI64 i64
  | Ev_AppendF64 f64
  | Ev_AppendTextString string
  | Ev_AppendByteString string
  | Ev_Push u32
  | Ev_Pop u32
  | Ev_Done DecodeJsonResult

text \<open>
  The local variables of \<open>DecodeJson\<close> inside its \<open>do\<close> block: those that the macro
  works on, \<open>depth\<close>, \<open>str\<close>, the callbacks object and the log.
\<close>

record ('d, 'i, 'c) frame =
  ctx :: "('d, 'i) ctx"
  depth :: u32
  str :: string
  callbacks :: 'c
  events :: "event list"

definition logged :: "event \<Rightarrow> string \<times> 'c \<Rightarrow> ('d, 'i, 'c) frame \<Rightarrow> string \<times> ('d, 'i, 'c) frame" where
  "logged e r m = (fst r, m\<lparr>callbacks := snd r, events := events m @ [e]\<rparr>)"

text \<open>How control leaves the \<open>do\<close> block: a jump to \<open>done\<close> with \<open>ret_error_message\<close>.\<close>

datatype ('d, 'i, 'c) stopped =
  At_done string "('d, 'i, 'c) frame"
  | Stopped_undefined_behaviour

type_synonym ('d, 'i, 'c) main_step = "('d, 'i, 'c) stopped + ('d, 'i, 'c) frame"

text \<open>The labels \<open>parsed_a_value\<close> and \<open>fail\<close>.\<close>

definition parsed_a_value :: "string \<Rightarrow> ('d, 'i, 'c) frame \<Rightarrow> ('d, 'i, 'c) main_step" where
  "parsed_a_value ret_error_message m =
     (if ret_error_message \<noteq> [] \<or> depth m = 0 then Inl (At_done ret_error_message m)
      else Inr m)"

definition fail :: "('d, 'i, 'c) frame \<Rightarrow> ('d, 'i, 'c) main_step" where
  "fail m = Inl (At_done unexpected_token m)"

text \<open>The case \<open>WUFFS_BASE__TOKEN__VBC__STRUCTURE\<close>.\<close>

definition DecodeJson_structure ::
  "('d, 'i) env \<Rightarrow> ('i, 'c) DecodeJsonCallbacks \<Rightarrow> u64 \<Rightarrow> ('d, 'i, 'c) frame
     \<Rightarrow> ('d, 'i, 'c) main_step" where
  "DecodeJson_structure E cb vbd m =
     (if vbd AND STRUCTURE__PUSH E \<noteq> 0
      then
        case logged (Ev_Push (ucast vbd)) (Push cb (ucast vbd) (callbacks m)) m of
          (ret_error_message, m') \<Rightarrow>
            if ret_error_message \<noteq> [] then Inl (At_done ret_error_message m')
            else Inr (m'\<lparr>depth := depth m' + 1\<rparr>)
      else
        case logged (Ev_Pop (ucast vbd)) (Pop cb (ucast vbd) (callbacks m)) m of
          (ret_error_message, m') \<Rightarrow>
            parsed_a_value ret_error_message (m'\<lparr>depth := depth m' - 1\<rparr>))"

text \<open>
  The end of the case \<open>WUFFS_BASE__TOKEN__VBC__STRING\<close>, after the conversion: a
  continued token keeps the string open, any other hands it to a callback.
\<close>

definition DecodeJson_string_end ::
  "('d, 'i) env \<Rightarrow> ('i, 'c) DecodeJsonCallbacks \<Rightarrow> token \<Rightarrow> ('d, 'i, 'c) frame
     \<Rightarrow> ('d, 'i, 'c) main_step" where
  "DecodeJson_string_end E cb token m =
     (if continued token then Inr m
      else
        case (if value_base_detail token AND STRING__CHAIN_MUST_BE_UTF_8 E \<noteq> 0
              then logged (Ev_AppendTextString (str m))
                     (AppendTextString cb (str m) (callbacks m)) m
              else logged (Ev_AppendByteString (str m))
                     (AppendByteString cb (str m) (callbacks m)) m) of
          (ret_error_message, m') \<Rightarrow> parsed_a_value ret_error_message (m'\<lparr>str := []\<rparr>))"

text \<open>The case \<open>WUFFS_BASE__TOKEN__VBC__STRING\<close>.\<close>

definition DecodeJson_string ::
  "('d, 'i) env \<Rightarrow> ('i, 'c) DecodeJsonCallbacks \<Rightarrow> token \<Rightarrow> bytes \<Rightarrow> ('d, 'i, 'c) frame
     \<Rightarrow> ('d, 'i, 'c) main_step option" where
  "DecodeJson_string E cb token src m =
     (let vbd = value_base_detail token in
      if vbd AND STRING__CONVERT_0_DST_1_SRC_DROP E \<noteq> 0
      then Some (DecodeJson_string_end E cb token m)
      else if vbd AND STRING__CONVERT_1_DST_1_SRC_COPY E \<noteq> 0
      then Some (DecodeJson_string_end E cb token (m\<lparr>str := str m @ src\<rparr>))
      else if vbd AND STRING__CONVERT_1_DST_4_SRC_BACKSLASH_X E \<noteq> 0
      then
        case DecodeJson_DecodeBackslashX E (str m) src of
          None \<Rightarrow> None
        | Some (ret_error_message, str') \<Rightarrow>
            if ret_error_message \<noteq> [] then Some (Inl (At_done ret_error_message (m\<lparr>str := str'\<rparr>)))
            else Some (DecodeJson_string_end E cb token (m\<lparr>str := str'\<rparr>))
      else Some (fail m))"

text \<open>The case \<open>WUFFS_BASE__TOKEN__VBC__UNICODE_CODE_POINT\<close>.\<close>

definition DecodeJson_unicode_code_point ::
  "('d, 'i) env \<Rightarrow> token \<Rightarrow> ('d, 'i, 'c) frame \<Rightarrow> ('d, 'i, 'c) main_step" where
  "DecodeJson_unicode_code_point E token m =
     (let m' = m\<lparr>str := str m @ utf_8__encode E (ucast (value_base_detail token))\<rparr>
      in if continued token then Inr m' else fail m')"

text \<open>The case \<open>WUFFS_BASE__TOKEN__VBC__LITERAL\<close>.\<close>

definition DecodeJson_literal ::
  "('d, 'i) env \<Rightarrow> ('i, 'c) DecodeJsonCallbacks \<Rightarrow> u64 \<Rightarrow> ('d, 'i, 'c) frame
     \<Rightarrow> ('d, 'i, 'c) main_step" where
  "DecodeJson_literal E cb vbd m =
     (case (if vbd AND LITERAL__NULL E \<noteq> 0
            then logged Ev_AppendNull (AppendNull cb (callbacks m)) m
            else logged (Ev_AppendBool (vbd AND LITERAL__TRUE E \<noteq> 0))
                   (AppendBool cb (vbd AND LITERAL__TRUE E \<noteq> 0) (callbacks m)) m) of
        (ret_error_message, m') \<Rightarrow> parsed_a_value ret_error_message m')"

text \<open>
  The case \<open>WUFFS_BASE__TOKEN__VBC__NUMBER\<close>. \<open>attempt_i64\<close> and \<open>attempt_f64\<close> are the
  two guarded parses of a number in text format: a parse that is not tried, or that
  fails, falls through to what follows it.
\<close>

definition attempt_i64 :: "('d, 'i) env \<Rightarrow> u64 \<Rightarrow> bytes \<Rightarrow> i64 option" where
  "attempt_i64 E vbd src =
     (if vbd AND NUMBER__CONTENT_INTEGER_SIGNED E \<noteq> 0 then parse_number_i64 E src else None)"

definition attempt_f64 :: "('d, 'i) env \<Rightarrow> u64 \<Rightarrow> bytes \<Rightarrow> f64 option" where
  "attempt_f64 E vbd src =
     (if vbd AND NUMBER__CONTENT_FLOATING_POINT E \<noteq> 0 then parse_number_f64 E src else None)"

definition call_AppendF64 ::
  "('i, 'c) DecodeJsonCallbacks \<Rightarrow> f64 \<Rightarrow> ('d, 'i, 'c) frame \<Rightarrow> ('d, 'i, 'c) main_step" where
  "call_AppendF64 cb val m =
     (case logged (Ev_AppendF64 val) (AppendF64 cb val (callbacks m)) m of
        (ret_error_message, m') \<Rightarrow> parsed_a_value ret_error_message m')"

definition DecodeJson_number ::
  "('d, 'i) env \<Rightarrow> ('i, 'c) DecodeJsonCallbacks \<Rightarrow> u64 \<Rightarrow> bytes \<Rightarrow> ('d, 'i, 'c) frame
     \<Rightarrow> ('d, 'i, 'c) main_step" where
  "DecodeJson_number E cb vbd src m =
     (if vbd AND NUMBER__FORMAT_TEXT E \<noteq> 0
      then
        case attempt_i64 E vbd src of
          Some val \<Rightarrow>
            (case logged (Ev_AppendI64 val) (AppendI64 cb val (callbacks m)) m of
               (ret_error_message, m') \<Rightarrow> parsed_a_value ret_error_message m')
        | None \<Rightarrow>
            (case attempt_f64 E vbd src of
               Some val \<Rightarrow> call_AppendF64 cb val m
             | None \<Rightarrow> fail m)
      else if vbd AND NUMBER__CONTENT_NEG_INF E \<noteq> 0
      then call_AppendF64 cb 0xFFF0000000000000 m
      else if vbd AND NUMBER__CONTENT_POS_INF E \<noteq> 0
      then call_AppendF64 cb 0x7FF0000000000000 m
      else if vbd AND NUMBER__CONTENT_NEG_NAN E \<noteq> 0
      then call_AppendF64 cb 0xFFFFFFFFFFFFFFFF m
      else if vbd AND NUMBER__CONTENT_POS_NAN E \<noteq> 0
      then call_AppendF64 cb 0x7FFFFFFFFFFFFFFF m
      else fail m)"

text \<open>The \<open>switch\<close> of the main loop; a category without a case falls out of it to \<open>fail\<close>.\<close>

definition DecodeJson_token ::
  "('d, 'i) env \<Rightarrow> ('i, 'c) DecodeJsonCallbacks \<Rightarrow> token \<Rightarrow> size_t \<Rightarrow> u64
     \<Rightarrow> ('d, 'i, 'c) frame \<Rightarrow> ('d, 'i, 'c) main_step option" where
  "DecodeJson_token E cb token token_ptr token_len m =
     (let vbc = value_base_category token; vbd = value_base_detail token;
          src = token_src (io_buf (ctx m)) token_ptr token_len
      in
        if vbc = WUFFS_BASE__TOKEN__VBC__FILLER then Some (Inr m)
        else if vbc = WUFFS_BASE__TOKEN__VBC__STRUCTURE then Some (DecodeJson_structure E cb vbd m)
        else if vbc = WUFFS_BASE__TOKEN__VBC__STRING then DecodeJson_string E cb token src m
        else if vbc = WUFFS_BASE__TOKEN__VBC__UNICODE_CODE_POINT
        then Some (DecodeJson_unicode_code_point E token m)
        else if vbc = WUFFS_BASE__TOKEN__VBC__LITERAL then Some (DecodeJson_literal E cb vbd m)
        else if vbc = WUFFS_BASE__TOKEN__VBC__NUMBER then Some (DecodeJson_number E cb vbd src m)
        else Some (fail m))"

text \<open>One round of the main loop: the macro, then the \<open>switch\<close>.\<close>

definition DecodeJson_main_step ::
  "('d, 'i) env \<Rightarrow> ('i, 'c) DecodeJsonCallbacks \<Rightarrow> ('d, 'i, 'c) frame
     \<Rightarrow> ('d, 'i, 'c) main_step option" where
  "DecodeJson_main_step E cb m =
     (case GET_THE_NEXT_TOKEN E (ctx m) of
        None \<Rightarrow> None
      | Some (Goto_done ret_error_message s') \<Rightarrow>
          Some (Inl (At_done ret_error_message (m\<lparr>ctx := s'\<rparr>)))
      | Some Undefined_behaviour \<Rightarrow> Some (Inl Stopped_undefined_behaviour)
      | Some (Fetched token token_ptr token_len s') \<Rightarrow>
          DecodeJson_token E cb token token_ptr token_len (m\<lparr>ctx := s'\<rparr>))"

definition DecodeJson_main_loop ::
  "('d, 'i) env \<Rightarrow> ('i, 'c) DecodeJsonCallbacks \<Rightarrow> ('d, 'i, 'c) frame
     \<Rightarrow> ('d, 'i, 'c) stopped option" where
  "DecodeJson_main_loop E cb m = while_true (DecodeJson_main_step E cb) m"

text \<open>
  One round of the loop that walks the JSON Pointer, on the index \<open>i\<close>. It leaves the
  loop either with a jump to \<open>done\<close> or, at the end of the pointer, for the main loop.
\<close>

definition DecodeJson_pointer_step ::
  "('d, 'i) env \<Rightarrow> string \<Rightarrow> nat \<times> ('d, 'i, 'c) frame
     \<Rightarrow> (('d, 'i, 'c) main_step + nat \<times> ('d, 'i, 'c) frame) option" where
  "DecodeJson_pointer_step E json_pointer = (\<lambda>(i, m).
     if i < length json_pointer
     then
       if json_pointer ! i \<noteq> CHR ''/'' then Some (Inl (Inl (At_done DecodeJson_BadJsonPointer m)))
       else
         let split = DecodeJson_SplitJsonPointer json_pointer (i + 1) in
         if snd split = 0 then Some (Inl (Inl (At_done DecodeJson_BadJsonPointer m)))
         else
           case DecodeJson_WalkJsonPointerFragment E (ctx m) (fst split) of
             None \<Rightarrow> None
           | Some Walk_undefined_behaviour \<Rightarrow> Some (Inl (Inl Stopped_undefined_behaviour))
           | Some (Walked ret_error_message s') \<Rightarrow>
               if ret_error_message \<noteq> []
               then Some (Inl (Inl (At_done ret_error_message (m\<lparr>ctx := s'\<rparr>))))
               else Some (Inr (snd split, m\<lparr>ctx := s'\<rparr>))
     else Some (Inl (Inr m)))"

definition DecodeJson_pointer_loop ::
  "('d, 'i) env \<Rightarrow> string \<Rightarrow> ('d, 'i, 'c) frame \<Rightarrow> ('d, 'i, 'c) main_step option" where
  "DecodeJson_pointer_loop E json_pointer m =
     while_true (DecodeJson_pointer_step E json_pointer) (0, m)"

text \<open>
  Modelled from the spec: \<open>wuffs_base__ptr_u8__writer\<close> and
  \<open>wuffs_base__slice_token__writer\<close> are not defined in the sources at hand. The spec
  has the driver allocate a 4096-byte fallback byte window and a 256-token window; both
  start empty, at position 0 and open. What the fresh arrays hold is indeterminate in
  C++ and is never read before it is written; here it is zeroes.
\<close>

definition wuffs_base__ptr_u8__writer :: "nat \<Rightarrow> io_buffer" where
  "wuffs_base__ptr_u8__writer len =
     \<lparr>data = replicate len (CHR 0x00), meta = \<lparr>wi = 0, ri = 0, pos = 0, closed = False\<rparr>\<rparr>"

definition wuffs_base__slice_token__writer :: "nat \<Rightarrow> token_buffer" where
  "wuffs_base__slice_token__writer len =
     \<lparr>tok_data = replicate len
        \<lparr>value_base_category = 0, value_base_detail = 0, continued = False, token_length = 0\<rparr>,
      tok_meta = \<lparr>wi = 0, ri = 0, pos = 0, closed = False\<rparr>\<rparr>"

text \<open>What \<open>DecodeJson\<close> hands back: the result, the callbacks object and the log.\<close>

datatype 'c returned =
  Returned DecodeJsonResult 'c "event list"
  | Returned_undefined_behaviour

text \<open>The label \<open>done\<close>: the result is assembled, \<open>Done\<close> is called on it, and it is returned.\<close>

definition DecodeJson_done ::
  "('i, 'c) DecodeJsonCallbacks \<Rightarrow> string \<Rightarrow> io_buffer \<Rightarrow> size_t \<Rightarrow> 'i \<Rightarrow> 'c \<Rightarrow> event list
     \<Rightarrow> 'c returned" where
  "DecodeJson_done cb ret_error_message buf cursor inp this log =
     (let result = \<lparr>error_message = ret_error_message,
                     cursor_position = wuffs_base__u64__sat_add (pos (meta buf)) cursor\<rparr>
      in case Done cb result inp buf this of
           (result', inp', buf', this') \<Rightarrow> Returned result' this' (log @ [Ev_Done result]))"

text \<open>The \<open>do\<close> block after the decoder has been allocated.\<close>

definition DecodeJson_run ::
  "('d, 'i) env \<Rightarrow> ('i, 'c) DecodeJsonCallbacks \<Rightarrow> string \<Rightarrow> ('d, 'i, 'c) frame
     \<Rightarrow> ('d, 'i, 'c) stopped option" where
  "DecodeJson_run E cb json_pointer m =
     (case DecodeJson_pointer_loop E json_pointer m of
        None \<Rightarrow> None
      | Some (Inl stop) \<Rightarrow> Some stop
      | Some (Inr m') \<Rightarrow> DecodeJson_main_loop E cb m')"

text \<open>
  The start of \<open>DecodeJson\<close>: the byte window is the input's own or a fallback of 4096
  bytes, and the local variables are initialised once the decoder is allocated and the
  quirks are set.
\<close>

definition DecodeJson_io_buf :: "('d, 'i) env \<Rightarrow> 'i \<Rightarrow> io_buffer" where
  "DecodeJson_io_buf E inp =
     (case BringsItsOwnIOBuffer E inp of
        Some b \<Rightarrow> b
      | None \<Rightarrow> wuffs_base__ptr_u8__writer 4096)"

definition DecodeJson_frame ::
  "('d, 'i) env \<Rightarrow> 'c \<Rightarrow> 'i \<Rightarrow> u32 list \<Rightarrow> 'd \<Rightarrow> ('d, 'i, 'c) frame" where
  "DecodeJson_frame E this inp quirks dec0 =
     \<lparr>ctx = \<lparr>tok_buf = wuffs_base__slice_token__writer 256,
             tok_status = Status_ok,
             dec = foldl (\<lambda>d q. set_quirk_enabled E d q True) dec0 quirks,
             io_buf = DecodeJson_io_buf E inp,
             io_error_message = [],
             cursor_index = 0,
             input = inp\<rparr>,
      depth = 0, str = [], callbacks = this, events = []\<rparr>"

definition DecodeJson ::
  "('d, 'i) env \<Rightarrow> ('i, 'c) DecodeJsonCallbacks \<Rightarrow> 'c \<Rightarrow> 'i \<Rightarrow> u32 list \<Rightarrow> string
     \<Rightarrow> 'c returned option" where
  "DecodeJson E cb this inp quirks json_pointer =
     (case alloc E of
        None \<Rightarrow>
          Some (DecodeJson_done cb ''wuffs_aux::DecodeJson: out of memory''
                  (DecodeJson_io_buf E inp) 0 inp this [])
      | Some dec0 \<Rightarrow>
          (case DecodeJson_run E cb json_pointer (DecodeJson_frame E this inp quirks dec0) of
             None \<Rightarrow> None
           | Some Stopped_undefined_behaviour \<Rightarrow> Some Returned_undefined_behaviour
           | Some (At_done ret_error_message m) \<Rightarrow>
               Some (DecodeJson_done cb ret_error_message (io_buf (ctx m))
                       (cursor_index (ctx m)) (input (ctx m)) (callbacks m) (events m))))"

section \<open>A scripted tokenizer and input, for concrete runs\<close>

text \<open>
  To run the driver on a concrete input, the tokenizer and the input are played from
  scripts. Each call of \<open>decode_tokens\<close> takes the next entry of the tokenizer's script:
  the status to return, the tokens to write at \<open>wi\<close> and the number of bytes read. Each
  call of \<open>CopyIn\<close> takes the next entry of the input's script: the message to return,
  the bytes to write at \<open>wi\<close> and whether the input is then closed. The detail bits have
  the values of the Wuffs release that the driver belongs to; the parsers know a few
  numbers, and the base-16 decoder decodes one escape, of two known ones, per call.
\<close>

type_synonym script_decoder = "(status \<times> token list \<times> nat) list"
type_synonym script_input = "(string \<times> bytes \<times> bool) list"

definition script_decode_tokens ::
  "script_decoder \<Rightarrow> token_buffer \<Rightarrow> io_buffer \<Rightarrow> status \<times> script_decoder \<times> token_buffer \<times> io_buffer" where
  "script_decode_tokens d tb ib =
     (case d of
        [] \<Rightarrow> (Status_error ''script: no more tokens'', [], tb, ib)
      | (st, toks, n) # rest \<Rightarrow>
          (st, rest,
           tb\<lparr>tok_data := take (unat (wi (tok_meta tb))) (tok_data tb) @ toks
                  @ drop (unat (wi (tok_meta tb)) + length toks) (tok_data tb),
              tok_meta := (tok_meta tb)\<lparr>wi := wi (tok_meta tb) + of_nat (length toks)\<rparr>\<rparr>,
           ib\<lparr>meta := (meta ib)\<lparr>ri := ri (meta ib) + of_nat n\<rparr>\<rparr>))"

definition script_CopyIn :: "script_input \<Rightarrow> io_buffer \<Rightarrow> string \<times> script_input \<times> io_buffer" where
  "script_CopyIn i ib =
     (case i of
        [] \<Rightarrow> (''script: no more input'', [], ib)
      | (msg, bs, cl) # rest \<Rightarrow>
          (msg, rest,
           ib\<lparr>data := take (unat (wi (meta ib))) (data ib) @ bs
                  @ drop (unat (wi (meta ib)) + length bs) (data ib),
              meta := (meta ib)\<lparr>wi := wi (meta ib) + of_nat (length bs), closed := cl\<rparr>\<rparr>))"

definition script_env ::
  "script_decoder option \<Rightarrow> io_buffer option \<Rightarrow> (script_decoder, script_input) env" where
  "script_env dec0 own =
     \<lparr>alloc = dec0,
      set_quirk_enabled = (\<lambda>d q on. d),
      decode_tokens = script_decode_tokens,
      BringsItsOwnIOBuffer = (\<lambda>i. own),
      CopyIn = script_CopyIn,
      parse_number_u64 = (\<lambda>s. if s = ''0'' then Some 0 else if s = ''1'' then Some 1
                                else if s = ''2'' then Some 2 else None),
      parse_number_i64 = (\<lambda>s. if s = ''42'' then Some 42 else if s = ''7'' then Some 7 else None),
      parse_number_f64 = (\<lambda>s. if s = ''42'' then Some 0x4045000000000000
                                else if s = ''1.5'' then Some 0x3FF8000000000000 else None),
      utf_8__encode = (\<lambda>c. if c = 0x41 then ''A'' else if c = 0xE9 then [CHR 0xC3, CHR 0xA9]
                             else ''?''),
      base_16__decode4 = (\<lambda>n src. if take 4 src = CHR 0x5C # ''x41'' then (Status_ok, 1, 4, ''A'')
                                    else if take 4 src = CHR 0x5C # ''x42''
                                    then (Status_ok, 1, 4, ''B'')
                                    else (Status_error ''base16: bad data'', 0, 0, [])),
      WORKBUF_LEN_MAX_INCL_WORST_CASE = 0,
      STRUCTURE__PUSH = 0x1,
      STRUCTURE__POP = 0x2,
      STRUCTURE__TO_LIST = 0x2000,
      STRING__CONVERT_0_DST_1_SRC_DROP = 0x100,
      STRING__CONVERT_1_DST_1_SRC_COPY = 0x200,
      STRING__CONVERT_1_DST_4_SRC_BACKSLASH_X = 0x800,
      STRING__CHAIN_MUST_BE_UTF_8 = 0x2,
      LITERAL__NULL = 0x2,
      LITERAL__TRUE = 0x8,
      NUMBER__FORMAT_TEXT = 0x400,
      NUMBER__CONTENT_INTEGER_SIGNED = 0x2,
      NUMBER__CONTENT_FLOATING_POINT = 0x1,
      NUMBER__CONTENT_NEG_INF = 0x10,
      NUMBER__CONTENT_POS_INF = 0x20,
      NUMBER__CONTENT_NEG_NAN = 0x40,
      NUMBER__CONTENT_POS_NAN = 0x80\<rparr>"

definition tok :: "int \<Rightarrow> u64 \<Rightarrow> bool \<Rightarrow> u64 \<Rightarrow> token" where
  "tok c d k n = \<lparr>value_base_category = c, value_base_detail = d, continued = k, token_length = n\<rparr>"

definition window :: "bytes \<Rightarrow> nat \<Rightarrow> nat \<Rightarrow> bool \<Rightarrow> io_buffer" where
  "window bs r w cl = \<lparr>data = bs, meta = \<lparr>wi = of_nat w, ri = of_nat r, pos = 0, closed = cl\<rparr>\<rparr>"

text \<open>
  The variables of the macro when the tokenizer has last returned \<open>st\<close> and the token
  window holds \<open>toks\<close>, of which the first \<open>r\<close> are read.
\<close>

definition script_ctx ::
  "status \<Rightarrow> token list \<Rightarrow> nat \<Rightarrow> script_decoder \<Rightarrow> io_buffer \<Rightarrow> string \<Rightarrow> nat \<Rightarrow> script_input
     \<Rightarrow> (script_decoder, script_input) ctx" where
  "script_ctx st toks r d ib msg cur i =
     \<lparr>tok_buf = \<lparr>tok_data = toks,
                 tok_meta = \<lparr>wi = of_nat (length toks), ri = of_nat r, pos = 0, closed = False\<rparr>\<rparr>,
      tok_status = st, dec = d, io_buf = ib, io_error_message = msg,
      cursor_index = of_nat cur, input = i\<rparr>"

text \<open>Callbacks that accept everything, and the same with a \<open>Done\<close> that edits the result.\<close>

definition quiet_callbacks :: "('i, unit) DecodeJsonCallbacks" where
  "quiet_callbacks =
     \<lparr>AppendNull = (\<lambda>this. ([], this)),
      AppendBool = (\<lambda>val this. ([], this)),
      AppendI64 = (\<lambda>val this. ([], this)),
      AppendF64 = (\<lambda>val this. ([], this)),
      AppendTextString = (\<lambda>val this. ([], this)),
      AppendByteString = DecodeJsonCallbacks_AppendByteString,
      Push = (\<lambda>flags this. ([], this)),
      Pop = (\<lambda>flags this. ([], this)),
      Done = DecodeJsonCallbacks_Done\<rparr>"

definition editing_callbacks :: "('i, unit) DecodeJsonCallbacks" where
  "editing_callbacks =
     quiet_callbacks\<lparr>Done := (\<lambda>result inp buffer this.
        (result\<lparr>error_message := ''edited'', cursor_position := 0\<rparr>, inp, buffer, this))\<rparr>"

definition script_frame ::
  "(script_decoder, script_input) ctx \<Rightarrow> u32 \<Rightarrow> string
     \<Rightarrow> (script_decoder, script_input, unit) frame" where
  "script_frame c d s = \<lparr>ctx = c, depth = d, str = s, callbacks = (), events = []\<rparr>"

text \<open>Callbacks whose \<open>Push\<close> refuses.\<close>

definition refusing_callbacks :: "('i, unit) DecodeJsonCallbacks" where
  "refusing_callbacks = quiet_callbacks\<lparr>Push := (\<lambda>flags this. (''too deep'', this))\<rparr>"

text \<open>
  The tokens of an object with the one key \<open>a\<close> and the value \<open>1\<close>, and the
  variables of the macro when the tokenizer has delivered all of them and the first \<open>n\<close>
  are read (each token is one byte long).
\<close>

definition object_tokens :: "token list" where
  "object_tokens = [tok 1 0x4011 False 1, tok 2 0x102 True 1, tok 2 0x203 True 1,
     tok 2 0x102 False 1, tok 0 0 False 1, tok 5 0x403 False 1, tok 1 0x1042 False 1]"

definition object_ctx :: "nat \<Rightarrow> (script_decoder, script_input) ctx" where
  "object_ctx n = script_ctx Status_ok object_tokens n []
     (window [CHR ''{'', CHR 0x22, CHR ''a'', CHR 0x22, CHR '':'', CHR ''1'', CHR ''}''] 7 7 True)
     [] n []"

section \<open>Reading the log\<close>

text \<open>
  A value is completed by a \<open>Pop\<close> or by any of the \<open>Append\<close> calls. \<open>track\<close> follows
  \<open>depth\<close> along the log as the main loop does, from left to right: a \<open>Push\<close> adds one,
  a \<open>Pop\<close> takes one away, and the tracking ends (\<open>None\<close>) at the first completed value
  that leaves the depth at 0.
\<close>

fun is_Push :: "event \<Rightarrow> bool" where
  "is_Push (Ev_Push flags) = True"
| "is_Push _ = False"

fun is_Pop :: "event \<Rightarrow> bool" where
  "is_Pop (Ev_Pop flags) = True"
| "is_Pop _ = False"

fun is_Done :: "event \<Rightarrow> bool" where
  "is_Done (Ev_Done result) = True"
| "is_Done _ = False"

definition completes_value :: "event \<Rightarrow> bool" where
  "completes_value e \<longleftrightarrow> \<not> is_Push e \<and> \<not> is_Done e"

definition depth_change :: "u32 \<Rightarrow> event \<Rightarrow> u32" where
  "depth_change d e = (if is_Push e then d + 1 else if is_Pop e then d - 1 else d)"

definition track :: "u32 option \<Rightarrow> event \<Rightarrow> u32 option" where
  "track st e =
     (case st of
        None \<Rightarrow> None
      | Some d \<Rightarrow>
          if completes_value e \<and> depth_change d e = 0 then None
          else Some (depth_change d e))"

definition pushes :: "event list \<Rightarrow> nat" where
  "pushes log = length (filter is_Push log)"

definition pops :: "event list \<Rightarrow> nat" where
  "pops log = length (filter is_Pop log)"

text \<open>
  What one round of the main loop may do to the log and to \<open>depth\<close>: nothing, or one
  more call in the log with the depth changed accordingly; a round that goes on after a
  completed value leaves a depth that is not 0, and a round that ends the loop either
  carries a message or has completed a value at depth 0.
\<close>

definition step_effect ::
  "('d, 'i) ctx \<Rightarrow> event list \<Rightarrow> u32 \<Rightarrow> ('d, 'i, 'c) main_step \<Rightarrow> bool" where
  "step_effect c log d out =
     (case out of
        Inr m1 \<Rightarrow>
          ctx m1 = c
          \<and> ((events m1 = log \<and> depth m1 = d)
             \<or> (\<exists>e. events m1 = log @ [e] \<and> \<not> is_Done e
                   \<and> depth m1 = depth_change d e
                   \<and> (completes_value e \<longrightarrow> depth m1 \<noteq> 0)))
      | Inl Stopped_undefined_behaviour \<Rightarrow> True
      | Inl (At_done msg m1) \<Rightarrow>
          (events m1 = log \<and> depth m1 = d \<and> msg \<noteq> [])
          \<or> (\<exists>e. events m1 = log @ [e] \<and> \<not> is_Done e
                \<and> ((is_Push e \<and> msg \<noteq> [] \<and> depth m1 = d)
                    \<or> (completes_value e \<and> depth m1 = depth_change d e
                        \<and> (msg \<noteq> [] \<or> depth m1 = 0)))))"

text \<open>
  The number of containers that are open after the calls of a log, as an integer: the
  \<open>Push\<close> calls less the \<open>Pop\<close> calls. A log is well nested when, at every point of
  it, this number is neither negative nor \<open>2 ^ 32\<close> or more. \<open>top_level_values\<close> lists
  the calls, counted from 1, that complete a value while no container is open.
\<close>

definition open_containers :: "event list \<Rightarrow> int" where
  "open_containers log = int (pushes log) - int (pops log)"

definition well_nested :: "event list \<Rightarrow> bool" where
  "well_nested log =
     list_all (\<lambda>n. 0 \<le> open_containers (take n log) \<and> open_containers (take n log) < 2 ^ 32)
       [0..<Suc (length log)]"

definition top_level_values :: "event list \<Rightarrow> nat list" where
  "top_level_values log =
     filter (\<lambda>n. completes_value (log ! (n - 1)) \<and> open_containers (take n log) \<le> 0)
       [1..<Suc (length log)]"

section \<open>Counting the calls of \<open>Done\<close>\<close>

text \<open>
  A callbacks object that wraps another: it passes every call on to \<open>cb\<close> and counts,
  beside the state of \<open>cb\<close>, how often its \<open>Done\<close> has been called. \<open>with_count\<close> puts
  a count beside the callbacks object in the local variables of \<open>DecodeJson\<close>, and
  \<open>returned_with_count\<close> beside the one that \<open>DecodeJson\<close> hands back.
\<close>

definition kept :: "nat \<Rightarrow> string \<times> 'c \<Rightarrow> string \<times> ('c \<times> nat)" where
  "kept n r = (fst r, (snd r, n))"

definition counting_Done :: "('i, 'c) DecodeJsonCallbacks \<Rightarrow> ('i, 'c \<times> nat) DecodeJsonCallbacks" where
  "counting_Done cb =
     \<lparr>AppendNull = (\<lambda>this. kept (snd this) (AppendNull cb (fst this))),
      AppendBool = (\<lambda>val this. kept (snd this) (AppendBool cb val (fst this))),
      AppendI64 = (\<lambda>val this. kept (snd this) (AppendI64 cb val (fst this))),
      AppendF64 = (\<lambda>val this. kept (snd this) (AppendF64 cb val (fst this))),
      AppendTextString = (\<lambda>val this. kept (snd this) (AppendTextString cb val (fst this))),
      AppendByteString = (\<lambda>val this. kept (snd this) (AppendByteString cb val (fst this))),
      Push = (\<lambda>flags this. kept (snd this) (Push cb flags (fst this))),
      Pop = (\<lambda>flags this. kept (snd this) (Pop cb flags (fst this))),
      Done = (\<lambda>result inp buffer this.
        case Done cb result inp buffer (fst this) of
          (result', inp', buffer', this') \<Rightarrow> (result', inp', buffer', (this', Suc (snd this))))\<rparr>"

definition with_count :: "nat \<Rightarrow> ('d, 'i, 'c) frame \<Rightarrow> ('d, 'i, 'c \<times> nat) frame" where
  "with_count n m =
     \<lparr>ctx = ctx m, depth = depth m, str = str m, callbacks = (callbacks m, n), events = events m\<rparr>"

fun stopped_with_count :: "nat \<Rightarrow> ('d, 'i, 'c) stopped \<Rightarrow> ('d, 'i, 'c \<times> nat) stopped" where
  "stopped_with_count n (At_done ret_error_message m) = At_done ret_error_message (with_count n m)"
| "stopped_with_count n Stopped_undefined_behaviour = Stopped_undefined_behaviour"

fun returned_with_count :: "nat \<Rightarrow> 'c returned \<Rightarrow> ('c \<times> nat) returned" where
  "returned_with_count n (Returned result this log) = Returned result (this, n) log"
| "returned_with_count n Returned_undefined_behaviour = Returned_undefined_behaviour"

section \<open>Facts about loops and about the scripted environment\<close>

lemma while_true_exit: "body s = Some (Inl r) \<Longrightarrow> while_true body s = Some r"
  by (subst while_true.simps) simp

lemma while_true_again: "body s = Some (Inr s') \<Longrightarrow> while_true body s = while_true body s'"
  by (subst while_true.simps) simp

lemma while_true_diverge: "body s = None \<Longrightarrow> while_true body s = None"
  by (subst while_true.simps) simp

lemma while_true_invariant_aux:
  fixes b :: "'s \<Rightarrow> ('r + 's) option"
  shows "while_true b s = Some r \<Longrightarrow>
     (\<forall>s s'. I s \<longrightarrow> b s = Some (Inr s') \<longrightarrow> I s') \<longrightarrow>
     (\<forall>s r. I s \<longrightarrow> b s = Some (Inl r) \<longrightarrow> Q r) \<longrightarrow> I s \<longrightarrow> Q r"
proof (rule while_true.raw_induct
    [where P = "\<lambda>b s r. (\<forall>s s'. I s \<longrightarrow> b s = Some (Inr s') \<longrightarrow> I s') \<longrightarrow>
       (\<forall>s r. I s \<longrightarrow> b s = Some (Inl r) \<longrightarrow> Q r) \<longrightarrow> I s \<longrightarrow> Q r"])
  fix wt :: "('s \<Rightarrow> ('r + 's) option) \<Rightarrow> 's \<Rightarrow> 'r option" and b s r
  assume IH: "\<And>b s r. wt b s = Some r \<Longrightarrow>
       (\<forall>s s'. I s \<longrightarrow> b s = Some (Inr s') \<longrightarrow> I s') \<longrightarrow>
       (\<forall>s r. I s \<longrightarrow> b s = Some (Inl r) \<longrightarrow> Q r) \<longrightarrow> I s \<longrightarrow> Q r"
    and unfolded: "(case b s of None \<Rightarrow> None | Some (Inl r) \<Rightarrow> Some r
                    | Some (Inr s') \<Rightarrow> wt b s') = Some r"
  show "(\<forall>s s'. I s \<longrightarrow> b s = Some (Inr s') \<longrightarrow> I s') \<longrightarrow>
       (\<forall>s r. I s \<longrightarrow> b s = Some (Inl r) \<longrightarrow> Q r) \<longrightarrow> I s \<longrightarrow> Q r"
  proof (intro impI)
    assume step: "\<forall>s s'. I s \<longrightarrow> b s = Some (Inr s') \<longrightarrow> I s'"
      and exit: "\<forall>s r. I s \<longrightarrow> b s = Some (Inl r) \<longrightarrow> Q r"
      and I: "I s"
    show "Q r"
    proof (cases "b s")
      case None
      with unfolded show ?thesis by simp
    next
      case (Some x)
      show ?thesis
      proof (cases x)
        case (Inl r')
        with Some unfolded have "r' = r" by simp
        with Inl Some I exit show ?thesis by blast
      next
        case (Inr s')
        with Some unfolded have "wt b s' = Some r" by simp
        moreover from Inr Some I step have "I s'" by blast
        ultimately show ?thesis using IH step exit by blast
      qed
    qed
  qed
qed

lemma while_true_invariant:
  assumes run: "while_true body s = Some r"
    and init: "I s"
    and step: "\<And>s s'. I s \<Longrightarrow> body s = Some (Inr s') \<Longrightarrow> I s'"
    and exit: "\<And>s r. I s \<Longrightarrow> body s = Some (Inl r) \<Longrightarrow> Q r"
  shows "Q r"
  using while_true_invariant_aux [OF run, of I Q] init step exit by blast

text \<open>
  Claim C3. Whenever the tokenizer's last status is \<open>short_read\<close> and the token window
  has no unread token, the macro jumps to \<open>done\<close> with the latched \<open>io_error_message\<close>
  if that is not empty; otherwise with "bad cursor_index" if \<open>cursor_index\<close> differs from
  \<open>io_buf->meta.ri\<close>; otherwise with "io_buf is closed" if the byte window is closed;
  otherwise it compacts the byte window and jumps to \<open>done\<close> with "io_buf is full" if
  \<open>wi\<close> has reached the capacity; otherwise it calls \<open>CopyIn\<close>, stores the returned
  message in \<open>io_error_message\<close> and goes on to the tokenizer without failing (the work
  buffer length being 0). A message that is not empty surfaces when the tokenizer
  answers \<open>short_read\<close> again without a token.
\<close>

theorem refill_short_read:
  assumes sr: "tok_status s = Suspension_short_read"
    and empty: "wi (tok_meta (tok_buf s)) \<le> ri (tok_meta (tok_buf s))"
  shows
    "(io_error_message s \<noteq> [] \<longrightarrow>
        GET_THE_NEXT_TOKEN E s
          = Some (Goto_done (io_error_message s) (s\<lparr>io_error_message := []\<rparr>)))
     \<and> (io_error_message s = [] \<and> cursor_index s \<noteq> ri (meta (io_buf s)) \<longrightarrow>
        GET_THE_NEXT_TOKEN E s
          = Some (Goto_done ''wuffs_aux::DecodeJson: internal error: bad cursor_index'' s))
     \<and> (io_error_message s = [] \<and> cursor_index s = ri (meta (io_buf s))
          \<and> closed (meta (io_buf s)) \<longrightarrow>
        GET_THE_NEXT_TOKEN E s
          = Some (Goto_done ''wuffs_aux::DecodeJson: internal error: io_buf is closed'' s))
     \<and> (io_error_message s = [] \<and> cursor_index s = ri (meta (io_buf s))
          \<and> \<not> closed (meta (io_buf s))
          \<and> length (data (wuffs_base__io_buffer__compact (io_buf s)))
               \<le> unat (wi (meta (wuffs_base__io_buffer__compact (io_buf s)))) \<longrightarrow>
        GET_THE_NEXT_TOKEN E s
          = Some (Goto_done ''wuffs_aux::DecodeJson: internal error: io_buf is full''
                    (s\<lparr>io_buf := wuffs_base__io_buffer__compact (io_buf s)\<rparr>)))
     \<and> (io_error_message s = [] \<and> cursor_index s = ri (meta (io_buf s))
          \<and> \<not> closed (meta (io_buf s))
          \<and> unat (wi (meta (wuffs_base__io_buffer__compact (io_buf s))))
               < length (data (wuffs_base__io_buffer__compact (io_buf s)))
          \<and> WORKBUF_LEN_MAX_INCL_WORST_CASE E = 0
          \<and> CopyIn E (input s) (wuffs_base__io_buffer__compact (io_buf s)) = (msg, inp', b')
          \<and> decode_tokens E (dec s) (tok_buf s) b' = (st, d', tb', ib') \<longrightarrow>
        GET_THE_NEXT_TOKEN E s
          = GET_THE_NEXT_TOKEN E
              (s\<lparr>io_buf := ib', cursor_index := 0, io_error_message := msg, input := inp',
                 tok_status := st, dec := d', tok_buf := tb'\<rparr>))
     \<and> (io_error_message s = [] \<and> cursor_index s = ri (meta (io_buf s))
          \<and> \<not> closed (meta (io_buf s))
          \<and> unat (wi (meta (wuffs_base__io_buffer__compact (io_buf s))))
               < length (data (wuffs_base__io_buffer__compact (io_buf s)))
          \<and> WORKBUF_LEN_MAX_INCL_WORST_CASE E = 0
          \<and> CopyIn E (input s) (wuffs_base__io_buffer__compact (io_buf s)) = (msg, inp', b')
          \<and> decode_tokens E (dec s) (tok_buf s) b' = (st, d', tb', ib')
          \<and> msg \<noteq> [] \<and> st = Suspension_short_read
          \<and> wi (tok_meta tb') \<le> ri (tok_meta tb') \<longrightarrow>
        GET_THE_NEXT_TOKEN E s
          = Some (Goto_done msg
              (s\<lparr>io_buf := ib', cursor_index := 0, io_error_message := [], input := inp',
                 tok_status := st, dec := d', tok_buf := tb'\<rparr>)))"
proof -
  have body: "GET_THE_NEXT_TOKEN_body E s
      = (case GET_THE_NEXT_TOKEN_refill E s of
           Inl (m, s') \<Rightarrow> Some (Inl (Goto_done m s'))
         | Inr s' \<Rightarrow> Some (Inr s'))"
    using empty by (simp add: GET_THE_NEXT_TOKEN_body_def)
  have refill: "GET_THE_NEXT_TOKEN_refill E s
      = (case GET_THE_NEXT_TOKEN_compact s of
           Inl e \<Rightarrow> Inl e
         | Inr s1 \<Rightarrow>
             (case CopyIn E (input s1) (io_buf s1) of
                (msg, inp', b') \<Rightarrow>
                  GET_THE_NEXT_TOKEN_decode E
                    (s1\<lparr>io_error_message := msg, input := inp', io_buf := b'\<rparr>)))"
    using sr by (simp add: GET_THE_NEXT_TOKEN_refill_def)
  let ?c = "wuffs_base__io_buffer__compact (io_buf s)"
  have c1: "io_error_message s \<noteq> [] \<Longrightarrow>
        GET_THE_NEXT_TOKEN E s
          = Some (Goto_done (io_error_message s) (s\<lparr>io_error_message := []\<rparr>))"
    unfolding GET_THE_NEXT_TOKEN_def
    by (rule while_true_exit) (simp add: body refill GET_THE_NEXT_TOKEN_compact_def)
  have c2: "io_error_message s = [] \<Longrightarrow> cursor_index s \<noteq> ri (meta (io_buf s)) \<Longrightarrow>
        GET_THE_NEXT_TOKEN E s
          = Some (Goto_done ''wuffs_aux::DecodeJson: internal error: bad cursor_index'' s)"
    unfolding GET_THE_NEXT_TOKEN_def
    by (rule while_true_exit) (simp add: body refill GET_THE_NEXT_TOKEN_compact_def)
  have c3: "io_error_message s = [] \<Longrightarrow> cursor_index s = ri (meta (io_buf s)) \<Longrightarrow>
        closed (meta (io_buf s)) \<Longrightarrow>
        GET_THE_NEXT_TOKEN E s
          = Some (Goto_done ''wuffs_aux::DecodeJson: internal error: io_buf is closed'' s)"
    unfolding GET_THE_NEXT_TOKEN_def
    by (rule while_true_exit) (simp add: body refill GET_THE_NEXT_TOKEN_compact_def)
  have c4: "io_error_message s = [] \<Longrightarrow> cursor_index s = ri (meta (io_buf s)) \<Longrightarrow>
        \<not> closed (meta (io_buf s)) \<Longrightarrow> length (data ?c) \<le> unat (wi (meta ?c)) \<Longrightarrow>
        GET_THE_NEXT_TOKEN E s
          = Some (Goto_done ''wuffs_aux::DecodeJson: internal error: io_buf is full''
                    (s\<lparr>io_buf := ?c\<rparr>))"
    unfolding GET_THE_NEXT_TOKEN_def
    by (rule while_true_exit) (simp add: body refill GET_THE_NEXT_TOKEN_compact_def)
  have ri0: "ri (meta ?c) = 0"
    by (simp add: wuffs_base__io_buffer__compact_def Let_def)
  have c5: "GET_THE_NEXT_TOKEN E s
          = GET_THE_NEXT_TOKEN E
              (s\<lparr>io_buf := ib', cursor_index := 0, io_error_message := msg, input := inp',
                 tok_status := st, dec := d', tok_buf := tb'\<rparr>)"
    if "io_error_message s = []" "cursor_index s = ri (meta (io_buf s))"
        "\<not> closed (meta (io_buf s))" "unat (wi (meta ?c)) < length (data ?c)"
        "WORKBUF_LEN_MAX_INCL_WORST_CASE E = 0"
        "CopyIn E (input s) ?c = (msg, inp', b')"
        "decode_tokens E (dec s) (tok_buf s) b' = (st, d', tb', ib')"
    unfolding GET_THE_NEXT_TOKEN_def
    by (rule while_true_again)
       (use that ri0 in \<open>simp add: body refill GET_THE_NEXT_TOKEN_compact_def
          GET_THE_NEXT_TOKEN_decode_def\<close>)
  have c6: "GET_THE_NEXT_TOKEN E
              (s\<lparr>io_buf := ib', cursor_index := 0, io_error_message := msg, input := inp',
                 tok_status := st, dec := d', tok_buf := tb'\<rparr>)
          = Some (Goto_done msg
              (s\<lparr>io_buf := ib', cursor_index := 0, io_error_message := [], input := inp',
                 tok_status := st, dec := d', tok_buf := tb'\<rparr>))"
    if "msg \<noteq> []" "st = Suspension_short_read" "wi (tok_meta tb') \<le> ri (tok_meta tb')"
    unfolding GET_THE_NEXT_TOKEN_def
    by (rule while_true_exit)
       (use that in \<open>simp add: GET_THE_NEXT_TOKEN_body_def GET_THE_NEXT_TOKEN_refill_def
          GET_THE_NEXT_TOKEN_compact_def\<close>)
  show ?thesis
    using c1 c2 c3 c4 c5 c6 by simp
qed


lemma script_env_simps:
  "alloc (script_env a b) = a"
  "set_quirk_enabled (script_env a b) = (\<lambda>d q on. d)"
  "decode_tokens (script_env a b) = script_decode_tokens"
  "BringsItsOwnIOBuffer (script_env a b) = (\<lambda>i. b)"
  "CopyIn (script_env a b) = script_CopyIn"
  "WORKBUF_LEN_MAX_INCL_WORST_CASE (script_env a b) = 0"
  "STRUCTURE__PUSH (script_env a b) = 0x1"
  "STRUCTURE__POP (script_env a b) = 0x2"
  "STRUCTURE__TO_LIST (script_env a b) = 0x2000"
  "STRING__CONVERT_0_DST_1_SRC_DROP (script_env a b) = 0x100"
  "STRING__CONVERT_1_DST_1_SRC_COPY (script_env a b) = 0x200"
  "STRING__CONVERT_1_DST_4_SRC_BACKSLASH_X (script_env a b) = 0x800"
  "STRING__CHAIN_MUST_BE_UTF_8 (script_env a b) = 0x2"
  "LITERAL__NULL (script_env a b) = 0x2"
  "LITERAL__TRUE (script_env a b) = 0x8"
  "NUMBER__FORMAT_TEXT (script_env a b) = 0x400"
  "NUMBER__CONTENT_INTEGER_SIGNED (script_env a b) = 0x2"
  "NUMBER__CONTENT_FLOATING_POINT (script_env a b) = 0x1"
  "NUMBER__CONTENT_NEG_INF (script_env a b) = 0x10"
  "NUMBER__CONTENT_POS_INF (script_env a b) = 0x20"
  "NUMBER__CONTENT_NEG_NAN (script_env a b) = 0x40"
  "NUMBER__CONTENT_POS_NAN (script_env a b) = 0x80"
  by (simp_all add: script_env_def)

lemma script_env_parsers:
  "parse_number_u64 (script_env a b) s
     = (if s = ''0'' then Some 0 else if s = ''1'' then Some 1
        else if s = ''2'' then Some 2 else None)"
  "parse_number_i64 (script_env a b) s
     = (if s = ''42'' then Some 42 else if s = ''7'' then Some 7 else None)"
  "parse_number_f64 (script_env a b) s
     = (if s = ''42'' then Some 0x4045000000000000
        else if s = ''1.5'' then Some 0x3FF8000000000000 else None)"
  "utf_8__encode (script_env a b) c
     = (if c = 0x41 then ''A'' else if c = 0xE9 then [CHR 0xC3, CHR 0xA9] else ''?'')"
  "base_16__decode4 (script_env a b) n src
     = (if take 4 src = CHR 0x5C # ''x41'' then (Status_ok, 1, 4, ''A'')
        else if take 4 src = CHR 0x5C # ''x42'' then (Status_ok, 1, 4, ''B'')
        else (Status_error ''base16: bad data'', 0, 0, []))"
  by (simp_all add: script_env_def)

lemma window_simps:
  "data (window bs r w cl) = bs"
  "meta (window bs r w cl) = \<lparr>wi = of_nat w, ri = of_nat r, pos = 0, closed = cl\<rparr>"
  by (simp_all add: window_def)

text \<open>
  The five outcomes on a two-byte window: a latched message, a cursor that is not at
  \<open>ri\<close>, a closed window, a full window, and a pull whose message surfaces at the next
  \<open>short_read\<close>.
\<close>

theorem refill_short_read_witness:
  "GET_THE_NEXT_TOKEN (script_env (Some []) None)
      (script_ctx Suspension_short_read [] 0 [] (window ''[7'' 2 2 False) ''disk gone'' 2 [])
     = Some (Goto_done ''disk gone''
         (script_ctx Suspension_short_read [] 0 [] (window ''[7'' 2 2 False) [] 2 []))
   \<and> GET_THE_NEXT_TOKEN (script_env (Some []) None)
      (script_ctx Suspension_short_read [] 0 [] (window ''[7'' 2 2 False) [] 1 [])
     = Some (Goto_done ''wuffs_aux::DecodeJson: internal error: bad cursor_index''
         (script_ctx Suspension_short_read [] 0 [] (window ''[7'' 2 2 False) [] 1 []))
   \<and> GET_THE_NEXT_TOKEN (script_env (Some []) None)
      (script_ctx Suspension_short_read [] 0 [] (window ''[7'' 2 2 True) [] 2 [])
     = Some (Goto_done ''wuffs_aux::DecodeJson: internal error: io_buf is closed''
         (script_ctx Suspension_short_read [] 0 [] (window ''[7'' 2 2 True) [] 2 []))
   \<and> GET_THE_NEXT_TOKEN (script_env (Some []) None)
      (script_ctx Suspension_short_read [] 0 [] (window ''[7'' 0 2 False) [] 0 [])
     = Some (Goto_done ''wuffs_aux::DecodeJson: internal error: io_buf is full''
         (script_ctx Suspension_short_read [] 0 [] (window ''[7'' 0 2 False) [] 0 []))
   \<and> GET_THE_NEXT_TOKEN (script_env (Some []) None)
      (script_ctx Suspension_short_read [] 0 [(Suspension_short_read, [], 0)]
         (window ''[7'' 2 2 False) [] 2 [(''disk gone'', [], False)])
     = Some (Goto_done ''disk gone''
         (script_ctx Suspension_short_read [] 0 []
            \<lparr>data = ''[7'', meta = \<lparr>wi = 0, ri = 0, pos = 2, closed = False\<rparr>\<rparr> [] 0 []))"
proof -
  let ?E = "script_env (Some []) None :: (script_decoder, script_input) env"
  let ?s5 = "script_ctx Suspension_short_read [] 0 [(Suspension_short_read, [], 0)]
         (window ''[7'' 2 2 False) [] 2 [(''disk gone'', [], False)]"
  let ?b = "\<lparr>data = ''[7'', meta = \<lparr>wi = 0, ri = 0, pos = 2, closed = False\<rparr>\<rparr>"
  have c: "wuffs_base__io_buffer__compact (window ''[7'' 2 2 cl)
      = \<lparr>data = ''[7'', meta = \<lparr>wi = 0, ri = 0, pos = 2, closed = cl\<rparr>\<rparr>" for cl
    by (simp add: wuffs_base__io_buffer__compact_def window_def wuffs_base__u64__sat_add_def)
  have c0: "wuffs_base__io_buffer__compact (window ''[7'' 0 2 False) = window ''[7'' 0 2 False"
    by (simp add: wuffs_base__io_buffer__compact_def window_def)
  have w1: "GET_THE_NEXT_TOKEN ?E
      (script_ctx Suspension_short_read [] 0 [] (window ''[7'' 2 2 False) ''disk gone'' 2 [])
     = Some (Goto_done ''disk gone''
         (script_ctx Suspension_short_read [] 0 [] (window ''[7'' 2 2 False) [] 2 []))"
    using refill_short_read [where E = ?E
        and s = "script_ctx Suspension_short_read [] 0 [] (window ''[7'' 2 2 False) ''disk gone'' 2 []"]
    by (simp add: script_ctx_def)
  have w2: "GET_THE_NEXT_TOKEN ?E
      (script_ctx Suspension_short_read [] 0 [] (window ''[7'' 2 2 False) [] 1 [])
     = Some (Goto_done ''wuffs_aux::DecodeJson: internal error: bad cursor_index''
         (script_ctx Suspension_short_read [] 0 [] (window ''[7'' 2 2 False) [] 1 []))"
    using refill_short_read [where E = ?E
        and s = "script_ctx Suspension_short_read [] 0 [] (window ''[7'' 2 2 False) [] 1 []"]
    by (simp add: script_ctx_def window_def)
  have w3: "GET_THE_NEXT_TOKEN ?E
      (script_ctx Suspension_short_read [] 0 [] (window ''[7'' 2 2 True) [] 2 [])
     = Some (Goto_done ''wuffs_aux::DecodeJson: internal error: io_buf is closed''
         (script_ctx Suspension_short_read [] 0 [] (window ''[7'' 2 2 True) [] 2 []))"
    using refill_short_read [where E = ?E
        and s = "script_ctx Suspension_short_read [] 0 [] (window ''[7'' 2 2 True) [] 2 []"]
    by (simp add: script_ctx_def window_def)
  have w4: "GET_THE_NEXT_TOKEN ?E
      (script_ctx Suspension_short_read [] 0 [] (window ''[7'' 0 2 False) [] 0 [])
     = Some (Goto_done ''wuffs_aux::DecodeJson: internal error: io_buf is full''
         (script_ctx Suspension_short_read [] 0 [] (window ''[7'' 0 2 False) [] 0 []))"
    using refill_short_read [where E = ?E
        and s = "script_ctx Suspension_short_read [] 0 [] (window ''[7'' 0 2 False) [] 0 []"]
    by (simp add: script_ctx_def c0) (simp add: window_def)
  have w5: "GET_THE_NEXT_TOKEN ?E ?s5 = Some (Goto_done ''disk gone''
         (script_ctx Suspension_short_read [] 0 [] ?b [] 0 []))"
    using refill_short_read [where E = ?E and s = ?s5 and msg = "''disk gone''" and inp' = "[]"
        and b' = ?b and st = Suspension_short_read and d' = "[]"
        and tb' = "\<lparr>tok_data = [], tok_meta = \<lparr>wi = 0, ri = 0, pos = 0, closed = False\<rparr>\<rparr>"
        and ib' = ?b]
    by (auto simp add: script_ctx_def c script_env_simps script_CopyIn_def
      script_decode_tokens_def window_simps)
  from w1 w2 w3 w4 w5 show ?thesis by blast
qed










lemma DecodeJson_Returned:
  assumes "DecodeJson E cb this inp quirks json_pointer = Some (Returned r c log)"
  shows "\<exists>msg buf cur inp' this' log'.
           DecodeJson_done cb msg buf cur inp' this' log' = Returned r c log
           \<and> ((alloc E = None \<and> msg = ''wuffs_aux::DecodeJson: out of memory''
                 \<and> buf = DecodeJson_io_buf E inp \<and> cur = 0 \<and> inp' = inp \<and> this' = this
                 \<and> log' = [])
               \<or> (\<exists>dec0 m. alloc E = Some dec0
                     \<and> DecodeJson_run E cb json_pointer (DecodeJson_frame E this inp quirks dec0)
                         = Some (At_done msg m)
                     \<and> buf = io_buf (ctx m) \<and> cur = cursor_index (ctx m)
                     \<and> inp' = input (ctx m) \<and> this' = callbacks m \<and> log' = events m))"
proof (cases "alloc E")
  case None
  with assms show ?thesis by (simp add: DecodeJson_def)
next
  case (Some dec0)
  with assms obtain st where run: "DecodeJson_run E cb json_pointer
      (DecodeJson_frame E this inp quirks dec0) = Some st"
    by (auto simp add: DecodeJson_def split: option.splits)
  show ?thesis
  proof (cases st)
    case (At_done msg m)
    with assms Some run show ?thesis by (simp add: DecodeJson_def)
  next
    case Stopped_undefined_behaviour
    with assms Some run show ?thesis by (simp add: DecodeJson_def)
  qed
qed



lemmas VBC_defs =
  WUFFS_BASE__TOKEN__VBC__FILLER_def WUFFS_BASE__TOKEN__VBC__STRUCTURE_def
  WUFFS_BASE__TOKEN__VBC__STRING_def WUFFS_BASE__TOKEN__VBC__UNICODE_CODE_POINT_def
  WUFFS_BASE__TOKEN__VBC__LITERAL_def WUFFS_BASE__TOKEN__VBC__NUMBER_def

lemmas driver_defs =
  DecodeJson_def DecodeJson_frame_def DecodeJson_io_buf_def DecodeJson_run_def
  DecodeJson_pointer_loop_def DecodeJson_pointer_step_def DecodeJson_main_loop_def
  DecodeJson_main_step_def DecodeJson_token_def DecodeJson_structure_def
  DecodeJson_string_def DecodeJson_string_end_def DecodeJson_unicode_code_point_def
  DecodeJson_literal_def DecodeJson_number_def attempt_i64_def attempt_f64_def
  call_AppendF64_def parsed_a_value_def fail_def logged_def DecodeJson_done_def
  GET_THE_NEXT_TOKEN_def GET_THE_NEXT_TOKEN_body_def GET_THE_NEXT_TOKEN_refill_def
  GET_THE_NEXT_TOKEN_decode_def GET_THE_NEXT_TOKEN_compact_def GET_THE_NEXT_TOKEN_pop_def
  token_src_def wuffs_base__slice_token__writer_def wuffs_base__u64__sat_add_def

lemmas script_defs =
  script_env_simps script_env_parsers script_decode_tokens_def script_CopyIn_def
  window_simps tok_def script_ctx_def quiet_callbacks_def editing_callbacks_def
  DecodeJsonCallbacks_Done_def DecodeJsonCallbacks_AppendByteString_def



text \<open>
  Claim C6. A Number token in text format is parsed as a signed integer exactly when
  \<open>CONTENT_INTEGER_SIGNED\<close> is set, and a successful parse is reported through
  \<open>AppendI64\<close> with the parsed value, also when the floating point bit is set as well.
  Only when that did not succeed is the token parsed as a floating point number, exactly
  when \<open>CONTENT_FLOATING_POINT\<close> is set, and a successful parse is reported through
  \<open>AppendF64\<close>. A Number token not in text format is reported through \<open>AppendF64\<close>
  with the bit pattern \<open>0xFFF0000000000000\<close>, \<open>0x7FF0000000000000\<close>,
  \<open>0xFFFFFFFFFFFFFFFF\<close> or \<open>0x7FFFFFFFFFFFFFFF\<close> for the first of the bits
  \<open>CONTENT_NEG_INF\<close>, \<open>CONTENT_POS_INF\<close>, \<open>CONTENT_NEG_NAN\<close>, \<open>CONTENT_POS_NAN\<close>
  that is set. Every other Number token ends the call with the "unexpected token"
  message.
\<close>

theorem number_dispatch:
  assumes number: "value_base_category token = WUFFS_BASE__TOKEN__VBC__NUMBER"
  shows
    "(value_base_detail token AND NUMBER__FORMAT_TEXT E \<noteq> 0
        \<and> value_base_detail token AND NUMBER__CONTENT_INTEGER_SIGNED E \<noteq> 0
        \<and> parse_number_i64 E (token_src (io_buf (ctx m)) token_ptr token_len) = Some i \<longrightarrow>
      DecodeJson_token E cb token token_ptr token_len m
        = Some (parsed_a_value (fst (AppendI64 cb i (callbacks m)))
            (m\<lparr>callbacks := snd (AppendI64 cb i (callbacks m)),
               events := events m @ [Ev_AppendI64 i]\<rparr>)))
     \<and> (value_base_detail token AND NUMBER__FORMAT_TEXT E \<noteq> 0
        \<and> (value_base_detail token AND NUMBER__CONTENT_INTEGER_SIGNED E = 0
             \<or> parse_number_i64 E (token_src (io_buf (ctx m)) token_ptr token_len) = None)
        \<and> value_base_detail token AND NUMBER__CONTENT_FLOATING_POINT E \<noteq> 0
        \<and> parse_number_f64 E (token_src (io_buf (ctx m)) token_ptr token_len) = Some x \<longrightarrow>
      DecodeJson_token E cb token token_ptr token_len m
        = Some (parsed_a_value (fst (AppendF64 cb x (callbacks m)))
            (m\<lparr>callbacks := snd (AppendF64 cb x (callbacks m)),
               events := events m @ [Ev_AppendF64 x]\<rparr>)))
     \<and> (value_base_detail token AND NUMBER__FORMAT_TEXT E \<noteq> 0
        \<and> (value_base_detail token AND NUMBER__CONTENT_INTEGER_SIGNED E = 0
             \<or> parse_number_i64 E (token_src (io_buf (ctx m)) token_ptr token_len) = None)
        \<and> (value_base_detail token AND NUMBER__CONTENT_FLOATING_POINT E = 0
             \<or> parse_number_f64 E (token_src (io_buf (ctx m)) token_ptr token_len) = None) \<longrightarrow>
      DecodeJson_token E cb token token_ptr token_len m
        = Some (Inl (At_done unexpected_token m)))
     \<and> (value_base_detail token AND NUMBER__FORMAT_TEXT E = 0
        \<and> value_base_detail token AND NUMBER__CONTENT_NEG_INF E \<noteq> 0 \<longrightarrow>
      DecodeJson_token E cb token token_ptr token_len m
        = Some (parsed_a_value (fst (AppendF64 cb 0xFFF0000000000000 (callbacks m)))
            (m\<lparr>callbacks := snd (AppendF64 cb 0xFFF0000000000000 (callbacks m)),
               events := events m @ [Ev_AppendF64 0xFFF0000000000000]\<rparr>)))
     \<and> (value_base_detail token AND NUMBER__FORMAT_TEXT E = 0
        \<and> value_base_detail token AND NUMBER__CONTENT_NEG_INF E = 0
        \<and> value_base_detail token AND NUMBER__CONTENT_POS_INF E \<noteq> 0 \<longrightarrow>
      DecodeJson_token E cb token token_ptr token_len m
        = Some (parsed_a_value (fst (AppendF64 cb 0x7FF0000000000000 (callbacks m)))
            (m\<lparr>callbacks := snd (AppendF64 cb 0x7FF0000000000000 (callbacks m)),
               events := events m @ [Ev_AppendF64 0x7FF0000000000000]\<rparr>)))
     \<and> (value_base_detail token AND NUMBER__FORMAT_TEXT E = 0
        \<and> value_base_detail token AND NUMBER__CONTENT_NEG_INF E = 0
        \<and> value_base_detail token AND NUMBER__CONTENT_POS_INF E = 0
        \<and> value_base_detail token AND NUMBER__CONTENT_NEG_NAN E \<noteq> 0 \<longrightarrow>
      DecodeJson_token E cb token token_ptr token_len m
        = Some (parsed_a_value (fst (AppendF64 cb 0xFFFFFFFFFFFFFFFF (callbacks m)))
            (m\<lparr>callbacks := snd (AppendF64 cb 0xFFFFFFFFFFFFFFFF (callbacks m)),
               events := events m @ [Ev_AppendF64 0xFFFFFFFFFFFFFFFF]\<rparr>)))
     \<and> (value_base_detail token AND NUMBER__FORMAT_TEXT E = 0
        \<and> value_base_detail token AND NUMBER__CONTENT_NEG_INF E = 0
        \<and> value_base_detail token AND NUMBER__CONTENT_POS_INF E = 0
        \<and> value_base_detail token AND NUMBER__CONTENT_NEG_NAN E = 0
        \<and> value_base_detail token AND NUMBER__CONTENT_POS_NAN E \<noteq> 0 \<longrightarrow>
      DecodeJson_token E cb token token_ptr token_len m
        = Some (parsed_a_value (fst (AppendF64 cb 0x7FFFFFFFFFFFFFFF (callbacks m)))
            (m\<lparr>callbacks := snd (AppendF64 cb 0x7FFFFFFFFFFFFFFF (callbacks m)),
               events := events m @ [Ev_AppendF64 0x7FFFFFFFFFFFFFFF]\<rparr>)))
     \<and> (value_base_detail token AND NUMBER__FORMAT_TEXT E = 0
        \<and> value_base_detail token AND NUMBER__CONTENT_NEG_INF E = 0
        \<and> value_base_detail token AND NUMBER__CONTENT_POS_INF E = 0
        \<and> value_base_detail token AND NUMBER__CONTENT_NEG_NAN E = 0
        \<and> value_base_detail token AND NUMBER__CONTENT_POS_NAN E = 0 \<longrightarrow>
      DecodeJson_token E cb token token_ptr token_len m
        = Some (Inl (At_done unexpected_token m)))"
proof -
  have tok: "DecodeJson_token E cb token token_ptr token_len m
      = Some (DecodeJson_number E cb (value_base_detail token)
          (token_src (io_buf (ctx m)) token_ptr token_len) m)"
    using number by (simp add: DecodeJson_token_def Let_def VBC_defs)
  show ?thesis
    unfolding tok
    by (auto simp add: DecodeJson_number_def attempt_i64_def attempt_f64_def call_AppendF64_def
        logged_def fail_def)
qed


text \<open>
  The token \<open>42\<close>, which both parsers accept, goes to \<open>AppendI64\<close>; \<open>1.5\<close> goes to
  \<open>AppendF64\<close>; a token with the \<open>CONTENT_NEG_INF\<close> bit goes to \<open>AppendF64\<close> with the
  bit pattern of minus infinity; a token with no bit set is unexpected.
\<close>

theorem number_dispatch_witness:
  "DecodeJson_token (script_env (Some []) None) quiet_callbacks (tok 5 0x403 False 2) 0 2
       (script_frame (script_ctx Status_ok [] 0 [] (window ''42'' 2 2 True) [] 2 []) 0 [])
     = Some (Inl (At_done []
         ((script_frame (script_ctx Status_ok [] 0 [] (window ''42'' 2 2 True) [] 2 []) 0 [])
            \<lparr>events := [Ev_AppendI64 42]\<rparr>)))
   \<and> DecodeJson_token (script_env (Some []) None) quiet_callbacks (tok 5 0x401 False 3) 0 3
       (script_frame (script_ctx Status_ok [] 0 [] (window ''1.5'' 3 3 True) [] 3 []) 0 [])
     = Some (Inl (At_done []
         ((script_frame (script_ctx Status_ok [] 0 [] (window ''1.5'' 3 3 True) [] 3 []) 0 [])
            \<lparr>events := [Ev_AppendF64 0x3FF8000000000000]\<rparr>)))
   \<and> DecodeJson_token (script_env (Some []) None) quiet_callbacks (tok 5 0x10 False 4) 0 4
       (script_frame (script_ctx Status_ok [] 0 [] (window ''-Inf'' 4 4 True) [] 4 []) 0 [])
     = Some (Inl (At_done []
         ((script_frame (script_ctx Status_ok [] 0 [] (window ''-Inf'' 4 4 True) [] 4 []) 0 [])
            \<lparr>events := [Ev_AppendF64 0xFFF0000000000000]\<rparr>)))
   \<and> DecodeJson_token (script_env (Some []) None) quiet_callbacks (tok 5 0 False 1) 0 1
       (script_frame (script_ctx Status_ok [] 0 [] (window ''7'' 1 1 True) [] 1 []) 0 [])
     = Some (Inl (At_done unexpected_token
         (script_frame (script_ctx Status_ok [] 0 [] (window ''7'' 1 1 True) [] 1 []) 0 [])))"
proof -
  let ?E = "script_env (Some []) None :: (script_decoder, script_input) env"
  let ?cb = "quiet_callbacks :: (script_input, unit) DecodeJsonCallbacks"
  note evalsimps = VBC_defs script_env_simps script_env_parsers token_src_def tok_def
    script_frame_def script_ctx_def window_simps parsed_a_value_def quiet_callbacks_def
  have w1: "DecodeJson_token ?E ?cb (tok 5 0x403 False 2) 0 2
       (script_frame (script_ctx Status_ok [] 0 [] (window ''42'' 2 2 True) [] 2 []) 0 [])
     = Some (Inl (At_done []
         ((script_frame (script_ctx Status_ok [] 0 [] (window ''42'' 2 2 True) [] 2 []) 0 [])
            \<lparr>events := [Ev_AppendI64 42]\<rparr>)))"
    using number_dispatch [where E = ?E and cb = ?cb and token = "tok 5 0x403 False 2"
        and token_ptr = 0 and token_len = 2 and i = 42
        and m = "script_frame (script_ctx Status_ok [] 0 [] (window ''42'' 2 2 True) [] 2 []) 0 []"]
    by (simp add: evalsimps)
  have w2: "DecodeJson_token ?E ?cb (tok 5 0x401 False 3) 0 3
       (script_frame (script_ctx Status_ok [] 0 [] (window ''1.5'' 3 3 True) [] 3 []) 0 [])
     = Some (Inl (At_done []
         ((script_frame (script_ctx Status_ok [] 0 [] (window ''1.5'' 3 3 True) [] 3 []) 0 [])
            \<lparr>events := [Ev_AppendF64 0x3FF8000000000000]\<rparr>)))"
    using number_dispatch [where E = ?E and cb = ?cb and token = "tok 5 0x401 False 3"
        and token_ptr = 0 and token_len = 3 and x = "0x3FF8000000000000"
        and m = "script_frame (script_ctx Status_ok [] 0 [] (window ''1.5'' 3 3 True) [] 3 []) 0 []"]
    by (simp add: evalsimps)
  have w3: "DecodeJson_token ?E ?cb (tok 5 0x10 False 4) 0 4
       (script_frame (script_ctx Status_ok [] 0 [] (window ''-Inf'' 4 4 True) [] 4 []) 0 [])
     = Some (Inl (At_done []
         ((script_frame (script_ctx Status_ok [] 0 [] (window ''-Inf'' 4 4 True) [] 4 []) 0 [])
            \<lparr>events := [Ev_AppendF64 0xFFF0000000000000]\<rparr>)))"
    using number_dispatch [where E = ?E and cb = ?cb and token = "tok 5 0x10 False 4"
        and token_ptr = 0 and token_len = 4
        and m = "script_frame (script_ctx Status_ok [] 0 [] (window ''-Inf'' 4 4 True) [] 4 []) 0 []"]
    by (simp add: evalsimps)
  have w4: "DecodeJson_token ?E ?cb (tok 5 0 False 1) 0 1
       (script_frame (script_ctx Status_ok [] 0 [] (window ''7'' 1 1 True) [] 1 []) 0 [])
     = Some (Inl (At_done unexpected_token
         (script_frame (script_ctx Status_ok [] 0 [] (window ''7'' 1 1 True) [] 1 []) 0 [])))"
    using number_dispatch [where E = ?E and cb = ?cb and token = "tok 5 0 False 1"
        and token_ptr = 0 and token_len = 1
        and m = "script_frame (script_ctx Status_ok [] 0 [] (window ''7'' 1 1 True) [] 1 []) 0 []"]
    by (simp add: evalsimps)
  from w1 w2 w3 w4 show ?thesis by blast
qed

lemma DecodeBackslashX_empty: "DecodeJson_DecodeBackslashX E acc [] = Some ([], acc)"
  unfolding DecodeJson_DecodeBackslashX_def
  by (rule while_true_exit) (simp add: DecodeJson_DecodeBackslashX_body_def)

lemma DecodeBackslashX_one_call:
  assumes "src \<noteq> []"
    and "base_16__decode4 E 64 src = (st, num_dst, num_src, decoded)"
    and "\<forall>msg. st \<noteq> Status_error msg"
    and "unat num_dst \<le> 64" and "unat num_src = length src"
  shows "DecodeJson_DecodeBackslashX E acc src = Some ([], acc @ take (unat num_dst) decoded)"
proof -
  have "DecodeJson_DecodeBackslashX_body E (acc, src)
      = Some (Inr (acc @ take (unat num_dst) decoded, []))"
    using assms by (cases st) (simp_all add: DecodeJson_DecodeBackslashX_body_def)
  then have "DecodeJson_DecodeBackslashX E acc src
      = DecodeJson_DecodeBackslashX E (acc @ take (unat num_dst) decoded) []"
    unfolding DecodeJson_DecodeBackslashX_def by (rule while_true_again)
  then show ?thesis by (simp add: DecodeBackslashX_empty)
qed

lemma DecodeBackslashX_appends_aux:
  assumes "DecodeJson_DecodeBackslashX E acc src = Some r"
  shows "\<exists>decoded. snd r = acc @ decoded"
  using assms unfolding DecodeJson_DecodeBackslashX_def
  by (rule while_true_invariant [where I = "\<lambda>se. \<exists>decoded. fst se = acc @ decoded"
        and Q = "\<lambda>r. \<exists>decoded. snd r = acc @ decoded"])
     (auto simp add: DecodeJson_DecodeBackslashX_body_def
        split: if_splits prod.splits status.splits)

lemma DecodeBackslashX_appends:
  assumes "DecodeJson_DecodeBackslashX E acc src = Some (msg, acc')"
  shows "\<exists>decoded. acc' = acc @ decoded"
  using DecodeBackslashX_appends_aux [OF assms] by simp


lemma DecodeBackslashX_round:
  assumes "encoded \<noteq> []"
    and "base_16__decode4 E 64 encoded = (st, num_dst, num_src, dst)"
  shows "DecodeJson_DecodeBackslashX E acc encoded
     = (case st of
          Status_error msg \<Rightarrow> Some (msg, acc)
        | _ \<Rightarrow>
            if 64 < unat num_dst \<or> length encoded < unat num_src
            then Some (''wuffs_aux::DecodeJson: internal error: inconsistent base16 decoding'',
                   acc)
            else DecodeJson_DecodeBackslashX E (acc @ take (unat num_dst) dst)
                   (drop (unat num_src) encoded))"
proof -
  let ?bad = "64 < unat num_dst \<or> length encoded < unat num_src"
  have body: "DecodeJson_DecodeBackslashX_body E (acc, encoded)
      = (case st of
           Status_error msg \<Rightarrow> Some (Inl (msg, acc))
         | _ \<Rightarrow>
             if ?bad
             then Some (Inl (''wuffs_aux::DecodeJson: internal error: inconsistent base16 decoding'',
                    acc))
             else Some (Inr (acc @ take (unat num_dst) dst, drop (unat num_src) encoded)))"
    using assms by (cases st) (simp_all add: DecodeJson_DecodeBackslashX_body_def)
  show ?thesis
  proof (cases "\<exists>msg. st = Status_error msg")
    case True
    then obtain msg where st: "st = Status_error msg" by blast
    with body have "DecodeJson_DecodeBackslashX_body E (acc, encoded) = Some (Inl (msg, acc))"
      by simp
    then have "DecodeJson_DecodeBackslashX E acc encoded = Some (msg, acc)"
      unfolding DecodeJson_DecodeBackslashX_def by (rule while_true_exit)
    with st show ?thesis by simp
  next
    case False
    show ?thesis
    proof (cases ?bad)
      case True
      with body False have "DecodeJson_DecodeBackslashX_body E (acc, encoded)
          = Some (Inl (''wuffs_aux::DecodeJson: internal error: inconsistent base16 decoding'',
              acc))"
        by (cases st) simp_all
      then have "DecodeJson_DecodeBackslashX E acc encoded
          = Some (''wuffs_aux::DecodeJson: internal error: inconsistent base16 decoding'', acc)"
        unfolding DecodeJson_DecodeBackslashX_def by (rule while_true_exit)
      with True False show ?thesis by (cases st) simp_all
    next
      case ok: False
      with body False have "DecodeJson_DecodeBackslashX_body E (acc, encoded)
          = Some (Inr (acc @ take (unat num_dst) dst, drop (unat num_src) encoded))"
        by (cases st) simp_all
      then have "DecodeJson_DecodeBackslashX E acc encoded
          = DecodeJson_DecodeBackslashX E (acc @ take (unat num_dst) dst)
              (drop (unat num_src) encoded)"
        unfolding DecodeJson_DecodeBackslashX_def by (rule while_true_again)
      with ok False show ?thesis by (cases st) simp_all
    qed
  qed
qed

text \<open>
  Claim C2, as amended. In the main loop a String token with the \<open>DROP\<close> bit adds
  nothing to \<open>str\<close>; otherwise with the \<open>COPY\<close> bit it adds its source bytes; otherwise
  with the \<open>BACKSLASH_X\<close> bit it adds the base-16 decoding of its source bytes, which
  \<open>DecodeJson_DecodeBackslashX\<close> produces in rounds: as long as source bytes are left, a
  round calls the base-16 decoder on them with a destination of 64 bytes, adds the first
  \<open>num_dst\<close> decoded bytes to \<open>str\<close> and drops the first \<open>num_src\<close> source bytes. A
  round in which the decoder reports an error ends the call with the decoder's message,
  and a round in which \<open>num_dst\<close> exceeds 64 or \<open>num_src\<close> exceeds what is left ends it
  with the "inconsistent base16 decoding" message; a String token with none of the three
  bits ends the call with the "unexpected token" message. In these three cases no
  callback is called and nothing is handed on. A UnicodeCodePoint token adds the UTF-8
  encoding of its detail; if it is continued the loop goes on, and if it is not the call
  ends with the "unexpected token" message, again without a callback. After a String
  token whose conversion has not ended the call, a continued token keeps the string
  open, and a token that is not continued hands \<open>str\<close> to \<open>AppendTextString\<close> if its
  detail has the \<open>CHAIN_MUST_BE_UTF_8\<close> bit and to \<open>AppendByteString\<close> if not, clears
  \<open>str\<close>, and counts as a completed value: the loop ends if the callback has returned a
  message or \<open>depth\<close> is 0, and goes on otherwise.
\<close>

theorem string_run:
  "(value_base_category token = WUFFS_BASE__TOKEN__VBC__STRING
      \<and> value_base_detail token AND STRING__CONVERT_0_DST_1_SRC_DROP E \<noteq> 0 \<longrightarrow>
    DecodeJson_token E cb token token_ptr token_len m
      = Some (DecodeJson_string_end E cb token m))
   \<and> (value_base_category token = WUFFS_BASE__TOKEN__VBC__STRING
      \<and> value_base_detail token AND STRING__CONVERT_0_DST_1_SRC_DROP E = 0
      \<and> value_base_detail token AND STRING__CONVERT_1_DST_1_SRC_COPY E \<noteq> 0 \<longrightarrow>
    DecodeJson_token E cb token token_ptr token_len m
      = Some (DecodeJson_string_end E cb token
          (m\<lparr>str := str m @ token_src (io_buf (ctx m)) token_ptr token_len\<rparr>)))
   \<and> (value_base_category token = WUFFS_BASE__TOKEN__VBC__STRING
      \<and> value_base_detail token AND STRING__CONVERT_0_DST_1_SRC_DROP E = 0
      \<and> value_base_detail token AND STRING__CONVERT_1_DST_1_SRC_COPY E = 0
      \<and> value_base_detail token AND STRING__CONVERT_1_DST_4_SRC_BACKSLASH_X E \<noteq> 0 \<longrightarrow>
    DecodeJson_token E cb token token_ptr token_len m
      = (case DecodeJson_DecodeBackslashX E (str m)
                (token_src (io_buf (ctx m)) token_ptr token_len) of
           None \<Rightarrow> None
         | Some (ret_error_message, decoded) \<Rightarrow>
             if ret_error_message \<noteq> []
             then Some (Inl (At_done ret_error_message (m\<lparr>str := decoded\<rparr>)))
             else Some (DecodeJson_string_end E cb token (m\<lparr>str := decoded\<rparr>))))
   \<and> (value_base_category token = WUFFS_BASE__TOKEN__VBC__STRING
      \<and> value_base_detail token AND STRING__CONVERT_0_DST_1_SRC_DROP E = 0
      \<and> value_base_detail token AND STRING__CONVERT_1_DST_1_SRC_COPY E = 0
      \<and> value_base_detail token AND STRING__CONVERT_1_DST_4_SRC_BACKSLASH_X E = 0 \<longrightarrow>
    DecodeJson_token E cb token token_ptr token_len m
      = Some (Inl (At_done unexpected_token m)))
   \<and> DecodeJson_DecodeBackslashX E acc [] = Some ([], acc)
   \<and> (encoded \<noteq> [] \<and> base_16__decode4 E 64 encoded = (Status_error msg, num_dst, num_src, dst)
        \<longrightarrow>
      DecodeJson_DecodeBackslashX E acc encoded = Some (msg, acc))
   \<and> (encoded \<noteq> [] \<and> base_16__decode4 E 64 encoded = (st, num_dst, num_src, dst)
        \<and> (\<forall>msg. st \<noteq> Status_error msg)
        \<and> (64 < unat num_dst \<or> length encoded < unat num_src) \<longrightarrow>
      DecodeJson_DecodeBackslashX E acc encoded
        = Some (''wuffs_aux::DecodeJson: internal error: inconsistent base16 decoding'', acc))
   \<and> (encoded \<noteq> [] \<and> base_16__decode4 E 64 encoded = (st, num_dst, num_src, dst)
        \<and> (\<forall>msg. st \<noteq> Status_error msg)
        \<and> unat num_dst \<le> 64 \<and> unat num_src \<le> length encoded \<longrightarrow>
      DecodeJson_DecodeBackslashX E acc encoded
        = DecodeJson_DecodeBackslashX E (acc @ take (unat num_dst) dst)
            (drop (unat num_src) encoded))
   \<and> (value_base_category token = WUFFS_BASE__TOKEN__VBC__UNICODE_CODE_POINT
      \<and> continued token \<longrightarrow>
    DecodeJson_token E cb token token_ptr token_len m
      = Some (Inr (m\<lparr>str := str m @ utf_8__encode E (ucast (value_base_detail token))\<rparr>)))
   \<and> (value_base_category token = WUFFS_BASE__TOKEN__VBC__UNICODE_CODE_POINT
      \<and> \<not> continued token \<longrightarrow>
    DecodeJson_token E cb token token_ptr token_len m
      = Some (Inl (At_done unexpected_token
          (m\<lparr>str := str m @ utf_8__encode E (ucast (value_base_detail token))\<rparr>))))
   \<and> (continued token \<longrightarrow> DecodeJson_string_end E cb token m = Inr m)
   \<and> (\<not> continued token
      \<and> value_base_detail token AND STRING__CHAIN_MUST_BE_UTF_8 E \<noteq> 0 \<longrightarrow>
    DecodeJson_string_end E cb token m
      = parsed_a_value (fst (AppendTextString cb (str m) (callbacks m)))
          (m\<lparr>callbacks := snd (AppendTextString cb (str m) (callbacks m)),
             events := events m @ [Ev_AppendTextString (str m)], str := []\<rparr>))
   \<and> (\<not> continued token
      \<and> value_base_detail token AND STRING__CHAIN_MUST_BE_UTF_8 E = 0 \<longrightarrow>
    DecodeJson_string_end E cb token m
      = parsed_a_value (fst (AppendByteString cb (str m) (callbacks m)))
          (m\<lparr>callbacks := snd (AppendByteString cb (str m) (callbacks m)),
             events := events m @ [Ev_AppendByteString (str m)], str := []\<rparr>))
   \<and> parsed_a_value msg m
       = (if msg \<noteq> [] \<or> depth m = 0 then Inl (At_done msg m) else Inr m)"
proof -
  have s: "DecodeJson_token E cb token token_ptr token_len m
      = DecodeJson_string E cb token (token_src (io_buf (ctx m)) token_ptr token_len) m"
    if "value_base_category token = WUFFS_BASE__TOKEN__VBC__STRING"
    using that by (simp add: DecodeJson_token_def Let_def VBC_defs)
  have u: "DecodeJson_token E cb token token_ptr token_len m
      = Some (DecodeJson_unicode_code_point E token m)"
    if "value_base_category token = WUFFS_BASE__TOKEN__VBC__UNICODE_CODE_POINT"
    using that by (simp add: DecodeJson_token_def Let_def VBC_defs)
  have c1: "value_base_category token = WUFFS_BASE__TOKEN__VBC__STRING
      \<and> value_base_detail token AND STRING__CONVERT_0_DST_1_SRC_DROP E \<noteq> 0 \<longrightarrow>
    DecodeJson_token E cb token token_ptr token_len m
      = Some (DecodeJson_string_end E cb token m)"
    using s by (simp add: DecodeJson_string_def Let_def)
  have c2: "value_base_category token = WUFFS_BASE__TOKEN__VBC__STRING
      \<and> value_base_detail token AND STRING__CONVERT_0_DST_1_SRC_DROP E = 0
      \<and> value_base_detail token AND STRING__CONVERT_1_DST_1_SRC_COPY E \<noteq> 0 \<longrightarrow>
    DecodeJson_token E cb token token_ptr token_len m
      = Some (DecodeJson_string_end E cb token
          (m\<lparr>str := str m @ token_src (io_buf (ctx m)) token_ptr token_len\<rparr>))"
    using s by (simp add: DecodeJson_string_def Let_def)
  have c3: "value_base_category token = WUFFS_BASE__TOKEN__VBC__STRING
      \<and> value_base_detail token AND STRING__CONVERT_0_DST_1_SRC_DROP E = 0
      \<and> value_base_detail token AND STRING__CONVERT_1_DST_1_SRC_COPY E = 0
      \<and> value_base_detail token AND STRING__CONVERT_1_DST_4_SRC_BACKSLASH_X E \<noteq> 0 \<longrightarrow>
    DecodeJson_token E cb token token_ptr token_len m
      = (case DecodeJson_DecodeBackslashX E (str m)
                (token_src (io_buf (ctx m)) token_ptr token_len) of
           None \<Rightarrow> None
         | Some (ret_error_message, decoded) \<Rightarrow>
             if ret_error_message \<noteq> []
             then Some (Inl (At_done ret_error_message (m\<lparr>str := decoded\<rparr>)))
             else Some (DecodeJson_string_end E cb token (m\<lparr>str := decoded\<rparr>)))"
    using s by (simp add: DecodeJson_string_def Let_def)
  have c4: "value_base_category token = WUFFS_BASE__TOKEN__VBC__STRING
      \<and> value_base_detail token AND STRING__CONVERT_0_DST_1_SRC_DROP E = 0
      \<and> value_base_detail token AND STRING__CONVERT_1_DST_1_SRC_COPY E = 0
      \<and> value_base_detail token AND STRING__CONVERT_1_DST_4_SRC_BACKSLASH_X E = 0 \<longrightarrow>
    DecodeJson_token E cb token token_ptr token_len m
      = Some (Inl (At_done unexpected_token m))"
    using s by (simp add: DecodeJson_string_def Let_def fail_def)
  have x1: "DecodeJson_DecodeBackslashX E acc [] = Some ([], acc)"
    by (rule DecodeBackslashX_empty)
  have x2: "encoded \<noteq> []
      \<and> base_16__decode4 E 64 encoded = (Status_error msg, num_dst, num_src, dst) \<longrightarrow>
      DecodeJson_DecodeBackslashX E acc encoded = Some (msg, acc)"
    using DecodeBackslashX_round [of encoded E "Status_error msg" num_dst num_src dst acc]
    by simp
  have x3: "encoded \<noteq> [] \<and> base_16__decode4 E 64 encoded = (st, num_dst, num_src, dst)
        \<and> (\<forall>msg. st \<noteq> Status_error msg)
        \<and> (64 < unat num_dst \<or> length encoded < unat num_src) \<longrightarrow>
      DecodeJson_DecodeBackslashX E acc encoded
        = Some (''wuffs_aux::DecodeJson: internal error: inconsistent base16 decoding'', acc)"
    using DecodeBackslashX_round [of encoded E st num_dst num_src dst acc]
    by (cases st) auto
  have x4: "encoded \<noteq> [] \<and> base_16__decode4 E 64 encoded = (st, num_dst, num_src, dst)
        \<and> (\<forall>msg. st \<noteq> Status_error msg)
        \<and> unat num_dst \<le> 64 \<and> unat num_src \<le> length encoded \<longrightarrow>
      DecodeJson_DecodeBackslashX E acc encoded
        = DecodeJson_DecodeBackslashX E (acc @ take (unat num_dst) dst)
            (drop (unat num_src) encoded)"
    using DecodeBackslashX_round [of encoded E st num_dst num_src dst acc]
    by (cases st) auto
  have c5: "value_base_category token = WUFFS_BASE__TOKEN__VBC__UNICODE_CODE_POINT
      \<and> continued token \<longrightarrow>
    DecodeJson_token E cb token token_ptr token_len m
      = Some (Inr (m\<lparr>str := str m @ utf_8__encode E (ucast (value_base_detail token))\<rparr>))"
    using u by (simp add: DecodeJson_unicode_code_point_def Let_def)
  have c6: "value_base_category token = WUFFS_BASE__TOKEN__VBC__UNICODE_CODE_POINT
      \<and> \<not> continued token \<longrightarrow>
    DecodeJson_token E cb token token_ptr token_len m
      = Some (Inl (At_done unexpected_token
          (m\<lparr>str := str m @ utf_8__encode E (ucast (value_base_detail token))\<rparr>)))"
    using u by (simp add: DecodeJson_unicode_code_point_def Let_def fail_def)
  have c7: "continued token \<longrightarrow> DecodeJson_string_end E cb token m = Inr m"
    by (simp add: DecodeJson_string_end_def)
  have c8: "\<not> continued token
      \<and> value_base_detail token AND STRING__CHAIN_MUST_BE_UTF_8 E \<noteq> 0 \<longrightarrow>
    DecodeJson_string_end E cb token m
      = parsed_a_value (fst (AppendTextString cb (str m) (callbacks m)))
          (m\<lparr>callbacks := snd (AppendTextString cb (str m) (callbacks m)),
             events := events m @ [Ev_AppendTextString (str m)], str := []\<rparr>)"
    by (simp add: DecodeJson_string_end_def logged_def)
  have c9: "\<not> continued token
      \<and> value_base_detail token AND STRING__CHAIN_MUST_BE_UTF_8 E = 0 \<longrightarrow>
    DecodeJson_string_end E cb token m
      = parsed_a_value (fst (AppendByteString cb (str m) (callbacks m)))
          (m\<lparr>callbacks := snd (AppendByteString cb (str m) (callbacks m)),
             events := events m @ [Ev_AppendByteString (str m)], str := []\<rparr>)"
    by (simp add: DecodeJson_string_end_def logged_def)
  have c10: "parsed_a_value msg m
       = (if msg \<noteq> [] \<or> depth m = 0 then Inl (At_done msg m) else Inr m)"
    by (simp add: parsed_a_value_def)
  show ?thesis
    by (intro conjI c1 c2 c3 c4 x1 x2 x3 x4 c5 c6 c7 c8 c9 c10)
qed

text \<open>
  The claim as it was stated fails for a UnicodeCodePoint token that is not continued:
  the string \<open>caf\<close> followed by such a token for U+00E9 is not handed to any callback
  (the log stays empty); the call ends with the "unexpected token" message.
\<close>

theorem unicode_code_point_counterexample:
  "DecodeJson_token (script_env (Some []) None) quiet_callbacks (tok 3 0xE9 False 6) 0 6
       (script_frame
          (script_ctx Status_ok [] 0 [] (window (CHR 0x5C # ''u00E9'') 6 6 True) [] 6 [])
          1 ''caf'')
     = Some (Inl (At_done ''wuffs_aux::DecodeJson: internal error: unexpected token''
         \<lparr>ctx = script_ctx Status_ok [] 0 [] (window (CHR 0x5C # ''u00E9'') 6 6 True) [] 6 [],
          depth = 1, str = ''caf'' @ [CHR 0xC3, CHR 0xA9], callbacks = (), events = []\<rparr>))"
  by (simp add: DecodeJson_token_def DecodeJson_unicode_code_point_def fail_def
      unexpected_token_def VBC_defs script_env_parsers tok_def script_frame_def Let_def)


text \<open>
  The tokens of a JSON string for the word cafe with an acute accent, and of strings
  holding backslash-x escapes: an opening quote that is dropped, three bytes that are
  copied, a code point, an escape that is decoded, and a closing quote that hands the
  string to \<open>AppendTextString\<close> or, without the \<open>CHAIN_MUST_BE_UTF_8\<close> bit, to
  \<open>AppendByteString\<close>. Then the three ways in which a String token ends the call
  without a callback, and a token of two escapes, which takes two rounds of the base-16
  decoder.
\<close>

theorem string_run_witness:
  "DecodeJson_token (script_env (Some []) None) quiet_callbacks (tok 2 0x100 True 1) 0 1
       (script_frame (script_ctx Status_ok [] 0 [] (window ''\"caf\"'' 5 5 True) [] 1 []) 1 [])
     = Some (Inr
         (script_frame (script_ctx Status_ok [] 0 [] (window ''\"caf\"'' 5 5 True) [] 1 []) 1 []))
   \<and> DecodeJson_token (script_env (Some []) None) quiet_callbacks (tok 2 0x200 True 3) 1 3
       (script_frame (script_ctx Status_ok [] 0 [] (window ''\"caf\"'' 5 5 True) [] 4 []) 1 [])
     = Some (Inr
         (script_frame (script_ctx Status_ok [] 0 [] (window ''\"caf\"'' 5 5 True) [] 4 []) 1
            ''caf''))
   \<and> DecodeJson_token (script_env (Some []) None) quiet_callbacks (tok 2 0x800 True 4) 0 4
       (script_frame (script_ctx Status_ok [] 0 [] (window (CHR 0x5C # ''x41'') 4 4 True) [] 4 [])
          1 [])
     = Some (Inr
         (script_frame (script_ctx Status_ok [] 0 [] (window (CHR 0x5C # ''x41'') 4 4 True) [] 4 [])
            1 ''A''))
   \<and> DecodeJson_token (script_env (Some []) None) quiet_callbacks (tok 3 0xE9 True 6) 0 6
       (script_frame (script_ctx Status_ok [] 0 [] (window (CHR 0x5C # ''u00E9'') 6 6 True) [] 6 [])
          1 ''caf'')
     = Some (Inr
         (script_frame (script_ctx Status_ok [] 0 [] (window (CHR 0x5C # ''u00E9'') 6 6 True) [] 6 [])
            1 (''caf'' @ [CHR 0xC3, CHR 0xA9])))
   \<and> DecodeJson_token (script_env (Some []) None) quiet_callbacks (tok 2 0x102 False 1) 4 1
       (script_frame (script_ctx Status_ok [] 0 [] (window ''\"caf\"'' 5 5 True) [] 5 []) 1 ''caf'')
     = Some (Inr
         ((script_frame (script_ctx Status_ok [] 0 [] (window ''\"caf\"'' 5 5 True) [] 5 []) 1 [])
            \<lparr>events := [Ev_AppendTextString ''caf'']\<rparr>))
   \<and> DecodeJson_token (script_env (Some []) None) quiet_callbacks (tok 2 0x100 False 1) 4 1
       (script_frame (script_ctx Status_ok [] 0 [] (window ''\"caf\"'' 5 5 True) [] 5 []) 1 ''caf'')
     = Some (Inl (At_done ''wuffs_aux::DecodeJson: unexpected JSON byte string''
         ((script_frame (script_ctx Status_ok [] 0 [] (window ''\"caf\"'' 5 5 True) [] 5 []) 1 [])
            \<lparr>events := [Ev_AppendByteString ''caf'']\<rparr>)))
   \<and> DecodeJson_token (script_env (Some []) None) quiet_callbacks (tok 2 0x102 False 1) 4 1
       (script_frame (script_ctx Status_ok [] 0 [] (window ''\"caf\"'' 5 5 True) [] 5 []) 0 ''caf'')
     = Some (Inl (At_done []
         ((script_frame (script_ctx Status_ok [] 0 [] (window ''\"caf\"'' 5 5 True) [] 5 []) 0 [])
            \<lparr>events := [Ev_AppendTextString ''caf'']\<rparr>)))
   \<and> DecodeJson_token (script_env (Some []) None) quiet_callbacks (tok 2 0x2 False 1) 4 1
       (script_frame (script_ctx Status_ok [] 0 [] (window ''\"caf\"'' 5 5 True) [] 5 []) 1 ''caf'')
     = Some (Inl (At_done ''wuffs_aux::DecodeJson: internal error: unexpected token''
         (script_frame (script_ctx Status_ok [] 0 [] (window ''\"caf\"'' 5 5 True) [] 5 []) 1
            ''caf'')))
   \<and> DecodeJson_token (script_env (Some []) None) quiet_callbacks (tok 2 0x802 False 4) 0 4
       (script_frame (script_ctx Status_ok [] 0 [] (window (CHR 0x5C # ''x4Z'') 4 4 True) [] 4 [])
          1 ''caf'')
     = Some (Inl (At_done ''base16: bad data''
         (script_frame (script_ctx Status_ok [] 0 [] (window (CHR 0x5C # ''x4Z'') 4 4 True) [] 4 [])
            1 ''caf'')))
   \<and> DecodeJson_DecodeBackslashX (script_env (Some []) None) ''z''
       [CHR 0x5C, CHR ''x'', CHR ''4'', CHR ''1'', CHR 0x5C, CHR ''x'', CHR ''4'', CHR ''2'']
     = Some ([], ''zAB'')
   \<and> DecodeJson_token (script_env (Some []) None) quiet_callbacks (tok 2 0x802 False 8) 0 8
       (script_frame (script_ctx Status_ok [] 0 []
          (window [CHR 0x5C, CHR ''x'', CHR ''4'', CHR ''1'', CHR 0x5C, CHR ''x'', CHR ''4'',
             CHR ''2''] 8 8 True) [] 8 []) 1 ''z'')
     = Some (Inr
         ((script_frame (script_ctx Status_ok [] 0 []
            (window [CHR 0x5C, CHR ''x'', CHR ''4'', CHR ''1'', CHR 0x5C, CHR ''x'', CHR ''4'',
               CHR ''2''] 8 8 True) [] 8 []) 1 [])
            \<lparr>events := [Ev_AppendTextString ''zAB'']\<rparr>))"
proof -
  let ?E = "script_env (Some []) None :: (script_decoder, script_input) env"
  let ?cb = "quiet_callbacks :: (script_input, unit) DecodeJsonCallbacks"
  let ?q = "window ''\"caf\"'' 5 5 True"
  let ?x = "window (CHR 0x5C # ''x41'') 4 4 True"
  let ?z = "window (CHR 0x5C # ''x4Z'') 4 4 True"
  let ?u = "window (CHR 0x5C # ''u00E9'') 6 6 True"
  let ?ab = "[CHR 0x5C, CHR ''x'', CHR ''4'', CHR ''1'', CHR 0x5C, CHR ''x'', CHR ''4'', CHR ''2'']"
  let ?b = "[CHR 0x5C, CHR ''x'', CHR ''4'', CHR ''2'']"
  let ?y = "window ?ab 8 8 True"
  let ?m = "script_frame (script_ctx Status_ok [] 0 [] ?q [] 5 []) 1 ''caf''"
  note evalsimps = VBC_defs script_env_simps script_env_parsers token_src_def tok_def
    script_frame_def script_ctx_def window_simps quiet_callbacks_def unexpected_token_def
    DecodeJsonCallbacks_AppendByteString_def
  note T = string_run [where E = ?E and cb = ?cb and st = Status_ok and num_dst = 1
      and num_src = 4]
  note D = T [where token = "tok 2 0x100 True 1" and token_ptr = 0 and token_len = 1
      and m = ?m and msg = "[]"]
  have w1: "DecodeJson_token ?E ?cb (tok 2 0x100 True 1) 0 1
       (script_frame (script_ctx Status_ok [] 0 [] ?q [] 1 []) 1 [])
     = Some (Inr (script_frame (script_ctx Status_ok [] 0 [] ?q [] 1 []) 1 []))"
    using T [where token = "tok 2 0x100 True 1" and token_ptr = 0 and token_len = 1
        and m = "script_frame (script_ctx Status_ok [] 0 [] ?q [] 1 []) 1 []"
        and acc = "[]" and encoded = "[]" and dst = "[]" and msg = "[]"]
    by (simp add: evalsimps)
  have w2: "DecodeJson_token ?E ?cb (tok 2 0x200 True 3) 1 3
       (script_frame (script_ctx Status_ok [] 0 [] ?q [] 4 []) 1 [])
     = Some (Inr (script_frame (script_ctx Status_ok [] 0 [] ?q [] 4 []) 1 ''caf''))"
    using T [where token = "tok 2 0x200 True 3" and token_ptr = 1 and token_len = 3
        and m = "script_frame (script_ctx Status_ok [] 0 [] ?q [] 4 []) 1 []"
        and acc = "[]" and encoded = "[]" and dst = "[]" and msg = "[]"]
      T [where token = "tok 2 0x200 True 3" and token_ptr = 1 and token_len = 3
        and m = "script_frame (script_ctx Status_ok [] 0 [] ?q [] 4 []) 1 ''caf''"
        and acc = "[]" and encoded = "[]" and dst = "[]" and msg = "[]"]
    by (simp add: evalsimps)
  have bx1: "DecodeJson_DecodeBackslashX ?E [] (CHR 0x5C # ''x41'') = Some ([], ''A'')"
    using D [where acc = "[]" and encoded = "CHR 0x5C # ''x41''" and dst = "''A''"]
      D [where acc = "''A''" and encoded = "[]" and dst = "[]"]
    by (simp add: evalsimps)
  have w3: "DecodeJson_token ?E ?cb (tok 2 0x800 True 4) 0 4
       (script_frame (script_ctx Status_ok [] 0 [] ?x [] 4 []) 1 [])
     = Some (Inr (script_frame (script_ctx Status_ok [] 0 [] ?x [] 4 []) 1 ''A''))"
    using T [where token = "tok 2 0x800 True 4" and token_ptr = 0 and token_len = 4
        and m = "script_frame (script_ctx Status_ok [] 0 [] ?x [] 4 []) 1 []"
        and acc = "[]" and encoded = "[]" and dst = "[]" and msg = "[]"]
      T [where token = "tok 2 0x800 True 4" and token_ptr = 0 and token_len = 4
        and m = "script_frame (script_ctx Status_ok [] 0 [] ?x [] 4 []) 1 ''A''"
        and acc = "[]" and encoded = "[]" and dst = "[]" and msg = "[]"]
    by (simp add: evalsimps bx1)
  have w4: "DecodeJson_token ?E ?cb (tok 3 0xE9 True 6) 0 6
       (script_frame (script_ctx Status_ok [] 0 [] ?u [] 6 []) 1 ''caf'')
     = Some (Inr (script_frame (script_ctx Status_ok [] 0 [] ?u [] 6 []) 1
         (''caf'' @ [CHR 0xC3, CHR 0xA9])))"
    using T [where token = "tok 3 0xE9 True 6" and token_ptr = 0 and token_len = 6
        and m = "script_frame (script_ctx Status_ok [] 0 [] ?u [] 6 []) 1 ''caf''"
        and acc = "[]" and encoded = "[]" and dst = "[]" and msg = "[]"]
    by (simp add: evalsimps)
  have w5: "DecodeJson_token ?E ?cb (tok 2 0x102 False 1) 4 1 ?m
     = Some (Inr ((script_frame (script_ctx Status_ok [] 0 [] ?q [] 5 []) 1 [])
         \<lparr>events := [Ev_AppendTextString ''caf'']\<rparr>))"
    using T [where token = "tok 2 0x102 False 1" and token_ptr = 4 and token_len = 1
        and m = ?m and acc = "[]" and encoded = "[]" and dst = "[]" and msg = "[]"]
      T [where token = "tok 2 0x102 False 1" and token_ptr = 4 and token_len = 1
        and m = "?m\<lparr>callbacks := (), events := [Ev_AppendTextString ''caf''], str := []\<rparr>"
        and acc = "[]" and encoded = "[]" and dst = "[]" and msg = "[]"]
    by (simp add: evalsimps)
  have w6: "DecodeJson_token ?E ?cb (tok 2 0x100 False 1) 4 1 ?m
     = Some (Inl (At_done ''wuffs_aux::DecodeJson: unexpected JSON byte string''
         ((script_frame (script_ctx Status_ok [] 0 [] ?q [] 5 []) 1 [])
            \<lparr>events := [Ev_AppendByteString ''caf'']\<rparr>)))"
    using T [where token = "tok 2 0x100 False 1" and token_ptr = 4 and token_len = 1
        and m = ?m and acc = "[]" and encoded = "[]" and dst = "[]" and msg = "[]"]
      T [where token = "tok 2 0x100 False 1" and token_ptr = 4 and token_len = 1
        and m = "?m\<lparr>callbacks := (), events := [Ev_AppendByteString ''caf''], str := []\<rparr>"
        and acc = "[]" and encoded = "[]" and dst = "[]"
        and msg = "''wuffs_aux::DecodeJson: unexpected JSON byte string''"]
    by (simp add: evalsimps)
  have w7: "DecodeJson_token ?E ?cb (tok 2 0x102 False 1) 4 1
       (script_frame (script_ctx Status_ok [] 0 [] ?q [] 5 []) 0 ''caf'')
     = Some (Inl (At_done []
         ((script_frame (script_ctx Status_ok [] 0 [] ?q [] 5 []) 0 [])
            \<lparr>events := [Ev_AppendTextString ''caf'']\<rparr>)))"
    using T [where token = "tok 2 0x102 False 1" and token_ptr = 4 and token_len = 1
        and m = "script_frame (script_ctx Status_ok [] 0 [] ?q [] 5 []) 0 ''caf''"
        and acc = "[]" and encoded = "[]" and dst = "[]" and msg = "[]"]
      T [where token = "tok 2 0x102 False 1" and token_ptr = 4 and token_len = 1
        and m = "(script_frame (script_ctx Status_ok [] 0 [] ?q [] 5 []) 0 ''caf'')
          \<lparr>callbacks := (), events := [Ev_AppendTextString ''caf''], str := []\<rparr>"
        and acc = "[]" and encoded = "[]" and dst = "[]" and msg = "[]"]
    by (simp add: evalsimps)
  have w8: "DecodeJson_token ?E ?cb (tok 2 0x2 False 1) 4 1 ?m
     = Some (Inl (At_done ''wuffs_aux::DecodeJson: internal error: unexpected token'' ?m))"
    using T [where token = "tok 2 0x2 False 1" and token_ptr = 4 and token_len = 1
        and m = ?m and acc = "[]" and encoded = "[]" and dst = "[]" and msg = "[]"]
    by (simp add: evalsimps)
  have bz: "DecodeJson_DecodeBackslashX ?E ''caf'' (CHR 0x5C # ''x4Z'')
      = Some (''base16: bad data'', ''caf'')"
    using string_run [where E = ?E and cb = ?cb and token = "tok 2 0x100 True 1"
        and token_ptr = 0 and token_len = 1 and m = ?m and msg = "''base16: bad data''"
        and acc = "''caf''" and encoded = "CHR 0x5C # ''x4Z''" and st = Status_ok
        and num_dst = 0 and num_src = 0 and dst = "[]"]
    by (simp add: evalsimps)
  have w9: "DecodeJson_token ?E ?cb (tok 2 0x802 False 4) 0 4
       (script_frame (script_ctx Status_ok [] 0 [] ?z [] 4 []) 1 ''caf'')
     = Some (Inl (At_done ''base16: bad data''
         (script_frame (script_ctx Status_ok [] 0 [] ?z [] 4 []) 1 ''caf'')))"
    using T [where token = "tok 2 0x802 False 4" and token_ptr = 0 and token_len = 4
        and m = "script_frame (script_ctx Status_ok [] 0 [] ?z [] 4 []) 1 ''caf''"
        and acc = "[]" and encoded = "[]" and dst = "[]" and msg = "[]"]
    by (simp add: evalsimps bz)
  have bx2: "DecodeJson_DecodeBackslashX ?E ''z'' ?ab = Some ([], ''zAB'')"
    using D [where acc = "''z''" and encoded = ?ab and dst = "''A''"]
      D [where acc = "''zA''" and encoded = ?b and dst = "''B''"]
      D [where acc = "''zAB''" and encoded = "[]" and dst = "[]"]
    by (simp add: evalsimps)
  have w10: "DecodeJson_token ?E ?cb (tok 2 0x802 False 8) 0 8
       (script_frame (script_ctx Status_ok [] 0 [] ?y [] 8 []) 1 ''z'')
     = Some (Inr ((script_frame (script_ctx Status_ok [] 0 [] ?y [] 8 []) 1 [])
         \<lparr>events := [Ev_AppendTextString ''zAB'']\<rparr>))"
    using T [where token = "tok 2 0x802 False 8" and token_ptr = 0 and token_len = 8
        and m = "script_frame (script_ctx Status_ok [] 0 [] ?y [] 8 []) 1 ''z''"
        and acc = "[]" and encoded = "[]" and dst = "[]" and msg = "[]"]
      T [where token = "tok 2 0x802 False 8" and token_ptr = 0 and token_len = 8
        and m = "script_frame (script_ctx Status_ok [] 0 [] ?y [] 8 []) 1 ''zAB''"
        and acc = "[]" and encoded = "[]" and dst = "[]" and msg = "[]"]
      T [where token = "tok 2 0x802 False 8" and token_ptr = 0 and token_len = 8
        and m = "(script_frame (script_ctx Status_ok [] 0 [] ?y [] 8 []) 1 ''zAB'')
          \<lparr>callbacks := (), events := [Ev_AppendTextString ''zAB''], str := []\<rparr>"
        and acc = "[]" and encoded = "[]" and dst = "[]" and msg = "[]"]
    by (simp add: evalsimps bx2)
  from w1 w2 w3 w4 w5 w6 w7 w8 w9 bx2 w10 show ?thesis by blast
qed

lemma parsed_effect:
  assumes "events m1 = events m @ [e]" and "completes_value e"
    and "depth m1 = depth_change (depth m) e" and "ctx m1 = ctx m"
  shows "step_effect (ctx m) (events m) (depth m) (parsed_a_value msg m1)"
  using assms by (auto simp add: step_effect_def parsed_a_value_def completes_value_def)

lemma fail_effect: "step_effect (ctx m) (events m) (depth m) (fail m)"
  by (simp add: step_effect_def fail_def unexpected_token_def)

lemma structure_effect: "step_effect (ctx m) (events m) (depth m) (DecodeJson_structure E cb vbd m)"
proof (cases "vbd AND STRUCTURE__PUSH E \<noteq> 0")
  case True
  then show ?thesis
    by (auto simp add: DecodeJson_structure_def logged_def step_effect_def depth_change_def
        completes_value_def)
next
  case False
  let ?r = "Pop cb (ucast vbd) (callbacks m)"
  let ?m1 = "m\<lparr>callbacks := snd ?r, events := events m @ [Ev_Pop (ucast vbd)],
      depth := depth m - 1\<rparr>"
  have "step_effect (ctx m) (events m) (depth m) (parsed_a_value (fst ?r) ?m1)"
    by (rule parsed_effect [where e = "Ev_Pop (ucast vbd)"])
       (simp_all add: completes_value_def depth_change_def)
  with False show ?thesis
    by (simp add: DecodeJson_structure_def logged_def)
qed

lemma string_end_effect: "step_effect (ctx m) (events m) (depth m) (DecodeJson_string_end E cb token m)"
proof (cases "continued token")
  case True
  then show ?thesis by (simp add: DecodeJson_string_end_def step_effect_def)
next
  case False
  show ?thesis
  proof (cases "value_base_detail token AND STRING__CHAIN_MUST_BE_UTF_8 E \<noteq> 0")
    case True
    let ?r = "AppendTextString cb (str m) (callbacks m)"
    have "step_effect (ctx m) (events m) (depth m) (parsed_a_value (fst ?r)
        (m\<lparr>callbacks := snd ?r, events := events m @ [Ev_AppendTextString (str m)], str := []\<rparr>))"
      by (rule parsed_effect [where e = "Ev_AppendTextString (str m)"])
         (simp_all add: completes_value_def depth_change_def)
    with True \<open>\<not> continued token\<close> show ?thesis
      by (simp add: DecodeJson_string_end_def logged_def)
  next
    case False
    let ?r = "AppendByteString cb (str m) (callbacks m)"
    have "step_effect (ctx m) (events m) (depth m) (parsed_a_value (fst ?r)
        (m\<lparr>callbacks := snd ?r, events := events m @ [Ev_AppendByteString (str m)], str := []\<rparr>))"
      by (rule parsed_effect [where e = "Ev_AppendByteString (str m)"])
         (simp_all add: completes_value_def depth_change_def)
    with False \<open>\<not> continued token\<close> show ?thesis
      by (simp add: DecodeJson_string_end_def logged_def)
  qed
qed

lemma string_effect:
  assumes "DecodeJson_string E cb token src m = Some out"
  shows "step_effect (ctx m) (events m) (depth m) out"
proof -
  have e: "step_effect (ctx m) (events m) (depth m) (DecodeJson_string_end E cb token (m\<lparr>str := x\<rparr>))"
    for x
    using string_end_effect [of "m\<lparr>str := x\<rparr>" E cb token] by simp
  from assms consider
    (plain) "out = DecodeJson_string_end E cb token m"
    | (more) x where "out = DecodeJson_string_end E cb token (m\<lparr>str := x\<rparr>)"
    | (error) msg x where "msg \<noteq> []" "out = Inl (At_done msg (m\<lparr>str := x\<rparr>))"
    | (unexpected) "out = fail m"
    by (auto simp add: DecodeJson_string_def Let_def split: if_splits option.splits prod.splits)
  then show ?thesis
  proof cases
    case plain
    then show ?thesis by (simp add: string_end_effect)
  next
    case (more x)
    then show ?thesis by (simp add: e)
  next
    case (error msg x)
    then show ?thesis by (simp add: step_effect_def)
  next
    case unexpected
    then show ?thesis by (simp add: fail_effect)
  qed
qed

lemma unicode_code_point_effect: "step_effect (ctx m) (events m) (depth m) (DecodeJson_unicode_code_point E token m)"
  using fail_effect [of "m\<lparr>str := str m @ utf_8__encode E (ucast (value_base_detail token))\<rparr>"]
  by (simp add: DecodeJson_unicode_code_point_def Let_def step_effect_def)

lemma literal_effect: "step_effect (ctx m) (events m) (depth m) (DecodeJson_literal E cb vbd m)"
proof (cases "vbd AND LITERAL__NULL E \<noteq> 0")
  case True
  let ?r = "AppendNull cb (callbacks m)"
  have "step_effect (ctx m) (events m) (depth m) (parsed_a_value (fst ?r)
      (m\<lparr>callbacks := snd ?r, events := events m @ [Ev_AppendNull]\<rparr>))"
    by (rule parsed_effect [where e = Ev_AppendNull])
       (simp_all add: completes_value_def depth_change_def)
  with True show ?thesis by (simp add: DecodeJson_literal_def logged_def)
next
  case False
  let ?b = "vbd AND LITERAL__TRUE E \<noteq> 0"
  let ?r = "AppendBool cb ?b (callbacks m)"
  have "step_effect (ctx m) (events m) (depth m) (parsed_a_value (fst ?r)
      (m\<lparr>callbacks := snd ?r, events := events m @ [Ev_AppendBool ?b]\<rparr>))"
    by (rule parsed_effect [where e = "Ev_AppendBool ?b"])
       (simp_all add: completes_value_def depth_change_def)
  with False show ?thesis by (simp add: DecodeJson_literal_def logged_def)
qed

lemma AppendF64_effect: "step_effect (ctx m) (events m) (depth m) (call_AppendF64 cb val m)"
proof -
  let ?r = "AppendF64 cb val (callbacks m)"
  have "step_effect (ctx m) (events m) (depth m) (parsed_a_value (fst ?r)
      (m\<lparr>callbacks := snd ?r, events := events m @ [Ev_AppendF64 val]\<rparr>))"
    by (rule parsed_effect [where e = "Ev_AppendF64 val"])
       (simp_all add: completes_value_def depth_change_def)
  then show ?thesis by (simp add: call_AppendF64_def logged_def)
qed

lemma number_effect: "step_effect (ctx m) (events m) (depth m) (DecodeJson_number E cb vbd src m)"
proof -
  have i: "step_effect (ctx m) (events m) (depth m) (parsed_a_value (fst (AppendI64 cb val (callbacks m)))
      (m\<lparr>callbacks := snd (AppendI64 cb val (callbacks m)),
         events := events m @ [Ev_AppendI64 val]\<rparr>))" for val
    by (rule parsed_effect [where e = "Ev_AppendI64 val"])
       (simp_all add: completes_value_def depth_change_def)
  show ?thesis
    by (simp add: DecodeJson_number_def AppendF64_effect fail_effect i logged_def
        split: option.splits)
qed

lemma same_effect: "step_effect (ctx m) (events m) (depth m) (Inr m)"
  by (simp add: step_effect_def)

lemma token_effect:
  assumes "DecodeJson_token E cb token token_ptr token_len m = Some out"
  shows "step_effect (ctx m) (events m) (depth m) out"
proof (cases "value_base_category token = WUFFS_BASE__TOKEN__VBC__STRING")
  case True
  with assms have "DecodeJson_string E cb token
      (token_src (io_buf (ctx m)) token_ptr token_len) m = Some out"
    by (simp add: DecodeJson_token_def Let_def VBC_defs)
  then show ?thesis by (rule string_effect)
next
  case False
  with assms show ?thesis
    by (simp add: DecodeJson_token_def Let_def split: if_splits)
       (auto simp add: same_effect structure_effect unicode_code_point_effect literal_effect
          number_effect fail_effect)
qed


lemma decode_message: "GET_THE_NEXT_TOKEN_decode E s = Inl (msg, s') \<Longrightarrow> msg \<noteq> []"
  by (auto simp add: GET_THE_NEXT_TOKEN_decode_def split: if_splits prod.splits)

lemma compact_message: "GET_THE_NEXT_TOKEN_compact s = Inl (msg, s') \<Longrightarrow> msg \<noteq> []"
  by (auto simp add: GET_THE_NEXT_TOKEN_compact_def Let_def split: if_splits)

lemma refill_silent:
  assumes "GET_THE_NEXT_TOKEN_refill E s = Inl ([], s')"
  shows "tok_status s' = Status_error []"
  using assms
  by (auto simp add: GET_THE_NEXT_TOKEN_refill_def
      dest: decode_message compact_message split: status.splits sum.splits prod.splits)

lemma pop_message: "GET_THE_NEXT_TOKEN_pop s = Goto_done msg s' \<Longrightarrow> msg \<noteq> []"
  by (auto simp add: GET_THE_NEXT_TOKEN_pop_def Let_def split: if_splits)

lemma GET_silent:
  assumes "GET_THE_NEXT_TOKEN E s = Some (Goto_done [] s')"
  shows "tok_status s' = Status_error []"
proof -
  have "\<forall>s'. Goto_done [] s' = (Goto_done [] s' :: ('a, 'b) fetched) \<longrightarrow> True" by simp
  have "\<forall>s1. (Goto_done [] s' :: ('a, 'b) fetched) = Goto_done [] s1
      \<longrightarrow> tok_status s1 = Status_error []"
    using assms unfolding GET_THE_NEXT_TOKEN_def
    by (rule while_true_invariant [where I = "\<lambda>s. True"])
       (auto simp add: GET_THE_NEXT_TOKEN_body_def dest: refill_silent pop_message
          split: if_splits sum.splits prod.splits)
  then show ?thesis by simp
qed

lemma main_step_cases:
  assumes "DecodeJson_main_step E cb m = Some out"
  obtains (macro_done) msg s' where "GET_THE_NEXT_TOKEN E (ctx m) = Some (Goto_done msg s')"
      "out = Inl (At_done msg (m\<lparr>ctx := s'\<rparr>))"
    | (macro_undefined) "out = Inl Stopped_undefined_behaviour"
    | (fetched) token token_ptr token_len s' where
      "GET_THE_NEXT_TOKEN E (ctx m) = Some (Fetched token token_ptr token_len s')"
      "DecodeJson_token E cb token token_ptr token_len (m\<lparr>ctx := s'\<rparr>) = Some out"
  using assms
  by (auto simp add: DecodeJson_main_step_def split: option.splits fetched.splits)

lemma main_step_effect:
  assumes step: "DecodeJson_main_step E cb m = Some out"
  shows "(\<exists>c. step_effect c (events m) (depth m) out)
    \<or> (\<exists>s'. out = Inl (At_done [] (m\<lparr>ctx := s'\<rparr>)) \<and> tok_status s' = Status_error [])"
  using step
proof (cases rule: main_step_cases)
  case (macro_done msg s')
  show ?thesis
  proof (cases "msg = []")
    case True
    with macro_done GET_silent [of E "ctx m" s'] show ?thesis by blast
  next
    case False
    with macro_done(2) show ?thesis by (simp add: step_effect_def)
  qed
next
  case macro_undefined
  then show ?thesis by (simp add: step_effect_def)
next
  case (fetched token token_ptr token_len s')
  from token_effect [OF fetched(2)]
  have "step_effect s' (events m) (depth m) out" by simp
  then show ?thesis by blast
qed

lemma main_step_log:
  assumes step: "DecodeJson_main_step E cb m = Some out"
    and log: "\<forall>e \<in> set (events m). \<not> is_Done e"
  shows "(\<forall>m1. out = Inr m1 \<longrightarrow> (\<forall>e \<in> set (events m1). \<not> is_Done e))
    \<and> (\<forall>msg m1. out = Inl (At_done msg m1) \<longrightarrow> (\<forall>e \<in> set (events m1). \<not> is_Done e))"
  using step
proof (cases rule: main_step_cases)
  case (macro_done msg s')
  with log show ?thesis by simp
next
  case macro_undefined
  then show ?thesis by simp
next
  case (fetched token token_ptr token_len s')
  from token_effect [OF fetched(2)]
  have "step_effect s' (events m) (depth m) out" by simp
  with log show ?thesis
    by (auto simp add: step_effect_def split: sum.splits stopped.splits)
qed

lemma main_loop_log:
  assumes "DecodeJson_main_loop E cb m = Some (At_done msg m')"
    and "\<forall>e \<in> set (events m). \<not> is_Done e"
  shows "\<forall>e \<in> set (events m'). \<not> is_Done e"
proof -
  have "\<forall>msg m'. At_done msg m' = At_done msg m' \<longrightarrow> True" by simp
  have "\<forall>msg1 m1. (At_done msg m' :: ('a, 'b, 'c) stopped) = At_done msg1 m1
      \<longrightarrow> (\<forall>e \<in> set (events m1). \<not> is_Done e)"
    using assms unfolding DecodeJson_main_loop_def
    by (rule while_true_invariant [where I = "\<lambda>m. \<forall>e \<in> set (events m). \<not> is_Done e"])
       (use main_step_log in blast)+
  then show ?thesis by simp
qed

lemma track_snoc: "foldl track st (log @ [e]) = track (foldl track st log) e"
  by simp

lemma main_loop_track:
  assumes run: "DecodeJson_main_loop E cb m = Some (At_done msg m')"
    and start: "foldl track (Some d0) (events m) = Some (depth m)"
  shows "(msg \<noteq> [] \<and> (\<exists>log d. foldl track (Some d0) log = Some d
                          \<and> (events m' = log \<or> (\<exists>e. events m' = log @ [e]))))
    \<or> (msg = [] \<and> tok_status (ctx m') = Status_error [])
    \<or> (\<exists>log e d. events m' = log @ [e] \<and> completes_value e
          \<and> foldl track (Some d0) log = Some d \<and> depth_change d e = 0 \<and> depth m' = 0)"
proof -
  let ?Q = "\<lambda>r :: ('a, 'b, 'c) stopped. \<forall>msg m'. r = At_done msg m' \<longrightarrow>
        (msg \<noteq> [] \<and> (\<exists>log d. foldl track (Some d0) log = Some d
                          \<and> (events m' = log \<or> (\<exists>e. events m' = log @ [e]))))
        \<or> (msg = [] \<and> tok_status (ctx m') = Status_error [])
        \<or> (\<exists>log e d. events m' = log @ [e] \<and> completes_value e
              \<and> foldl track (Some d0) log = Some d \<and> depth_change d e = 0 \<and> depth m' = 0)"
  have "?Q (At_done msg m')"
    using run start unfolding DecodeJson_main_loop_def
  proof (rule while_true_invariant [where
        I = "\<lambda>m. foldl track (Some d0) (events m) = Some (depth m)" and Q = ?Q])
    fix m m1 :: "('a, 'b, 'c) frame"
    assume inv: "foldl track (Some d0) (events m) = Some (depth m)"
      and step: "DecodeJson_main_step E cb m = Some (Inr m1)"
    from main_step_effect [OF step] obtain c where
      "step_effect c (events m) (depth m) (Inr m1)"
      by blast
    with inv show "foldl track (Some d0) (events m1) = Some (depth m1)"
      by (auto simp add: step_effect_def track_def)
  next
    fix m :: "('a, 'b, 'c) frame" and r :: "('a, 'b, 'c) stopped"
    assume inv: "foldl track (Some d0) (events m) = Some (depth m)"
      and step: "DecodeJson_main_step E cb m = Some (Inl r)"
    from main_step_effect [OF step] consider
      (effect) c where "step_effect c (events m) (depth m) (Inl r)"
      | (silent) s' where "r = At_done [] (m\<lparr>ctx := s'\<rparr>)" "tok_status s' = Status_error []"
      by blast
    then show "?Q r"
    proof cases
      case (effect c)
      show ?thesis
      proof (cases r)
        case (At_done msg1 m1)
        with effect inv show ?thesis
          by (auto simp add: step_effect_def)
      next
        case Stopped_undefined_behaviour
        then show ?thesis by simp
      qed
    next
      case (silent s')
      then show ?thesis by simp
    qed
  qed
  then show ?thesis by simp
qed


lemma pushes_snoc: "pushes (log @ [e]) = pushes log + (if is_Push e then 1 else 0)"
  by (simp add: pushes_def)

lemma pops_snoc: "pops (log @ [e]) = pops log + (if is_Pop e then 1 else 0)"
  by (simp add: pops_def)

lemma not_Push_and_Pop: "is_Push e \<Longrightarrow> \<not> is_Pop e"
  by (cases e) simp_all

lemma track_Some:
  "track st e = Some d \<Longrightarrow> \<exists>d1. st = Some d1 \<and> d = depth_change d1 e"
  by (cases st) (auto simp add: track_def split: if_splits)

lemma track_depth:
  "foldl track (Some d0) log = Some d \<Longrightarrow>
     d = d0 + of_nat (pushes log) - of_nat (pops log)"
proof (induction log arbitrary: d rule: rev_induct)
  case Nil
  then show ?case by (simp add: pushes_def pops_def)
next
  case (snoc e log)
  from snoc.prems have "track (foldl track (Some d0) log) e = Some d" by simp
  from track_Some [OF this] obtain d1 where d1: "foldl track (Some d0) log = Some d1"
    and d: "d = depth_change d1 e"
    by blast
  from snoc.IH [OF d1] d show ?case
    by (auto simp add: depth_change_def pushes_snoc pops_snoc dest: not_Push_and_Pop)
qed

lemma balanced_counts:
  fixes a b :: nat
  assumes "(of_nat a :: u32) = of_nat b" and "b \<le> a" and "a - b < 2 ^ 32"
  shows "a = b"
proof -
  from assms(1) have "a mod 2 ^ 32 = b mod 2 ^ 32"
    by (simp add: word_of_nat_eq_iff take_bit_eq_mod)
  then have "(a - b) mod 2 ^ 32 = 0"
    using assms(2) by (metis mod_eq_dvd_iff_nat dvd_imp_mod_0)
  with assms(3) have "a - b = 0" by simp
  with assms(2) show ?thesis by simp
qed


lemma track_None: "foldl track None log = None"
  by (induction log) (simp_all add: track_def)

lemma track_prefix:
  assumes "foldl track (Some d0) (xs @ ys) = Some d"
  shows "\<exists>d1. foldl track (Some d0) xs = Some d1"
proof (cases "foldl track (Some d0) xs")
  case None
  with assms show ?thesis by (simp add: track_None)
next
  case (Some d1)
  then show ?thesis by blast
qed

lemma depth_of_open_containers:
  "(of_nat (pushes p) - of_nat (pops p) :: u32) = word_of_int (open_containers p)"
  by (simp add: open_containers_def)

lemma open_containers_zero:
  assumes "0 \<le> open_containers p" and "open_containers p < 2 ^ 32"
  shows "(of_nat (pushes p) - of_nat (pops p) :: u32) = 0 \<longleftrightarrow> open_containers p = 0"
proof -
  have "(word_of_int (open_containers p) :: u32) = 0 \<longleftrightarrow> 2 ^ 32 dvd open_containers p"
    by (simp add: word_of_int_eq_0_iff)
  moreover have "2 ^ 32 dvd open_containers p \<longleftrightarrow> open_containers p = 0"
    using assms zdvd_not_zless [of "open_containers p" "2 ^ 32"]
    by (cases "open_containers p = 0") auto
  ultimately show ?thesis by (simp add: depth_of_open_containers)
qed


lemma well_nested_prefix:
  assumes "well_nested log" and "n \<le> length log"
  shows "0 \<le> open_containers (take n log)" and "open_containers (take n log) < 2 ^ 32"
  using assms by (simp_all add: well_nested_def list_all_iff del: upt_Suc)

lemma track_last:
  assumes "foldl track (Some d0) (p @ [x]) = Some d"
  shows "\<not> (completes_value x \<and> d = 0)"
proof -
  from assms have t: "track (foldl track (Some d0) p) x = Some d" by simp
  from track_Some [OF t] obtain d1 where d1: "foldl track (Some d0) p = Some d1"
    and d: "d = depth_change d1 x"
    by blast
  from t d1 d show ?thesis by (auto simp add: track_def split: if_splits)
qed

lemma one_top_level_value:
  assumes l: "L = log @ [e]" and e: "completes_value e"
    and t: "foldl track (Some 0) log = Some d" and z: "depth_change d e = 0"
    and eq: "(of_nat (pushes L) :: u32) = of_nat (pops L)"
    and wn: "well_nested L"
  shows "pushes L = pops L" and "top_level_values L = [length L]"
proof -
  have len: "length L = Suc (length log)" using l by simp
  from well_nested_prefix [OF wn, of "length L"]
  have b: "0 \<le> open_containers L" "open_containers L < 2 ^ 32" by simp_all
  from eq have "(of_nat (pushes L) - of_nat (pops L) :: u32) = 0" by simp
  with open_containers_zero [OF b] have oc: "open_containers L = 0" by simp
  then show bal: "pushes L = pops L" by (simp add: open_containers_def)
  have before: "\<not> (completes_value (L ! (n - 1)) \<and> open_containers (take n L) \<le> 0)"
    if n: "n \<in> set [1..<Suc (length log)]" for n
  proof -
    from n have n1: "1 \<le> n" and n2: "n \<le> length log" by (simp_all del: upt_Suc)
    then have i: "n - 1 < length log" by simp
    from n1 n2 have tk: "take n log = take (n - 1) log @ [log ! (n - 1)]"
      by (metis One_nat_def Suc_pred i le_simps(3) take_Suc_conv_app_nth zero_less_one
          less_le_trans)
    have "log = take n log @ drop n log" by simp
    with t have "foldl track (Some 0) (take n log @ drop n log) = Some d" by simp
    from track_prefix [OF this] obtain dn where dn: "foldl track (Some 0) (take n log) = Some dn"
      by blast
    from dn tk have "foldl track (Some 0) (take (n - 1) log @ [log ! (n - 1)]) = Some dn"
      by simp
    from track_last [OF this] have nz: "\<not> (completes_value (log ! (n - 1)) \<and> dn = 0)" .
    from track_depth [OF dn]
    have dn': "dn = of_nat (pushes (take n log)) - of_nat (pops (take n log))" by simp
    from n2 l have tl: "take n L = take n log" by simp
    from i l have nl: "L ! (n - 1) = log ! (n - 1)" by (simp add: nth_append)
    from n2 len have "n \<le> length L" by simp
    from well_nested_prefix [OF wn this] tl
    have bn: "0 \<le> open_containers (take n log)" "open_containers (take n log) < 2 ^ 32"
      by simp_all
    from open_containers_zero [OF bn] dn'
    have "dn = 0 \<longleftrightarrow> open_containers (take n log) = 0" by simp
    with nz bn(1) tl nl show ?thesis by auto
  qed
  have "[1..<Suc (length L)] = [1..<Suc (length log)] @ [length L]"
    using len by simp
  moreover have "filter (\<lambda>n. completes_value (L ! (n - 1)) \<and> open_containers (take n L) \<le> 0)
      [1..<Suc (length log)] = []"
    using before by (simp add: filter_empty_conv)
  moreover have "completes_value (L ! (length L - 1))" using l e by simp
  ultimately show "top_level_values L = [length L]"
    using oc by (simp add: top_level_values_def)
qed


text \<open>
  Claim C8, as amended. In the main loop \<open>depth\<close> goes up by one exactly when \<open>Push\<close>
  has returned an empty message (a \<open>Push\<close> that returns a message ends the call with
  \<open>depth\<close> as it was), and it goes down by one on each \<open>Pop\<close>; no other round changes
  it. A \<open>Pop\<close>, a Literal token, a Number token that is parsed or stands for an infinity
  or a NaN, and a String token that is converted and not continued each call their
  callback and go to \<open>parsed_a_value\<close>, where the loop ends exactly when the callback's
  message is not empty or \<open>depth\<close> is 0. \<open>depth\<close> is a \<open>uint32_t\<close>: a \<open>Pop\<close> at depth 0
  wraps it around. So when the loop, started at depth 0 with an empty log, ends without
  an error message (and not on a terminal tokenizer status with an empty message), the
  last call completed a value and brought \<open>depth\<close> to 0, no completed value before it
  did, and \<open>Push\<close> and \<open>Pop\<close> calls are equal in number modulo \<open>2 ^ 32\<close>. If moreover
  the calls are well nested, that is, at no point have there been more \<open>Pop\<close> than
  \<open>Push\<close> calls, nor \<open>2 ^ 32\<close> or more containers open, as is the case when the
  tokenizer delivers the tokens of well-formed JSON, then \<open>Push\<close> and \<open>Pop\<close> calls are
  equal in number and the last call is the only one that completes a value while no
  container is open: exactly one top-level value is consumed.
\<close>

theorem single_value_termination:
  "(value_base_category token = WUFFS_BASE__TOKEN__VBC__STRUCTURE
      \<and> value_base_detail token AND STRUCTURE__PUSH E \<noteq> 0
      \<and> fst (Push cb (ucast (value_base_detail token)) (callbacks m)) = [] \<longrightarrow>
    DecodeJson_token E cb token token_ptr token_len m
      = Some (Inr (m\<lparr>callbacks := snd (Push cb (ucast (value_base_detail token)) (callbacks m)),
                     events := events m @ [Ev_Push (ucast (value_base_detail token))],
                     depth := depth m + 1\<rparr>)))
   \<and> (value_base_category token = WUFFS_BASE__TOKEN__VBC__STRUCTURE
      \<and> value_base_detail token AND STRUCTURE__PUSH E \<noteq> 0
      \<and> fst (Push cb (ucast (value_base_detail token)) (callbacks m)) \<noteq> [] \<longrightarrow>
    DecodeJson_token E cb token token_ptr token_len m
      = Some (Inl (At_done (fst (Push cb (ucast (value_base_detail token)) (callbacks m)))
          (m\<lparr>callbacks := snd (Push cb (ucast (value_base_detail token)) (callbacks m)),
             events := events m @ [Ev_Push (ucast (value_base_detail token))]\<rparr>))))
   \<and> (value_base_category token = WUFFS_BASE__TOKEN__VBC__STRUCTURE
      \<and> value_base_detail token AND STRUCTURE__PUSH E = 0 \<longrightarrow>
    DecodeJson_token E cb token token_ptr token_len m
      = Some (parsed_a_value (fst (Pop cb (ucast (value_base_detail token)) (callbacks m)))
          (m\<lparr>callbacks := snd (Pop cb (ucast (value_base_detail token)) (callbacks m)),
             events := events m @ [Ev_Pop (ucast (value_base_detail token))],
             depth := depth m - 1\<rparr>)))
   \<and> (value_base_category token = WUFFS_BASE__TOKEN__VBC__LITERAL
      \<and> value_base_detail token AND LITERAL__NULL E \<noteq> 0 \<longrightarrow>
    DecodeJson_token E cb token token_ptr token_len m
      = Some (parsed_a_value (fst (AppendNull cb (callbacks m)))
          (m\<lparr>callbacks := snd (AppendNull cb (callbacks m)),
             events := events m @ [Ev_AppendNull]\<rparr>)))
   \<and> (value_base_category token = WUFFS_BASE__TOKEN__VBC__LITERAL
      \<and> value_base_detail token AND LITERAL__NULL E = 0 \<longrightarrow>
    DecodeJson_token E cb token token_ptr token_len m
      = Some (parsed_a_value (fst (AppendBool cb (value_base_detail token AND LITERAL__TRUE E \<noteq> 0) (callbacks m)))
          (m\<lparr>callbacks := snd (AppendBool cb (value_base_detail token AND LITERAL__TRUE E \<noteq> 0) (callbacks m)),
             events := events m @ [Ev_AppendBool (value_base_detail token AND LITERAL__TRUE E \<noteq> 0)]\<rparr>)))
   \<and> (value_base_category token = WUFFS_BASE__TOKEN__VBC__NUMBER
      \<and> value_base_detail token AND NUMBER__FORMAT_TEXT E \<noteq> 0
      \<and> attempt_i64 E (value_base_detail token) (token_src (io_buf (ctx m)) token_ptr token_len) = Some i \<longrightarrow>
    DecodeJson_token E cb token token_ptr token_len m
      = Some (parsed_a_value (fst (AppendI64 cb i (callbacks m)))
          (m\<lparr>callbacks := snd (AppendI64 cb i (callbacks m)),
             events := events m @ [Ev_AppendI64 i]\<rparr>)))
   \<and> (value_base_category token = WUFFS_BASE__TOKEN__VBC__NUMBER
      \<and> value_base_detail token AND NUMBER__FORMAT_TEXT E \<noteq> 0
      \<and> attempt_i64 E (value_base_detail token) (token_src (io_buf (ctx m)) token_ptr token_len) = None
      \<and> attempt_f64 E (value_base_detail token) (token_src (io_buf (ctx m)) token_ptr token_len) = Some x \<longrightarrow>
    DecodeJson_token E cb token token_ptr token_len m
      = Some (parsed_a_value (fst (AppendF64 cb x (callbacks m)))
          (m\<lparr>callbacks := snd (AppendF64 cb x (callbacks m)),
             events := events m @ [Ev_AppendF64 x]\<rparr>)))
   \<and> (value_base_category token = WUFFS_BASE__TOKEN__VBC__NUMBER
      \<and> value_base_detail token AND NUMBER__FORMAT_TEXT E = 0
      \<and> (value_base_detail token AND NUMBER__CONTENT_NEG_INF E \<noteq> 0
          \<or> value_base_detail token AND NUMBER__CONTENT_POS_INF E \<noteq> 0
          \<or> value_base_detail token AND NUMBER__CONTENT_NEG_NAN E \<noteq> 0
          \<or> value_base_detail token AND NUMBER__CONTENT_POS_NAN E \<noteq> 0) \<longrightarrow>
    DecodeJson_token E cb token token_ptr token_len m
      = Some (parsed_a_value (fst (AppendF64 cb
            (if value_base_detail token AND NUMBER__CONTENT_NEG_INF E \<noteq> 0 then 0xFFF0000000000000
             else if value_base_detail token AND NUMBER__CONTENT_POS_INF E \<noteq> 0
             then 0x7FF0000000000000
             else if value_base_detail token AND NUMBER__CONTENT_NEG_NAN E \<noteq> 0
             then 0xFFFFFFFFFFFFFFFF else 0x7FFFFFFFFFFFFFFF)
            (callbacks m)))
          (m\<lparr>callbacks := snd (AppendF64 cb
            (if value_base_detail token AND NUMBER__CONTENT_NEG_INF E \<noteq> 0 then 0xFFF0000000000000
             else if value_base_detail token AND NUMBER__CONTENT_POS_INF E \<noteq> 0
             then 0x7FF0000000000000
             else if value_base_detail token AND NUMBER__CONTENT_NEG_NAN E \<noteq> 0
             then 0xFFFFFFFFFFFFFFFF else 0x7FFFFFFFFFFFFFFF)
            (callbacks m)),
             events := events m @ [Ev_AppendF64
            (if value_base_detail token AND NUMBER__CONTENT_NEG_INF E \<noteq> 0 then 0xFFF0000000000000
             else if value_base_detail token AND NUMBER__CONTENT_POS_INF E \<noteq> 0
             then 0x7FF0000000000000
             else if value_base_detail token AND NUMBER__CONTENT_NEG_NAN E \<noteq> 0
             then 0xFFFFFFFFFFFFFFFF else 0x7FFFFFFFFFFFFFFF)]\<rparr>)))
   \<and> (value_base_category token = WUFFS_BASE__TOKEN__VBC__NUMBER
      \<and> ((value_base_detail token AND NUMBER__FORMAT_TEXT E \<noteq> 0
            \<and> attempt_i64 E (value_base_detail token) (token_src (io_buf (ctx m)) token_ptr token_len) = None
            \<and> attempt_f64 E (value_base_detail token) (token_src (io_buf (ctx m)) token_ptr token_len) = None)
          \<or> (value_base_detail token AND NUMBER__FORMAT_TEXT E = 0
            \<and> value_base_detail token AND NUMBER__CONTENT_NEG_INF E = 0
            \<and> value_base_detail token AND NUMBER__CONTENT_POS_INF E = 0
            \<and> value_base_detail token AND NUMBER__CONTENT_NEG_NAN E = 0
            \<and> value_base_detail token AND NUMBER__CONTENT_POS_NAN E = 0)) \<longrightarrow>
    DecodeJson_token E cb token token_ptr token_len m
      = Some (Inl (At_done unexpected_token m)))
   \<and> (value_base_category token = WUFFS_BASE__TOKEN__VBC__STRING
      \<and> value_base_detail token AND STRING__CONVERT_0_DST_1_SRC_DROP E \<noteq> 0 \<longrightarrow>
    DecodeJson_token E cb token token_ptr token_len m
      = Some (DecodeJson_string_end E cb token m))
   \<and> (value_base_category token = WUFFS_BASE__TOKEN__VBC__STRING
      \<and> value_base_detail token AND STRING__CONVERT_0_DST_1_SRC_DROP E = 0
      \<and> value_base_detail token AND STRING__CONVERT_1_DST_1_SRC_COPY E \<noteq> 0 \<longrightarrow>
    DecodeJson_token E cb token token_ptr token_len m
      = Some (DecodeJson_string_end E cb token
          (m\<lparr>str := str m @ token_src (io_buf (ctx m)) token_ptr token_len\<rparr>)))
   \<and> (value_base_category token = WUFFS_BASE__TOKEN__VBC__STRING
      \<and> value_base_detail token AND STRING__CONVERT_0_DST_1_SRC_DROP E = 0
      \<and> value_base_detail token AND STRING__CONVERT_1_DST_1_SRC_COPY E = 0
      \<and> value_base_detail token AND STRING__CONVERT_1_DST_4_SRC_BACKSLASH_X E \<noteq> 0
      \<and> DecodeJson_DecodeBackslashX E (str m) (token_src (io_buf (ctx m)) token_ptr token_len) = Some ([], decoded) \<longrightarrow>
    DecodeJson_token E cb token token_ptr token_len m
      = Some (DecodeJson_string_end E cb token (m\<lparr>str := decoded\<rparr>)))
   \<and> (continued token \<longrightarrow> DecodeJson_string_end E cb token m = Inr m)
   \<and> (\<not> continued token
      \<and> value_base_detail token AND STRING__CHAIN_MUST_BE_UTF_8 E \<noteq> 0 \<longrightarrow>
    DecodeJson_string_end E cb token m
      = parsed_a_value (fst (AppendTextString cb (str m) (callbacks m)))
          (m\<lparr>callbacks := snd (AppendTextString cb (str m) (callbacks m)),
             events := events m @ [Ev_AppendTextString (str m)], str := []\<rparr>))
   \<and> (\<not> continued token
      \<and> value_base_detail token AND STRING__CHAIN_MUST_BE_UTF_8 E = 0 \<longrightarrow>
    DecodeJson_string_end E cb token m
      = parsed_a_value (fst (AppendByteString cb (str m) (callbacks m)))
          (m\<lparr>callbacks := snd (AppendByteString cb (str m) (callbacks m)),
             events := events m @ [Ev_AppendByteString (str m)], str := []\<rparr>))
   \<and> (value_base_category token = WUFFS_BASE__TOKEN__VBC__FILLER \<longrightarrow>
    DecodeJson_token E cb token token_ptr token_len m = Some (Inr m))
   \<and> (DecodeJson_token E cb token token_ptr token_len m = Some out \<longrightarrow>
    step_effect (ctx m) (events m) (depth m) out)
   \<and> parsed_a_value msg m
       = (if msg \<noteq> [] \<or> depth m = 0 then Inl (At_done msg m) else Inr m)
   \<and> (DecodeJson_main_loop E cb m = Some (At_done [] m') \<and> depth m = 0 \<and> events m = []
        \<and> tok_status (ctx m') \<noteq> Status_error [] \<longrightarrow>
      (\<exists>log e d. events m' = log @ [e] \<and> completes_value e
         \<and> foldl track (Some 0) log = Some d \<and> depth_change d e = 0)
      \<and> depth m' = 0
      \<and> (of_nat (pushes (events m')) :: u32) = of_nat (pops (events m'))
      \<and> (well_nested (events m') \<longrightarrow>
          pushes (events m') = pops (events m')
          \<and> top_level_values (events m') = [length (events m')]))"
proof -
  have s1: "value_base_category token = WUFFS_BASE__TOKEN__VBC__STRUCTURE
      \<and> value_base_detail token AND STRUCTURE__PUSH E \<noteq> 0
      \<and> fst (Push cb (ucast (value_base_detail token)) (callbacks m)) = [] \<longrightarrow>
    DecodeJson_token E cb token token_ptr token_len m
      = Some (Inr (m\<lparr>callbacks := snd (Push cb (ucast (value_base_detail token)) (callbacks m)),
                     events := events m @ [Ev_Push (ucast (value_base_detail token))],
                     depth := depth m + 1\<rparr>))"
    by (simp add: DecodeJson_token_def Let_def VBC_defs DecodeJson_structure_def logged_def)
  have s2: "value_base_category token = WUFFS_BASE__TOKEN__VBC__STRUCTURE
      \<and> value_base_detail token AND STRUCTURE__PUSH E \<noteq> 0
      \<and> fst (Push cb (ucast (value_base_detail token)) (callbacks m)) \<noteq> [] \<longrightarrow>
    DecodeJson_token E cb token token_ptr token_len m
      = Some (Inl (At_done (fst (Push cb (ucast (value_base_detail token)) (callbacks m)))
          (m\<lparr>callbacks := snd (Push cb (ucast (value_base_detail token)) (callbacks m)),
             events := events m @ [Ev_Push (ucast (value_base_detail token))]\<rparr>)))"
    by (simp add: DecodeJson_token_def Let_def VBC_defs DecodeJson_structure_def logged_def)
  have s3: "value_base_category token = WUFFS_BASE__TOKEN__VBC__STRUCTURE
      \<and> value_base_detail token AND STRUCTURE__PUSH E = 0 \<longrightarrow>
    DecodeJson_token E cb token token_ptr token_len m
      = Some (parsed_a_value (fst (Pop cb (ucast (value_base_detail token)) (callbacks m)))
          (m\<lparr>callbacks := snd (Pop cb (ucast (value_base_detail token)) (callbacks m)),
             events := events m @ [Ev_Pop (ucast (value_base_detail token))],
             depth := depth m - 1\<rparr>))"
    by (simp add: DecodeJson_token_def Let_def VBC_defs DecodeJson_structure_def logged_def)
  have l1: "value_base_category token = WUFFS_BASE__TOKEN__VBC__LITERAL
      \<and> value_base_detail token AND LITERAL__NULL E \<noteq> 0 \<longrightarrow>
    DecodeJson_token E cb token token_ptr token_len m
      = Some (parsed_a_value (fst (AppendNull cb (callbacks m)))
          (m\<lparr>callbacks := snd (AppendNull cb (callbacks m)),
             events := events m @ [Ev_AppendNull]\<rparr>))"
    by (simp add: DecodeJson_token_def Let_def VBC_defs DecodeJson_literal_def logged_def)
  have l2: "value_base_category token = WUFFS_BASE__TOKEN__VBC__LITERAL
      \<and> value_base_detail token AND LITERAL__NULL E = 0 \<longrightarrow>
    DecodeJson_token E cb token token_ptr token_len m
      = Some (parsed_a_value (fst (AppendBool cb (value_base_detail token AND LITERAL__TRUE E \<noteq> 0) (callbacks m)))
          (m\<lparr>callbacks := snd (AppendBool cb (value_base_detail token AND LITERAL__TRUE E \<noteq> 0) (callbacks m)),
             events := events m @ [Ev_AppendBool (value_base_detail token AND LITERAL__TRUE E \<noteq> 0)]\<rparr>))"
    by (simp add: DecodeJson_token_def Let_def VBC_defs DecodeJson_literal_def logged_def)
  have n1: "value_base_category token = WUFFS_BASE__TOKEN__VBC__NUMBER
      \<and> value_base_detail token AND NUMBER__FORMAT_TEXT E \<noteq> 0
      \<and> attempt_i64 E (value_base_detail token) (token_src (io_buf (ctx m)) token_ptr token_len) = Some i \<longrightarrow>
    DecodeJson_token E cb token token_ptr token_len m
      = Some (parsed_a_value (fst (AppendI64 cb i (callbacks m)))
          (m\<lparr>callbacks := snd (AppendI64 cb i (callbacks m)),
             events := events m @ [Ev_AppendI64 i]\<rparr>))"
    by (auto simp add: DecodeJson_token_def Let_def VBC_defs DecodeJson_number_def
        call_AppendF64_def logged_def fail_def)
  have n2: "value_base_category token = WUFFS_BASE__TOKEN__VBC__NUMBER
      \<and> value_base_detail token AND NUMBER__FORMAT_TEXT E \<noteq> 0
      \<and> attempt_i64 E (value_base_detail token) (token_src (io_buf (ctx m)) token_ptr token_len) = None
      \<and> attempt_f64 E (value_base_detail token) (token_src (io_buf (ctx m)) token_ptr token_len) = Some x \<longrightarrow>
    DecodeJson_token E cb token token_ptr token_len m
      = Some (parsed_a_value (fst (AppendF64 cb x (callbacks m)))
          (m\<lparr>callbacks := snd (AppendF64 cb x (callbacks m)),
             events := events m @ [Ev_AppendF64 x]\<rparr>))"
    by (auto simp add: DecodeJson_token_def Let_def VBC_defs DecodeJson_number_def
        call_AppendF64_def logged_def fail_def)
  have n3: "value_base_category token = WUFFS_BASE__TOKEN__VBC__NUMBER
      \<and> value_base_detail token AND NUMBER__FORMAT_TEXT E = 0
      \<and> (value_base_detail token AND NUMBER__CONTENT_NEG_INF E \<noteq> 0
          \<or> value_base_detail token AND NUMBER__CONTENT_POS_INF E \<noteq> 0
          \<or> value_base_detail token AND NUMBER__CONTENT_NEG_NAN E \<noteq> 0
          \<or> value_base_detail token AND NUMBER__CONTENT_POS_NAN E \<noteq> 0) \<longrightarrow>
    DecodeJson_token E cb token token_ptr token_len m
      = Some (parsed_a_value (fst (AppendF64 cb
            (if value_base_detail token AND NUMBER__CONTENT_NEG_INF E \<noteq> 0 then 0xFFF0000000000000
             else if value_base_detail token AND NUMBER__CONTENT_POS_INF E \<noteq> 0
             then 0x7FF0000000000000
             else if value_base_detail token AND NUMBER__CONTENT_NEG_NAN E \<noteq> 0
             then 0xFFFFFFFFFFFFFFFF else 0x7FFFFFFFFFFFFFFF)
            (callbacks m)))
          (m\<lparr>callbacks := snd (AppendF64 cb
            (if value_base_detail token AND NUMBER__CONTENT_NEG_INF E \<noteq> 0 then 0xFFF0000000000000
             else if value_base_detail token AND NUMBER__CONTENT_POS_INF E \<noteq> 0
             then 0x7FF0000000000000
             else if value_base_detail token AND NUMBER__CONTENT_NEG_NAN E \<noteq> 0
             then 0xFFFFFFFFFFFFFFFF else 0x7FFFFFFFFFFFFFFF)
            (callbacks m)),
             events := events m @ [Ev_AppendF64
            (if value_base_detail token AND NUMBER__CONTENT_NEG_INF E \<noteq> 0 then 0xFFF0000000000000
             else if value_base_detail token AND NUMBER__CONTENT_POS_INF E \<noteq> 0
             then 0x7FF0000000000000
             else if value_base_detail token AND NUMBER__CONTENT_NEG_NAN E \<noteq> 0
             then 0xFFFFFFFFFFFFFFFF else 0x7FFFFFFFFFFFFFFF)]\<rparr>))"
    by (auto simp add: DecodeJson_token_def Let_def VBC_defs DecodeJson_number_def
        call_AppendF64_def logged_def fail_def)
  have n4: "value_base_category token = WUFFS_BASE__TOKEN__VBC__NUMBER
      \<and> ((value_base_detail token AND NUMBER__FORMAT_TEXT E \<noteq> 0
            \<and> attempt_i64 E (value_base_detail token) (token_src (io_buf (ctx m)) token_ptr token_len) = None
            \<and> attempt_f64 E (value_base_detail token) (token_src (io_buf (ctx m)) token_ptr token_len) = None)
          \<or> (value_base_detail token AND NUMBER__FORMAT_TEXT E = 0
            \<and> value_base_detail token AND NUMBER__CONTENT_NEG_INF E = 0
            \<and> value_base_detail token AND NUMBER__CONTENT_POS_INF E = 0
            \<and> value_base_detail token AND NUMBER__CONTENT_NEG_NAN E = 0
            \<and> value_base_detail token AND NUMBER__CONTENT_POS_NAN E = 0)) \<longrightarrow>
    DecodeJson_token E cb token token_ptr token_len m
      = Some (Inl (At_done unexpected_token m))"
    by (auto simp add: DecodeJson_token_def Let_def VBC_defs DecodeJson_number_def
        call_AppendF64_def logged_def fail_def)
  have t1: "value_base_category token = WUFFS_BASE__TOKEN__VBC__STRING
      \<and> value_base_detail token AND STRING__CONVERT_0_DST_1_SRC_DROP E \<noteq> 0 \<longrightarrow>
    DecodeJson_token E cb token token_ptr token_len m
      = Some (DecodeJson_string_end E cb token m)"
    by (simp add: DecodeJson_token_def Let_def VBC_defs DecodeJson_string_def)
  have t2: "value_base_category token = WUFFS_BASE__TOKEN__VBC__STRING
      \<and> value_base_detail token AND STRING__CONVERT_0_DST_1_SRC_DROP E = 0
      \<and> value_base_detail token AND STRING__CONVERT_1_DST_1_SRC_COPY E \<noteq> 0 \<longrightarrow>
    DecodeJson_token E cb token token_ptr token_len m
      = Some (DecodeJson_string_end E cb token
          (m\<lparr>str := str m @ token_src (io_buf (ctx m)) token_ptr token_len\<rparr>))"
    by (simp add: DecodeJson_token_def Let_def VBC_defs DecodeJson_string_def)
  have t3: "value_base_category token = WUFFS_BASE__TOKEN__VBC__STRING
      \<and> value_base_detail token AND STRING__CONVERT_0_DST_1_SRC_DROP E = 0
      \<and> value_base_detail token AND STRING__CONVERT_1_DST_1_SRC_COPY E = 0
      \<and> value_base_detail token AND STRING__CONVERT_1_DST_4_SRC_BACKSLASH_X E \<noteq> 0
      \<and> DecodeJson_DecodeBackslashX E (str m) (token_src (io_buf (ctx m)) token_ptr token_len) = Some ([], decoded) \<longrightarrow>
    DecodeJson_token E cb token token_ptr token_len m
      = Some (DecodeJson_string_end E cb token (m\<lparr>str := decoded\<rparr>))"
    by (simp add: DecodeJson_token_def Let_def VBC_defs DecodeJson_string_def)
  have e1: "continued token \<longrightarrow> DecodeJson_string_end E cb token m = Inr m"
    by (simp add: DecodeJson_string_end_def logged_def)
  have e2: "\<not> continued token
      \<and> value_base_detail token AND STRING__CHAIN_MUST_BE_UTF_8 E \<noteq> 0 \<longrightarrow>
    DecodeJson_string_end E cb token m
      = parsed_a_value (fst (AppendTextString cb (str m) (callbacks m)))
          (m\<lparr>callbacks := snd (AppendTextString cb (str m) (callbacks m)),
             events := events m @ [Ev_AppendTextString (str m)], str := []\<rparr>)"
    by (simp add: DecodeJson_string_end_def logged_def)
  have e3: "\<not> continued token
      \<and> value_base_detail token AND STRING__CHAIN_MUST_BE_UTF_8 E = 0 \<longrightarrow>
    DecodeJson_string_end E cb token m
      = parsed_a_value (fst (AppendByteString cb (str m) (callbacks m)))
          (m\<lparr>callbacks := snd (AppendByteString cb (str m) (callbacks m)),
             events := events m @ [Ev_AppendByteString (str m)], str := []\<rparr>)"
    by (simp add: DecodeJson_string_end_def logged_def)
  have f1: "value_base_category token = WUFFS_BASE__TOKEN__VBC__FILLER \<longrightarrow>
    DecodeJson_token E cb token token_ptr token_len m = Some (Inr m)"
    by (simp add: DecodeJson_token_def Let_def)
  have eff: "DecodeJson_token E cb token token_ptr token_len m = Some out \<longrightarrow>
    step_effect (ctx m) (events m) (depth m) out"
    using token_effect [of E cb token token_ptr token_len m out] by blast
  have pv: "parsed_a_value msg m
       = (if msg \<noteq> [] \<or> depth m = 0 then Inl (At_done msg m) else Inr m)"
    by (simp add: parsed_a_value_def)
  have run: "(\<exists>log e d. events m' = log @ [e] \<and> completes_value e
         \<and> foldl track (Some 0) log = Some d \<and> depth_change d e = 0)
      \<and> depth m' = 0
      \<and> (of_nat (pushes (events m')) :: u32) = of_nat (pops (events m'))
      \<and> (well_nested (events m') \<longrightarrow>
          pushes (events m') = pops (events m')
          \<and> top_level_values (events m') = [length (events m')])"
    if run: "DecodeJson_main_loop E cb m = Some (At_done [] m')"
      and start: "depth m = 0" "events m = []"
      and status: "tok_status (ctx m') \<noteq> Status_error []"
  proof -
    from start have "foldl track (Some 0) (events m) = Some (depth m)" by simp
    from main_loop_track [OF run this] status obtain log e d where
      l: "events m' = log @ [e]" "completes_value e" "foldl track (Some 0) log = Some d"
        "depth_change d e = 0" "depth m' = 0"
      by auto
    from track_depth [OF l(3)] have d: "d = of_nat (pushes log) - of_nat (pops log)" by simp
    from l(2) have np: "\<not> is_Push e" by (simp add: completes_value_def)
    from l(4) np d have "(of_nat (pushes log) :: u32) - of_nat (pops log)
        = (if is_Pop e then 1 else 0)"
      by (simp add: depth_change_def split: if_splits)
    then have "(of_nat (pushes log) :: u32)
        = of_nat (pops log) + (if is_Pop e then 1 else 0)"
      by (simp add: algebra_simps)
    with l(1) np have eq: "(of_nat (pushes (events m')) :: u32) = of_nat (pops (events m'))"
      by (simp add: pushes_snoc pops_snoc)
    from one_top_level_value [OF l(1) l(2) l(3) l(4) eq]
    have "well_nested (events m') \<longrightarrow>
          pushes (events m') = pops (events m')
          \<and> top_level_values (events m') = [length (events m')]"
      by blast
    with l eq show ?thesis by blast
  qed
  then have loop: "DecodeJson_main_loop E cb m = Some (At_done [] m') \<and> depth m = 0 \<and> events m = []
        \<and> tok_status (ctx m') \<noteq> Status_error [] \<longrightarrow>
      (\<exists>log e d. events m' = log @ [e] \<and> completes_value e
         \<and> foldl track (Some 0) log = Some d \<and> depth_change d e = 0)
      \<and> depth m' = 0
      \<and> (of_nat (pushes (events m')) :: u32) = of_nat (pops (events m'))
      \<and> (well_nested (events m') \<longrightarrow>
          pushes (events m') = pops (events m')
          \<and> top_level_values (events m') = [length (events m')])"
    by blast
  show ?thesis
    by (intro conjI s1 s2 s3 l1 l2 n1 n2 n3 n4 t1 t2 t3 e1 e2 e3 f1 eff pv loop)
qed


text \<open>
  The claim as it was stated fails when the tokenizer closes a container that was never
  opened. On the tokens of \<open>]null[null\<close>, with callbacks that never return a message,
  the \<open>Pop\<close> at depth 0 wraps \<open>depth\<close> around to \<open>2 ^ 32 - 1\<close>, the first \<open>null\<close> does
  not end the loop, the \<open>Push\<close> brings \<open>depth\<close> back to 0, and the loop ends at the
  second \<open>null\<close>, without a message: three values are completed while no container is
  open, and the \<open>Pop\<close> comes before the \<open>Push\<close>.
\<close>

theorem pop_before_push_counterexample:
  "DecodeJson
       (script_env (Some [(Status_ok, [tok 1 0x1022 False 1, tok 4 0x2 False 4,
            tok 1 0x2011 False 1, tok 4 0x2 False 4], 10)])
          (Some (window '']null[null'' 0 10 True)))
       quiet_callbacks () [] [] []
     = Some (Returned \<lparr>error_message = [], cursor_position = 10\<rparr> ()
         [Ev_Pop 0x1022, Ev_AppendNull, Ev_Push 0x2011, Ev_AppendNull,
          Ev_Done \<lparr>error_message = [], cursor_position = 10\<rparr>])
   \<and> top_level_values [Ev_Pop 0x1022, Ev_AppendNull, Ev_Push 0x2011, Ev_AppendNull] = [1, 2, 4]
   \<and> \<not> well_nested [Ev_Pop 0x1022, Ev_AppendNull, Ev_Push 0x2011, Ev_AppendNull]"
proof -
  have "DecodeJson
       (script_env (Some [(Status_ok, [tok 1 0x1022 False 1, tok 4 0x2 False 4,
            tok 1 0x2011 False 1, tok 4 0x2 False 4], 10)])
          (Some (window '']null[null'' 0 10 True)))
       (quiet_callbacks :: (script_input, unit) DecodeJsonCallbacks) () [] [] []
     = Some (Returned \<lparr>error_message = [], cursor_position = 10\<rparr> ()
         [Ev_Pop 0x1022, Ev_AppendNull, Ev_Push 0x2011, Ev_AppendNull,
          Ev_Done \<lparr>error_message = [], cursor_position = 10\<rparr>])"
    by (simp add: driver_defs script_defs VBC_defs while_true.simps Let_def
        word_le_nat_alt word_less_nat_alt)
  moreover have "top_level_values [Ev_Pop 0x1022, Ev_AppendNull, Ev_Push 0x2011, Ev_AppendNull]
      = [1, 2, 4]"
    by (simp add: top_level_values_def open_containers_def pushes_def pops_def
        completes_value_def)
  moreover have "\<not> well_nested [Ev_Pop 0x1022, Ev_AppendNull, Ev_Push 0x2011, Ev_AppendNull]"
    by (simp add: well_nested_def open_containers_def pushes_def pops_def)
  ultimately show ?thesis by blast
qed

text \<open>
  A \<open>Push\<close> that is accepted and one that is refused, a \<open>Pop\<close> at depth 2, a \<open>null\<close> at
  depth 0 and a number at depth 1, and the main loop on the tokens of \<open>[7]\<close>: it ends at
  the closing bracket with one \<open>Push\<close> and one \<open>Pop\<close>, and the closing bracket is the
  only call that completes a value while no container is open.
\<close>

theorem single_value_termination_witness:
  "DecodeJson_token (script_env (Some []) None) quiet_callbacks (tok 1 0x2011 False 1) 0 1
       (script_frame (script_ctx Status_ok [] 0 [] (window ''[7]'' 3 3 True) [] 1 []) 0 [])
     = Some (Inr
         ((script_frame (script_ctx Status_ok [] 0 [] (window ''[7]'' 3 3 True) [] 1 []) 1 [])
            \<lparr>events := [Ev_Push 0x2011]\<rparr>))
   \<and> DecodeJson_token (script_env (Some []) None) refusing_callbacks (tok 1 0x2011 False 1) 0 1
       (script_frame (script_ctx Status_ok [] 0 [] (window ''[7]'' 3 3 True) [] 1 []) 0 [])
     = Some (Inl (At_done ''too deep''
         ((script_frame (script_ctx Status_ok [] 0 [] (window ''[7]'' 3 3 True) [] 1 []) 0 [])
            \<lparr>events := [Ev_Push 0x2011]\<rparr>)))
   \<and> DecodeJson_token (script_env (Some []) None) quiet_callbacks (tok 1 0x1022 False 1) 2 1
       (script_frame (script_ctx Status_ok [] 0 [] (window ''[7]'' 3 3 True) [] 3 []) 2 [])
     = Some (Inr
         ((script_frame (script_ctx Status_ok [] 0 [] (window ''[7]'' 3 3 True) [] 3 []) 1 [])
            \<lparr>events := [Ev_Pop 0x1022]\<rparr>))
   \<and> DecodeJson_token (script_env (Some []) None) quiet_callbacks (tok 4 0x2 False 4) 0 4
       (script_frame (script_ctx Status_ok [] 0 [] (window ''null'' 4 4 True) [] 4 []) 0 [])
     = Some (Inl (At_done []
         ((script_frame (script_ctx Status_ok [] 0 [] (window ''null'' 4 4 True) [] 4 []) 0 [])
            \<lparr>events := [Ev_AppendNull]\<rparr>)))
   \<and> DecodeJson_token (script_env (Some []) None) quiet_callbacks (tok 5 0x403 False 1) 1 1
       (script_frame (script_ctx Status_ok [] 0 [] (window ''[7]'' 3 3 True) [] 2 []) 1 [])
     = Some (Inr
         ((script_frame (script_ctx Status_ok [] 0 [] (window ''[7]'' 3 3 True) [] 2 []) 1 [])
            \<lparr>events := [Ev_AppendI64 7]\<rparr>))
   \<and> DecodeJson_main_loop (script_env (Some []) None) quiet_callbacks
       (script_frame
          (script_ctx Status_ok
             [tok 1 0x2011 False 1, tok 5 0x403 False 1, tok 1 0x1022 False 1] 0 []
             (window ''[7]'' 3 3 True) [] 0 [])
          0 [])
     = Some (At_done []
         ((script_frame
            (script_ctx Status_ok
               [tok 1 0x2011 False 1, tok 5 0x403 False 1, tok 1 0x1022 False 1] 3 []
               (window ''[7]'' 3 3 True) [] 3 [])
            0 [])
            \<lparr>events := [Ev_Push 0x2011, Ev_AppendI64 7, Ev_Pop 0x1022]\<rparr>))
   \<and> well_nested [Ev_Push 0x2011, Ev_AppendI64 7, Ev_Pop 0x1022]
   \<and> pushes [Ev_Push 0x2011, Ev_AppendI64 7, Ev_Pop 0x1022]
       = pops [Ev_Push 0x2011, Ev_AppendI64 7, Ev_Pop 0x1022]
   \<and> top_level_values [Ev_Push 0x2011, Ev_AppendI64 7, Ev_Pop 0x1022] = [3]"
proof -
  let ?E = "script_env (Some []) None :: (script_decoder, script_input) env"
  let ?cb = "quiet_callbacks :: (script_input, unit) DecodeJsonCallbacks"
  let ?no = "refusing_callbacks :: (script_input, unit) DecodeJsonCallbacks"
  let ?w = "window ''[7]'' 3 3 True"
  let ?toks = "[tok 1 0x2011 False 1, tok 5 0x403 False 1, tok 1 0x1022 False 1]"
  let ?m0 = "script_frame (script_ctx Status_ok ?toks 0 [] ?w [] 0 []) 0 []"
  let ?m' = "(script_frame (script_ctx Status_ok ?toks 3 [] ?w [] 3 []) 0 [])
      \<lparr>events := [Ev_Push 0x2011, Ev_AppendI64 7, Ev_Pop 0x1022]\<rparr>"
  note evalsimps = VBC_defs script_env_simps script_env_parsers token_src_def tok_def
    script_frame_def script_ctx_def window_simps parsed_a_value_def quiet_callbacks_def
    refusing_callbacks_def attempt_i64_def attempt_f64_def
  note T = single_value_termination [where E = ?E and i = 7 and x = 0 and decoded = "[]"
      and msg = "[]" and out = "Inr ?m0" and m' = ?m']
  have w1: "DecodeJson_token ?E ?cb (tok 1 0x2011 False 1) 0 1
       (script_frame (script_ctx Status_ok [] 0 [] ?w [] 1 []) 0 [])
     = Some (Inr ((script_frame (script_ctx Status_ok [] 0 [] ?w [] 1 []) 1 [])
         \<lparr>events := [Ev_Push 0x2011]\<rparr>))"
    using T [where cb = ?cb and token = "tok 1 0x2011 False 1"
        and token_ptr = 0 and token_len = 1
        and m = "script_frame (script_ctx Status_ok [] 0 [] ?w [] 1 []) 0 []"]
    by (simp add: evalsimps)
  have w2: "DecodeJson_token ?E ?no (tok 1 0x2011 False 1) 0 1
       (script_frame (script_ctx Status_ok [] 0 [] ?w [] 1 []) 0 [])
     = Some (Inl (At_done ''too deep''
         ((script_frame (script_ctx Status_ok [] 0 [] ?w [] 1 []) 0 [])
            \<lparr>events := [Ev_Push 0x2011]\<rparr>)))"
    using T [where cb = ?no and token = "tok 1 0x2011 False 1"
        and token_ptr = 0 and token_len = 1
        and m = "script_frame (script_ctx Status_ok [] 0 [] ?w [] 1 []) 0 []"]
    by (simp add: evalsimps)
  have w3: "DecodeJson_token ?E ?cb (tok 1 0x1022 False 1) 2 1
       (script_frame (script_ctx Status_ok [] 0 [] ?w [] 3 []) 2 [])
     = Some (Inr ((script_frame (script_ctx Status_ok [] 0 [] ?w [] 3 []) 1 [])
         \<lparr>events := [Ev_Pop 0x1022]\<rparr>))"
    using T [where cb = ?cb and token = "tok 1 0x1022 False 1"
        and token_ptr = 2 and token_len = 1
        and m = "script_frame (script_ctx Status_ok [] 0 [] ?w [] 3 []) 2 []"]
    by (simp add: evalsimps)
  have w4: "DecodeJson_token ?E ?cb (tok 4 0x2 False 4) 0 4
       (script_frame (script_ctx Status_ok [] 0 [] (window ''null'' 4 4 True) [] 4 []) 0 [])
     = Some (Inl (At_done []
         ((script_frame (script_ctx Status_ok [] 0 [] (window ''null'' 4 4 True) [] 4 []) 0 [])
            \<lparr>events := [Ev_AppendNull]\<rparr>)))"
    using T [where cb = ?cb and token = "tok 4 0x2 False 4"
        and token_ptr = 0 and token_len = 4
        and m = "script_frame (script_ctx Status_ok [] 0 [] (window ''null'' 4 4 True) [] 4 [])
          0 []"]
    by (simp add: evalsimps)
  have w5: "DecodeJson_token ?E ?cb (tok 5 0x403 False 1) 1 1
       (script_frame (script_ctx Status_ok [] 0 [] ?w [] 2 []) 1 [])
     = Some (Inr ((script_frame (script_ctx Status_ok [] 0 [] ?w [] 2 []) 1 [])
         \<lparr>events := [Ev_AppendI64 7]\<rparr>))"
    using T [where cb = ?cb and token = "tok 5 0x403 False 1"
        and token_ptr = 1 and token_len = 1
        and m = "script_frame (script_ctx Status_ok [] 0 [] ?w [] 2 []) 1 []"]
    by (simp add: evalsimps)
  have run: "DecodeJson_main_loop ?E ?cb ?m0 = Some (At_done [] ?m')"
    by (simp add: driver_defs script_defs script_frame_def VBC_defs while_true.simps Let_def
        word_le_nat_alt word_less_nat_alt)
  have wn: "well_nested [Ev_Push 0x2011, Ev_AppendI64 7, Ev_Pop 0x1022]"
    by (simp add: well_nested_def open_containers_def pushes_def pops_def)
  have w6: "pushes [Ev_Push 0x2011, Ev_AppendI64 7, Ev_Pop 0x1022]
       = pops [Ev_Push 0x2011, Ev_AppendI64 7, Ev_Pop 0x1022]
     \<and> top_level_values [Ev_Push 0x2011, Ev_AppendI64 7, Ev_Pop 0x1022] = [3]"
    using T [where cb = ?cb and m = ?m0 and token = "tok 1 0x2011 False 1"
        and token_ptr = 0 and token_len = 1] run wn
    by (simp add: script_frame_def script_ctx_def)
  from w1 w2 w3 w4 w5 run wn w6 show ?thesis by blast
qed

lemma pointer_loop_frame:
  assumes "DecodeJson_pointer_loop E json_pointer m = Some out"
  shows "(\<forall>m1. out = Inr m1 \<longrightarrow> events m1 = events m \<and> depth m1 = depth m)
    \<and> (\<forall>msg m1. out = Inl (At_done msg m1) \<longrightarrow> events m1 = events m \<and> depth m1 = depth m)"
  using assms unfolding DecodeJson_pointer_loop_def
  by (rule while_true_invariant
        [where I = "\<lambda>im. events (snd im) = events m \<and> depth (snd im) = depth m"])
     (auto simp add: DecodeJson_pointer_step_def Let_def
        split: if_splits option.splits walked.splits)

lemma run_log:
  assumes run: "DecodeJson_run E cb json_pointer m = Some (At_done msg m')"
    and log: "\<forall>e \<in> set (events m). \<not> is_Done e"
  shows "\<forall>e \<in> set (events m'). \<not> is_Done e"
proof (cases "DecodeJson_pointer_loop E json_pointer m")
  case None
  with run show ?thesis by (simp add: DecodeJson_run_def)
next
  case (Some out)
  show ?thesis
  proof (cases out)
    case (Inl stop)
    with Some run pointer_loop_frame [OF Some] log show ?thesis
      by (simp add: DecodeJson_run_def)
  next
    case (Inr m1)
    with Some run have loop: "DecodeJson_main_loop E cb m1 = Some (At_done msg m')"
      by (simp add: DecodeJson_run_def)
    from Inr pointer_loop_frame [OF Some] log
    have "\<forall>e \<in> set (events m1). \<not> is_Done e" by simp
    from main_loop_log [OF loop this] show ?thesis .
  qed
qed

lemma DecodeJson_done_eq:
  "DecodeJson_done cb msg buf cur inp this log
     = Returned
         (fst (Done cb \<lparr>error_message = msg,
                        cursor_position = wuffs_base__u64__sat_add (pos (meta buf)) cur\<rparr>
                 inp buf this))
         (snd (snd (snd (Done cb \<lparr>error_message = msg,
                        cursor_position = wuffs_base__u64__sat_add (pos (meta buf)) cur\<rparr>
                 inp buf this))))
         (log @ [Ev_Done \<lparr>error_message = msg,
                          cursor_position = wuffs_base__u64__sat_add (pos (meta buf)) cur\<rparr>])"
  by (simp add: DecodeJson_done_def Let_def split: prod.splits)


lemma while_true_sim_Some:
  fixes body :: "'s \<Rightarrow> ('r + 's) option" and body' :: "'t \<Rightarrow> ('q + 't) option"
  assumes sim: "\<And>s. body' (f s) = map_option (map_sum g f) (body s)"
    and run: "while_true body s = Some r"
  shows "while_true body' (f s) = Some (g r)"
  using run
proof (rule while_true_invariant
    [where I = "\<lambda>x. while_true body' (f x) = while_true body' (f s)"])
  show "while_true body' (f s) = while_true body' (f s)" ..
next
  fix x x' assume i: "while_true body' (f x) = while_true body' (f s)"
    and b: "body x = Some (Inr x')"
  from b sim [of x] have "body' (f x) = Some (Inr (f x'))" by simp
  with while_true_again [of body' "f x" "f x'"] i
  show "while_true body' (f x') = while_true body' (f s)" by simp
next
  fix x r' assume i: "while_true body' (f x) = while_true body' (f s)"
    and b: "body x = Some (Inl r')"
  from b sim [of x] have "body' (f x) = Some (Inl (g r'))" by simp
  with while_true_exit [of body' "f x" "g r'"] i
  show "while_true body' (f s) = Some (g r')" by simp
qed

lemma while_true_sim_None:
  fixes body :: "'s \<Rightarrow> ('r + 's) option" and body' :: "'t \<Rightarrow> ('q + 't) option"
  assumes sim: "\<And>s. body' (f s) = map_option (map_sum g f) (body s)"
    and run: "while_true body' (f s) = Some r'"
  shows "while_true body s \<noteq> None"
  using run
proof (rule while_true_invariant
    [where I = "\<lambda>y. \<exists>x. y = f x \<and> while_true body x = while_true body s"])
  show "\<exists>x. f s = f x \<and> while_true body x = while_true body s" by blast
next
  fix y y' assume "\<exists>x. y = f x \<and> while_true body x = while_true body s"
    and b: "body' y = Some (Inr y')"
  then obtain x where y: "y = f x" and w: "while_true body x = while_true body s" by blast
  from b y sim [of x] obtain x' where "body x = Some (Inr x')" and "y' = f x'"
    by (cases "body x") (auto simp add: map_sum_def split: sum.splits)
  with w while_true_again [of body x x']
  show "\<exists>x. y' = f x \<and> while_true body x = while_true body s" by auto
next
  fix y q assume "\<exists>x. y = f x \<and> while_true body x = while_true body s"
    and b: "body' y = Some (Inl q)"
  then obtain x where y: "y = f x" and w: "while_true body x = while_true body s" by blast
  from b y sim [of x] obtain r where "body x = Some (Inl r)"
    by (cases "body x") (auto simp add: map_sum_def split: sum.splits)
  with while_true_exit [of body x r] w show "while_true body s \<noteq> None" by simp
qed

lemma while_true_sim:
  fixes body :: "'s \<Rightarrow> ('r + 's) option" and body' :: "'t \<Rightarrow> ('q + 't) option"
  assumes sim: "\<And>s. body' (f s) = map_option (map_sum g f) (body s)"
  shows "while_true body' (f s) = map_option g (while_true body s)"
proof (cases "while_true body s")
  case None
  with while_true_sim_None [of body' f g body s, OF sim] show ?thesis
    by (cases "while_true body' (f s)") auto
next
  case (Some r)
  from while_true_sim_Some [of body' f g body s r, OF sim Some] Some show ?thesis by simp
qed

lemma with_count_simps:
  "ctx (with_count n m) = ctx m"
  "depth (with_count n m) = depth m"
  "str (with_count n m) = str m"
  "callbacks (with_count n m) = (callbacks m, n)"
  "events (with_count n m) = events m"
  "(with_count n m)\<lparr>ctx := c\<rparr> = with_count n (m\<lparr>ctx := c\<rparr>)"
  "(with_count n m)\<lparr>depth := d\<rparr> = with_count n (m\<lparr>depth := d\<rparr>)"
  "(with_count n m)\<lparr>str := x\<rparr> = with_count n (m\<lparr>str := x\<rparr>)"
  "(with_count n m)\<lparr>events := l\<rparr> = with_count n (m\<lparr>events := l\<rparr>)"
  "(with_count n m)\<lparr>callbacks := (c', n)\<rparr> = with_count n (m\<lparr>callbacks := c'\<rparr>)"
  by (simp_all add: with_count_def)

lemma counting_Done_simps:
  "AppendNull (counting_Done cb) (c, n) = kept n (AppendNull cb c)"
  "AppendBool (counting_Done cb) b (c, n) = kept n (AppendBool cb b c)"
  "AppendI64 (counting_Done cb) i (c, n) = kept n (AppendI64 cb i c)"
  "AppendF64 (counting_Done cb) x (c, n) = kept n (AppendF64 cb x c)"
  "AppendTextString (counting_Done cb) v (c, n) = kept n (AppendTextString cb v c)"
  "AppendByteString (counting_Done cb) v (c, n) = kept n (AppendByteString cb v c)"
  "Push (counting_Done cb) fl (c, n) = kept n (Push cb fl c)"
  "Pop (counting_Done cb) fl (c, n) = kept n (Pop cb fl c)"
  by (simp_all add: counting_Done_def)

lemma logged_count:
  "logged e (kept n r) (with_count n m)
     = (fst (logged e r m), with_count n (snd (logged e r m)))"
  by (simp add: logged_def kept_def with_count_def)

lemma parsed_count:
  "parsed_a_value msg (with_count n m)
     = map_sum (stopped_with_count n) (with_count n) (parsed_a_value msg m)"
  by (simp add: parsed_a_value_def with_count_simps)

lemma fail_count:
  "fail (with_count n m) = map_sum (stopped_with_count n) (with_count n) (fail m)"
  by (simp add: fail_def)

lemma structure_count:
  "DecodeJson_structure E (counting_Done cb) vbd (with_count n m)
     = map_sum (stopped_with_count n) (with_count n) (DecodeJson_structure E cb vbd m)"
  by (simp add: DecodeJson_structure_def counting_Done_simps with_count_simps logged_count
      parsed_count split: prod.splits)

lemma string_end_count:
  "DecodeJson_string_end E (counting_Done cb) token (with_count n m)
     = map_sum (stopped_with_count n) (with_count n) (DecodeJson_string_end E cb token m)"
  by (simp add: DecodeJson_string_end_def counting_Done_simps with_count_simps logged_count
      parsed_count split: prod.splits)

lemma string_count:
  "DecodeJson_string E (counting_Done cb) token src (with_count n m)
     = map_option (map_sum (stopped_with_count n) (with_count n))
         (DecodeJson_string E cb token src m)"
  by (simp add: DecodeJson_string_def Let_def with_count_simps string_end_count fail_count
      split: option.splits prod.splits)

lemma unicode_code_point_count:
  "DecodeJson_unicode_code_point E token (with_count n m)
     = map_sum (stopped_with_count n) (with_count n) (DecodeJson_unicode_code_point E token m)"
  by (simp add: DecodeJson_unicode_code_point_def Let_def with_count_simps fail_count)

lemma literal_count:
  "DecodeJson_literal E (counting_Done cb) vbd (with_count n m)
     = map_sum (stopped_with_count n) (with_count n) (DecodeJson_literal E cb vbd m)"
  by (simp add: DecodeJson_literal_def counting_Done_simps with_count_simps logged_count
      parsed_count split: prod.splits)

lemma AppendF64_count:
  "call_AppendF64 (counting_Done cb) val (with_count n m)
     = map_sum (stopped_with_count n) (with_count n) (call_AppendF64 cb val m)"
  by (simp add: call_AppendF64_def counting_Done_simps with_count_simps logged_count
      parsed_count split: prod.splits)

lemma number_count:
  "DecodeJson_number E (counting_Done cb) vbd src (with_count n m)
     = map_sum (stopped_with_count n) (with_count n) (DecodeJson_number E cb vbd src m)"
  by (simp add: DecodeJson_number_def counting_Done_simps with_count_simps logged_count
      parsed_count AppendF64_count fail_count split: prod.splits option.splits)

lemma token_count:
  "DecodeJson_token E (counting_Done cb) token token_ptr token_len (with_count n m)
     = map_option (map_sum (stopped_with_count n) (with_count n))
         (DecodeJson_token E cb token token_ptr token_len m)"
  by (simp add: DecodeJson_token_def Let_def with_count_simps structure_count string_count
      unicode_code_point_count literal_count number_count fail_count)

lemma main_step_count:
  "DecodeJson_main_step E (counting_Done cb) (with_count n m)
     = map_option (map_sum (stopped_with_count n) (with_count n))
         (DecodeJson_main_step E cb m)"
  by (simp add: DecodeJson_main_step_def with_count_simps token_count
      split: option.splits fetched.splits)

lemma main_loop_count:
  "DecodeJson_main_loop E (counting_Done cb) (with_count n m)
     = map_option (stopped_with_count n) (DecodeJson_main_loop E cb m)"
  unfolding DecodeJson_main_loop_def
  by (rule while_true_sim) (rule main_step_count)

lemma pointer_step_count:
  "DecodeJson_pointer_step E json_pointer (map_prod id (with_count n) im)
     = map_option (map_sum (map_sum (stopped_with_count n) (with_count n))
         (map_prod id (with_count n))) (DecodeJson_pointer_step E json_pointer im)"
  by (cases im)
     (simp add: DecodeJson_pointer_step_def Let_def with_count_simps
        split: option.splits walked.splits)

lemma pointer_loop_count:
  "DecodeJson_pointer_loop E json_pointer (with_count n m)
     = map_option (map_sum (stopped_with_count n) (with_count n))
         (DecodeJson_pointer_loop E json_pointer m)"
proof -
  have "while_true (DecodeJson_pointer_step E json_pointer) (map_prod id (with_count n) (0, m))
      = map_option (map_sum (stopped_with_count n) (with_count n))
          (while_true (DecodeJson_pointer_step E json_pointer) (0, m))"
    by (rule while_true_sim) (rule pointer_step_count)
  then show ?thesis by (simp add: DecodeJson_pointer_loop_def)
qed

lemma run_count:
  "DecodeJson_run E (counting_Done cb) json_pointer (with_count n m)
     = map_option (stopped_with_count n) (DecodeJson_run E cb json_pointer m)"
  by (simp add: DecodeJson_run_def pointer_loop_count main_loop_count
      split: option.splits sum.splits)

lemma done_count:
  "DecodeJson_done (counting_Done cb) msg buf cur inp (this, n) log
     = returned_with_count (Suc n) (DecodeJson_done cb msg buf cur inp this log)"
  by (simp add: DecodeJson_done_def Let_def counting_Done_def split: prod.splits)

lemma frame_count:
  "DecodeJson_frame E (this, n) inp quirks dec0
     = with_count n (DecodeJson_frame E this inp quirks dec0)"
  by (simp add: DecodeJson_frame_def with_count_def)

lemma DecodeJson_count:
  "DecodeJson E (counting_Done cb) (this, n) inp quirks json_pointer
     = map_option (returned_with_count (Suc n)) (DecodeJson E cb this inp quirks json_pointer)"
  by (simp add: DecodeJson_def frame_count run_count done_count with_count_simps
      split: option.splits stopped.splits)


text \<open>
  Claim C9. Every execution of \<open>DecodeJson\<close> that returns has called \<open>Done\<close> exactly
  once. A callbacks object that counts the calls of its \<open>Done\<close>, and passes every call
  on to \<open>cb\<close>, comes back from \<open>DecodeJson\<close> with a count that is higher by one, and the
  execution is otherwise the execution with \<open>cb\<close> itself, whatever \<open>cb\<close>, the input, the
  quirks and the JSON Pointer are. What \<open>DecodeJson\<close> returns is what that one call of
  \<open>Done\<close> leaves: at the label \<open>done\<close> the result is assembled from the message and the
  saturating sum of \<open>pos\<close> and \<open>cursor_index\<close>, \<open>Done\<close> is called on it, on the input, on
  the byte window and on the callbacks object as the calls before have left it, and the
  result is returned. The log of calls ends with this call and holds no other call of
  \<open>Done\<close>. This is so on every way to the label \<open>done\<close>: when the decoder cannot be
  allocated, with the "out of memory" message and no call before, and whenever the \<open>do\<close>
  block reaches \<open>done\<close> with a message (none, a bad JSON Pointer, no match, an I/O,
  decoder, callback or internal error). An execution whose block does not end, or reads
  outside the token array, does not return and calls no \<open>Done\<close>.
\<close>

theorem Done_exactly_once:
  "DecodeJson E (counting_Done cb) (this, n) inp quirks json_pointer
     = map_option (returned_with_count (Suc n)) (DecodeJson E cb this inp quirks json_pointer)
   \<and> DecodeJson_done cb msg buf cur inp' this' log'
     = Returned
         (fst (Done cb \<lparr>error_message = msg,
                 cursor_position = wuffs_base__u64__sat_add (pos (meta buf)) cur\<rparr>
               inp' buf this'))
         (snd (snd (snd (Done cb \<lparr>error_message = msg,
                 cursor_position = wuffs_base__u64__sat_add (pos (meta buf)) cur\<rparr>
               inp' buf this'))))
         (log' @ [Ev_Done \<lparr>error_message = msg,
                    cursor_position = wuffs_base__u64__sat_add (pos (meta buf)) cur\<rparr>])
   \<and> (DecodeJson E cb this inp quirks json_pointer = Some (Returned r c log) \<longrightarrow>
      (\<exists>body result inp1 buf1 this1.
         log = body @ [Ev_Done result] \<and> (\<forall>e \<in> set body. \<not> is_Done e)
         \<and> r = fst (Done cb result inp1 buf1 this1)
         \<and> c = snd (snd (snd (Done cb result inp1 buf1 this1))))
      \<and> length (filter is_Done log) = 1)
   \<and> (alloc E = None \<longrightarrow>
      DecodeJson E cb this inp quirks json_pointer
        = Some (DecodeJson_done cb ''wuffs_aux::DecodeJson: out of memory''
            (DecodeJson_io_buf E inp) 0 inp this []))
   \<and> (alloc E = Some dec0
        \<and> DecodeJson_run E cb json_pointer (DecodeJson_frame E this inp quirks dec0)
            = Some (At_done msg m) \<longrightarrow>
      DecodeJson E cb this inp quirks json_pointer
        = Some (DecodeJson_done cb msg (io_buf (ctx m)) (cursor_index (ctx m)) (input (ctx m))
            (callbacks m) (events m))
      \<and> (\<forall>e \<in> set (events m). \<not> is_Done e))
   \<and> (alloc E = Some dec0
        \<and> DecodeJson_run E cb json_pointer (DecodeJson_frame E this inp quirks dec0)
            = Some Stopped_undefined_behaviour \<longrightarrow>
      DecodeJson E cb this inp quirks json_pointer = Some Returned_undefined_behaviour)
   \<and> (alloc E = Some dec0
        \<and> DecodeJson_run E cb json_pointer (DecodeJson_frame E this inp quirks dec0) = None \<longrightarrow>
      DecodeJson E cb this inp quirks json_pointer = None)"
proof -
  have c1: "(\<exists>body result inp1 buf1 this1.
         log = body @ [Ev_Done result] \<and> (\<forall>e \<in> set body. \<not> is_Done e)
         \<and> r = fst (Done cb result inp1 buf1 this1)
         \<and> c = snd (snd (snd (Done cb result inp1 buf1 this1))))
      \<and> length (filter is_Done log) = 1"
    if ret: "DecodeJson E cb this inp quirks json_pointer = Some (Returned r c log)"
  proof -
    from DecodeJson_Returned [OF ret] obtain msg buf cur inp' this' log' where
      d: "DecodeJson_done cb msg buf cur inp' this' log' = Returned r c log"
      and w: "(alloc E = None \<and> log' = [])
               \<or> (\<exists>dec0 m. alloc E = Some dec0
                     \<and> DecodeJson_run E cb json_pointer (DecodeJson_frame E this inp quirks dec0)
                         = Some (At_done msg m)
                     \<and> log' = events m)"
      by blast
    from w have clean: "\<forall>e \<in> set log'. \<not> is_Done e"
    proof
      assume "alloc E = None \<and> log' = []"
      then show ?thesis by simp
    next
      assume "\<exists>dec0 m. alloc E = Some dec0
          \<and> DecodeJson_run E cb json_pointer (DecodeJson_frame E this inp quirks dec0)
              = Some (At_done msg m)
          \<and> log' = events m"
      then obtain dec0 m where
        run: "DecodeJson_run E cb json_pointer (DecodeJson_frame E this inp quirks dec0)
            = Some (At_done msg m)"
        and l: "log' = events m"
        by blast
      have "\<forall>e \<in> set (events (DecodeJson_frame E this inp quirks dec0)). \<not> is_Done e"
        by (simp add: DecodeJson_frame_def)
      from run_log [OF run this] l show ?thesis by simp
    qed
    let ?result = "\<lparr>error_message = msg,
        cursor_position = wuffs_base__u64__sat_add (pos (meta buf)) cur\<rparr>"
    from d have l: "log = log' @ [Ev_Done ?result]"
      and r: "r = fst (Done cb ?result inp' buf this')"
      and c: "c = snd (snd (snd (Done cb ?result inp' buf this')))"
      by (simp_all add: DecodeJson_done_eq)
    from clean have "filter is_Done log' = []" by (simp add: filter_empty_conv)
    with l have one: "length (filter is_Done log) = 1" by simp
    from l clean r c have "\<exists>body result inp1 buf1 this1.
         log = body @ [Ev_Done result] \<and> (\<forall>e \<in> set body. \<not> is_Done e)
         \<and> r = fst (Done cb result inp1 buf1 this1)
         \<and> c = snd (snd (snd (Done cb result inp1 buf1 this1)))"
      by blast
    with one show ?thesis by blast
  qed
  have c2: "alloc E = None \<longrightarrow>
      DecodeJson E cb this inp quirks json_pointer
        = Some (DecodeJson_done cb ''wuffs_aux::DecodeJson: out of memory''
            (DecodeJson_io_buf E inp) 0 inp this [])"
    by (simp add: DecodeJson_def)
  have c3: "DecodeJson E cb this inp quirks json_pointer
        = Some (DecodeJson_done cb msg (io_buf (ctx m)) (cursor_index (ctx m)) (input (ctx m))
            (callbacks m) (events m))
      \<and> (\<forall>e \<in> set (events m). \<not> is_Done e)"
    if a: "alloc E = Some dec0"
      and run: "DecodeJson_run E cb json_pointer (DecodeJson_frame E this inp quirks dec0)
            = Some (At_done msg m)"
  proof -
    have "\<forall>e \<in> set (events (DecodeJson_frame E this inp quirks dec0)). \<not> is_Done e"
      by (simp add: DecodeJson_frame_def)
    from run_log [OF run this] a run show ?thesis
      by (simp add: DecodeJson_def)
  qed
  have c4: "alloc E = Some dec0
        \<and> DecodeJson_run E cb json_pointer (DecodeJson_frame E this inp quirks dec0)
            = Some Stopped_undefined_behaviour \<longrightarrow>
      DecodeJson E cb this inp quirks json_pointer = Some Returned_undefined_behaviour"
    by (simp add: DecodeJson_def)
  have c5: "alloc E = Some dec0
        \<and> DecodeJson_run E cb json_pointer (DecodeJson_frame E this inp quirks dec0) = None \<longrightarrow>
      DecodeJson E cb this inp quirks json_pointer = None"
    by (simp add: DecodeJson_def)
  from c1 c3 have c1': "DecodeJson E cb this inp quirks json_pointer = Some (Returned r c log) \<longrightarrow>
      (\<exists>body result inp1 buf1 this1.
         log = body @ [Ev_Done result] \<and> (\<forall>e \<in> set body. \<not> is_Done e)
         \<and> r = fst (Done cb result inp1 buf1 this1)
         \<and> c = snd (snd (snd (Done cb result inp1 buf1 this1))))
      \<and> length (filter is_Done log) = 1"
    and c3': "alloc E = Some dec0
        \<and> DecodeJson_run E cb json_pointer (DecodeJson_frame E this inp quirks dec0)
            = Some (At_done msg m) \<longrightarrow>
      DecodeJson E cb this inp quirks json_pointer
        = Some (DecodeJson_done cb msg (io_buf (ctx m)) (cursor_index (ctx m)) (input (ctx m))
            (callbacks m) (events m))
      \<and> (\<forall>e \<in> set (events m). \<not> is_Done e)"
    by blast+
  show ?thesis
    by (intro conjI DecodeJson_count DecodeJson_done_eq c1' c2 c3' c4 c5)
qed

text \<open>
  Three runs: the decoder cannot be allocated; the JSON Pointer \<open>a\<close> does not start
  with a slash; the input \<open>null\<close> is decoded. Each log holds one \<open>Done\<close>, at its end,
  and each count goes from 0 to 1.
\<close>

theorem Done_exactly_once_witness:
  "DecodeJson (script_env None (Some (window ''null'' 0 4 True))) quiet_callbacks () [] [] []
     = Some (Returned
         \<lparr>error_message = ''wuffs_aux::DecodeJson: out of memory'', cursor_position = 0\<rparr> ()
         [Ev_Done \<lparr>error_message = ''wuffs_aux::DecodeJson: out of memory'',
                   cursor_position = 0\<rparr>])
   \<and> DecodeJson (script_env (Some [(Status_ok, [tok 4 0x2 False 4], 4)])
          (Some (window ''null'' 0 4 True))) quiet_callbacks () [] [] ''a''
     = Some (Returned
         \<lparr>error_message = ''wuffs_aux::DecodeJson: bad JSON Pointer'', cursor_position = 0\<rparr> ()
         [Ev_Done \<lparr>error_message = ''wuffs_aux::DecodeJson: bad JSON Pointer'',
                   cursor_position = 0\<rparr>])
   \<and> DecodeJson (script_env (Some [(Status_ok, [tok 4 0x2 False 4], 4)])
          (Some (window ''null'' 0 4 True))) quiet_callbacks () [] [] []
     = Some (Returned \<lparr>error_message = [], cursor_position = 4\<rparr> ()
         [Ev_AppendNull, Ev_Done \<lparr>error_message = [], cursor_position = 4\<rparr>])
   \<and> DecodeJson (script_env None (Some (window ''null'' 0 4 True)))
          (counting_Done quiet_callbacks) ((), 0) [] [] []
     = Some (Returned
         \<lparr>error_message = ''wuffs_aux::DecodeJson: out of memory'', cursor_position = 0\<rparr>
         ((), 1)
         [Ev_Done \<lparr>error_message = ''wuffs_aux::DecodeJson: out of memory'',
                   cursor_position = 0\<rparr>])
   \<and> DecodeJson (script_env (Some [(Status_ok, [tok 4 0x2 False 4], 4)])
          (Some (window ''null'' 0 4 True))) (counting_Done quiet_callbacks) ((), 0) [] []
          ''a''
     = Some (Returned
         \<lparr>error_message = ''wuffs_aux::DecodeJson: bad JSON Pointer'', cursor_position = 0\<rparr>
         ((), 1)
         [Ev_Done \<lparr>error_message = ''wuffs_aux::DecodeJson: bad JSON Pointer'',
                   cursor_position = 0\<rparr>])
   \<and> DecodeJson (script_env (Some [(Status_ok, [tok 4 0x2 False 4], 4)])
          (Some (window ''null'' 0 4 True))) (counting_Done editing_callbacks) ((), 0) [] [] []
     = Some (Returned \<lparr>error_message = ''edited'', cursor_position = 0\<rparr> ((), 1)
         [Ev_AppendNull, Ev_Done \<lparr>error_message = [], cursor_position = 4\<rparr>])
   \<and> length (filter is_Done
         [Ev_Done \<lparr>error_message = ''wuffs_aux::DecodeJson: out of memory'',
                   cursor_position = 0\<rparr>]) = 1
   \<and> length (filter is_Done
         [Ev_Done \<lparr>error_message = ''wuffs_aux::DecodeJson: bad JSON Pointer'',
                   cursor_position = 0\<rparr>]) = 1
   \<and> length (filter is_Done
         [Ev_AppendNull, Ev_Done \<lparr>error_message = [], cursor_position = 4\<rparr>]) = 1"
proof -
  let ?cb = "quiet_callbacks :: (script_input, unit) DecodeJsonCallbacks"
  let ?ed = "editing_callbacks :: (script_input, unit) DecodeJsonCallbacks"
  let ?oomE = "script_env None (Some (window ''null'' 0 4 True))"
  let ?E = "script_env (Some [(Status_ok, [tok 4 0x2 False 4], 4)])
      (Some (window ''null'' 0 4 True))"
  let ?oom = "\<lparr>error_message = ''wuffs_aux::DecodeJson: out of memory'',
      cursor_position = 0 :: u64\<rparr>"
  let ?bad = "\<lparr>error_message = ''wuffs_aux::DecodeJson: bad JSON Pointer'',
      cursor_position = 0 :: u64\<rparr>"
  let ?ok = "\<lparr>error_message = [], cursor_position = 4 :: u64\<rparr>"
  let ?edited = "\<lparr>error_message = ''edited'', cursor_position = 0 :: u64\<rparr>"
  have r1: "DecodeJson ?oomE ?cb () [] [] [] = Some (Returned ?oom () [Ev_Done ?oom])"
    by (simp add: driver_defs script_defs Let_def)
  have r2: "DecodeJson ?E ?cb () [] [] ''a'' = Some (Returned ?bad () [Ev_Done ?bad])"
    by (simp add: driver_defs script_defs DecodeJson_BadJsonPointer_def while_true.simps
        Let_def)
  have r3: "DecodeJson ?E ?cb () [] [] [] = Some (Returned ?ok () [Ev_AppendNull, Ev_Done ?ok])"
    by (simp add: driver_defs script_defs VBC_defs while_true.simps Let_def)
  have r4: "DecodeJson ?E ?ed () [] [] []
      = Some (Returned ?edited () [Ev_AppendNull, Ev_Done ?ok])"
    by (simp add: driver_defs script_defs VBC_defs while_true.simps Let_def)
  have k1: "DecodeJson ?oomE (counting_Done ?cb) ((), 0) [] [] []
      = Some (Returned ?oom ((), 1) [Ev_Done ?oom])"
    using Done_exactly_once [where E = ?oomE and cb = ?cb and this = "()" and n = 0
        and inp = "[]" and quirks = "[]" and json_pointer = "[]", THEN conjunct1]
    by (simp add: r1)
  have k2: "DecodeJson ?E (counting_Done ?cb) ((), 0) [] [] ''a''
      = Some (Returned ?bad ((), 1) [Ev_Done ?bad])"
    using Done_exactly_once [where E = ?E and cb = ?cb and this = "()" and n = 0
        and inp = "[]" and quirks = "[]" and json_pointer = "''a''", THEN conjunct1]
    by (simp add: r2)
  have k3: "DecodeJson ?E (counting_Done ?ed) ((), 0) [] [] []
      = Some (Returned ?edited ((), 1) [Ev_AppendNull, Ev_Done ?ok])"
    using Done_exactly_once [where E = ?E and cb = ?ed and this = "()" and n = 0
        and inp = "[]" and quirks = "[]" and json_pointer = "[]", THEN conjunct1]
    by (simp add: r4)
  have k4: "length (filter is_Done [Ev_Done ?oom]) = 1"
    "length (filter is_Done [Ev_Done ?bad]) = 1"
    "length (filter is_Done [Ev_AppendNull, Ev_Done ?ok]) = 1"
    using Done_exactly_once [where E = ?oomE and cb = ?cb and this = "()" and inp = "[]"
        and quirks = "[]" and json_pointer = "[]" and r = ?oom and c = "()"
        and log = "[Ev_Done ?oom]"]
      Done_exactly_once [where E = ?E and cb = ?cb and this = "()" and inp = "[]"
        and quirks = "[]" and json_pointer = "''a''" and r = ?bad and c = "()"
        and log = "[Ev_Done ?bad]"]
      Done_exactly_once [where E = ?E and cb = ?cb and this = "()" and inp = "[]"
        and quirks = "[]" and json_pointer = "[]" and r = ?ok and c = "()"
        and log = "[Ev_AppendNull, Ev_Done ?ok]"]
      r1 r2 r3
    by simp_all
  from r1 r2 r3 k1 k2 k3 k4 show ?thesis by blast
qed

text \<open>
  Claim C10. The result that \<open>DecodeJson\<close> returns is the object that \<open>Done\<close> has
  received by reference, as \<open>Done\<close> has left it: what \<open>Done\<close> writes into
  \<open>error_message\<close> or \<open>cursor_position\<close> reaches the caller. With the default \<open>Done\<close>,
  which does nothing, the returned result is the one assembled at the label \<open>done\<close>.
\<close>

theorem Done_result_returned:
  "DecodeJson E cb this inp quirks json_pointer = Some (Returned r c log) \<longrightarrow>
     (\<exists>result inp' buf this'.
        log \<noteq> [] \<and> last log = Ev_Done result
        \<and> r = fst (Done cb result inp' buf this')
        \<and> c = snd (snd (snd (Done cb result inp' buf this')))
        \<and> (Done cb = DecodeJsonCallbacks_Done \<longrightarrow> r = result \<and> c = this'))"
proof
  assume ret: "DecodeJson E cb this inp quirks json_pointer = Some (Returned r c log)"
  from DecodeJson_Returned [OF ret] obtain msg buf cur inp' this' log' where
    d: "DecodeJson_done cb msg buf cur inp' this' log' = Returned r c log"
    by blast
  let ?result = "\<lparr>error_message = msg,
      cursor_position = wuffs_base__u64__sat_add (pos (meta buf)) cur\<rparr>"
  from d have "log = log' @ [Ev_Done ?result]" "r = fst (Done cb ?result inp' buf this')"
    "c = snd (snd (snd (Done cb ?result inp' buf this')))"
    by (simp_all add: DecodeJson_done_eq)
  then show "\<exists>result inp' buf this'.
        log \<noteq> [] \<and> last log = Ev_Done result
        \<and> r = fst (Done cb result inp' buf this')
        \<and> c = snd (snd (snd (Done cb result inp' buf this')))
        \<and> (Done cb = DecodeJsonCallbacks_Done \<longrightarrow> r = result \<and> c = this')"
    by (intro exI [of _ ?result] exI [of _ inp'] exI [of _ buf] exI [of _ this'])
       (simp add: DecodeJsonCallbacks_Done_def)
qed

text \<open>
  On the input \<open>null\<close>, a \<open>Done\<close> that overwrites both fields of the result changes what
  \<open>DecodeJson\<close> returns, and the default \<open>Done\<close> returns the assembled result.
\<close>

theorem Done_result_returned_witness:
  "DecodeJson (script_env (Some [(Status_ok, [tok 4 0x2 False 4], 4)])
       (Some (window ''null'' 0 4 True))) editing_callbacks () [] [] []
     = Some (Returned \<lparr>error_message = ''edited'', cursor_position = 0\<rparr> ()
         [Ev_AppendNull, Ev_Done \<lparr>error_message = [], cursor_position = 4\<rparr>])
   \<and> (\<exists>inp' buf this'.
         \<lparr>error_message = ''edited'', cursor_position = 0\<rparr>
           = fst (Done (editing_callbacks :: (script_input, unit) DecodeJsonCallbacks)
                \<lparr>error_message = [], cursor_position = 4\<rparr> inp' buf this'))
   \<and> DecodeJson (script_env (Some [(Status_ok, [tok 4 0x2 False 4], 4)])
       (Some (window ''null'' 0 4 True))) quiet_callbacks () [] [] []
     = Some (Returned \<lparr>error_message = [], cursor_position = 4\<rparr> ()
         [Ev_AppendNull, Ev_Done \<lparr>error_message = [], cursor_position = 4\<rparr>])"
proof -
  let ?cb = "quiet_callbacks :: (script_input, unit) DecodeJsonCallbacks"
  let ?ed = "editing_callbacks :: (script_input, unit) DecodeJsonCallbacks"
  let ?E = "script_env (Some [(Status_ok, [tok 4 0x2 False 4], 4)])
      (Some (window ''null'' 0 4 True))"
  let ?ok = "\<lparr>error_message = [], cursor_position = 4 :: u64\<rparr>"
  let ?edited = "\<lparr>error_message = ''edited'', cursor_position = 0 :: u64\<rparr>"
  have r1: "DecodeJson ?E ?ed () [] [] []
      = Some (Returned ?edited () [Ev_AppendNull, Ev_Done ?ok])"
    by (simp add: driver_defs script_defs VBC_defs while_true.simps Let_def)
  have r2: "DecodeJson ?E ?cb () [] [] []
      = Some (Returned ?ok () [Ev_AppendNull, Ev_Done ?ok])"
    by (simp add: driver_defs script_defs VBC_defs while_true.simps Let_def)
  from Done_result_returned [where E = ?E and cb = ?ed and this = "()" and inp = "[]"
      and quirks = "[]" and json_pointer = "[]" and r = ?edited and c = "()"
      and log = "[Ev_AppendNull, Ev_Done ?ok]"]
    Done_result_returned [where E = ?E and cb = ?cb and this = "()" and inp = "[]"
      and quirks = "[]" and json_pointer = "[]" and r = ?ok and c = "()"
      and log = "[Ev_AppendNull, Ev_Done ?ok]"]
    r1 r2
  show ?thesis by auto
qed

lemmas walker_defs =
  DecodeJson_WalkJsonPointerFragment_def walk_step_def walk_token_def walk_at_entry_def
  walk_dict_key_def dict_key_end_def walk_skip_dict_value_def walk_list_skip_def
  walk_check_that_a_value_follows_def do_list_def DecodeJson_NoMatch_def unexpected_token_def

lemma raw_fragment_end: "length s \<le> i \<Longrightarrow> spec_raw_fragment s i = []"
  by (simp add: spec_raw_fragment_def)

lemma raw_fragment_slash: "i < length s \<Longrightarrow> s ! i = CHR ''/'' \<Longrightarrow> spec_raw_fragment s i = []"
  by (simp add: spec_raw_fragment_def Cons_nth_drop_Suc [symmetric])

lemma raw_fragment_other:
  "i < length s \<Longrightarrow> s ! i \<noteq> CHR ''/'' \<Longrightarrow>
     spec_raw_fragment s i = s ! i # spec_raw_fragment s (Suc i)"
  by (simp add: spec_raw_fragment_def Cons_nth_drop_Suc [symmetric])

lemma SplitJsonPointer_loop_refines:
  "DecodeJson_SplitJsonPointer_loop s i fragment
     = (case spec_unescape (spec_raw_fragment s i) of
          None \<Rightarrow> ([], 0)
        | Some f \<Rightarrow> (fragment @ f, i + length (spec_raw_fragment s i)))"
proof (induction s i fragment rule: DecodeJson_SplitJsonPointer_loop.induct)
  case (1 s i fragment)
  show ?case
  proof (cases "i < length s")
    case False
    then show ?thesis
      by (subst DecodeJson_SplitJsonPointer_loop.simps) (simp add: raw_fragment_end)
  next
    case inside: True
    show ?thesis
    proof (cases "s ! i = CHR ''/''")
      case True
      with inside show ?thesis
        by (subst DecodeJson_SplitJsonPointer_loop.simps) (simp add: raw_fragment_slash)
    next
      case no_slash: False
      show ?thesis
      proof (cases "s ! i = CHR ''~''")
        case False
        with inside no_slash "1.IH"(1) show ?thesis
          by (subst DecodeJson_SplitJsonPointer_loop.simps)
             (simp add: raw_fragment_other split: option.splits)
      next
        case tilde: True
        show ?thesis
        proof (cases "length s \<le> i + 1")
          case True
          with inside no_slash tilde show ?thesis
            by (subst DecodeJson_SplitJsonPointer_loop.simps)
               (simp add: raw_fragment_other raw_fragment_end)
        next
          case more: False
          then have next_in: "Suc i < length s" by simp
          show ?thesis
          proof (cases "s ! (i + 1) = CHR ''/''")
            case True
            with inside no_slash tilde more next_in show ?thesis
              by (subst DecodeJson_SplitJsonPointer_loop.simps)
                 (simp add: raw_fragment_other raw_fragment_slash)
          next
            case False
            then have raw: "spec_raw_fragment s i
                = CHR ''~'' # s ! (Suc i) # spec_raw_fragment s (Suc (Suc i))"
              using inside no_slash tilde next_in by (simp add: raw_fragment_other)
            show ?thesis
            proof (cases "s ! (i + 1) = CHR ''0''")
              case True
              with inside no_slash tilde more "1.IH"(2) raw show ?thesis
                by (subst DecodeJson_SplitJsonPointer_loop.simps)
                   (simp split: option.splits)
            next
              case not0: False
              show ?thesis
              proof (cases "s ! (i + 1) = CHR ''1''")
                case True
                with inside no_slash tilde more not0 "1.IH"(3) raw show ?thesis
                  by (subst DecodeJson_SplitJsonPointer_loop.simps)
                     (simp split: option.splits)
              next
                case False
                with inside no_slash tilde more not0 raw show ?thesis
                  by (subst DecodeJson_SplitJsonPointer_loop.simps) simp
              qed
            qed
          qed
        qed
      qed
    qed
  qed
qed

lemma SplitJsonPointer_refines:
  "DecodeJson_SplitJsonPointer s i
     = (case spec_unescape (spec_raw_fragment s i) of
          None \<Rightarrow> ([], 0)
        | Some f \<Rightarrow> (f, i + length (spec_raw_fragment s i)))"
  by (simp add: DecodeJson_SplitJsonPointer_def SplitJsonPointer_loop_refines
      split: option.splits)

lemma raw_fragment_stops:
  assumes "i \<le> length s"
  shows "i + length (spec_raw_fragment s i) = length s
    \<or> (i + length (spec_raw_fragment s i) < length s
        \<and> s ! (i + length (spec_raw_fragment s i)) = CHR ''/'')"
proof -
  let ?p = "\<lambda>c. c \<noteq> CHR ''/''"
  let ?n = "length (takeWhile ?p (drop i s))"
  have le: "?n \<le> length (drop i s)" by (rule length_takeWhile_le)
  show ?thesis
  proof (cases "?n < length (drop i s)")
    case True
    from nth_length_takeWhile [OF True] have "\<not> ?p (drop i s ! ?n)" .
    moreover from True have "i + ?n < length s" by simp
    ultimately show ?thesis
      using assms by (simp add: spec_raw_fragment_def)
  next
    case False
    with le have "?n = length (drop i s)" by simp
    with assms show ?thesis by (simp add: spec_raw_fragment_def)
  qed
qed


text \<open>
  Claim C7, as amended. \<open>DecodeJson_SplitJsonPointer\<close> reports a syntax error, as the
  pair of the empty string and index 0, exactly when the fragment that starts at its
  index holds a \<open>~\<close> that ends the input or is followed by a byte other than \<open>0\<close> or
  \<open>1\<close>; otherwise it returns the fragment with \<open>~0\<close> replaced by \<open>~\<close> and \<open>~1\<close> by
  \<open>/\<close>, and the index of the next unread byte, which is the next \<open>/\<close> or the end of the
  string. Called at an index of at least 1, as \<open>DecodeJson\<close> calls it, it returns index
  0 only for a syntax error. \<open>DecodeJson\<close> checks one fragment at a time, just before it
  walks it: the round of its loop at index \<open>i\<close> ends the call with "bad JSON Pointer"
  exactly when the byte at \<open>i\<close> is not \<open>/\<close> or the fragment after it has a syntax
  error; otherwise the decoded fragment is walked, and the loop goes on at the next
  unread byte if the walk returns no message and ends the call with the walk's message
  if it does. So a pointer whose first fragment is faulty always ends the call with
  "bad JSON Pointer", and a fault in a later fragment is reported only if every fragment
  before it has been walked without a message.
\<close>

theorem json_pointer_syntax:
  "DecodeJson_SplitJsonPointer s i
     = (case spec_unescape (spec_raw_fragment s i) of
          None \<Rightarrow> ([], 0)
        | Some f \<Rightarrow> (f, i + length (spec_raw_fragment s i)))
   \<and> (i \<le> length s \<longrightarrow>
        i + length (spec_raw_fragment s i) = length s
        \<or> (i + length (spec_raw_fragment s i) < length s
            \<and> s ! (i + length (spec_raw_fragment s i)) = CHR ''/''))
   \<and> (0 < i \<longrightarrow>
        (snd (DecodeJson_SplitJsonPointer s i) = 0
           \<longleftrightarrow> spec_unescape (spec_raw_fragment s i) = None))
   \<and> (i < length s \<and> (s ! i \<noteq> CHR ''/'' \<or> spec_unescape (spec_raw_fragment s (i + 1)) = None)
        \<longrightarrow> DecodeJson_pointer_step E s (i, m)
              = Some (Inl (Inl (At_done DecodeJson_BadJsonPointer m))))
   \<and> (i < length s \<and> s ! i = CHR ''/'' \<and> spec_unescape (spec_raw_fragment s (i + 1)) = Some f
        \<longrightarrow> DecodeJson_pointer_step E s (i, m)
              = (case DecodeJson_WalkJsonPointerFragment E (ctx m) f of
                   None \<Rightarrow> None
                 | Some Walk_undefined_behaviour \<Rightarrow> Some (Inl (Inl Stopped_undefined_behaviour))
                 | Some (Walked ret_error_message s') \<Rightarrow>
                     if ret_error_message \<noteq> []
                     then Some (Inl (Inl (At_done ret_error_message (m\<lparr>ctx := s'\<rparr>))))
                     else Some (Inr (i + 1 + length (spec_raw_fragment s (i + 1)),
                                     m\<lparr>ctx := s'\<rparr>))))
   \<and> (length s \<le> i \<longrightarrow> DecodeJson_pointer_step E s (i, m) = Some (Inl (Inr m)))
   \<and> (s \<noteq> [] \<and> (s ! 0 \<noteq> CHR ''/'' \<or> spec_unescape (spec_raw_fragment s 1) = None)
        \<longrightarrow> DecodeJson_run E cb s m = Some (At_done DecodeJson_BadJsonPointer m))"
proof -
  have c3: "0 < i \<longrightarrow>
        (snd (DecodeJson_SplitJsonPointer s i) = 0
           \<longleftrightarrow> spec_unescape (spec_raw_fragment s i) = None)"
    by (simp add: SplitJsonPointer_refines split: option.splits)
  have bad: "DecodeJson_pointer_step E s (j, m)
      = Some (Inl (Inl (At_done DecodeJson_BadJsonPointer m)))"
    if "j < length s" "s ! j \<noteq> CHR ''/'' \<or> spec_unescape (spec_raw_fragment s (j + 1)) = None"
    for j
    using that
    by (auto simp add: DecodeJson_pointer_step_def SplitJsonPointer_refines Let_def)
  have c5: "i < length s \<and> s ! i = CHR ''/''
        \<and> spec_unescape (spec_raw_fragment s (i + 1)) = Some f
        \<longrightarrow> DecodeJson_pointer_step E s (i, m)
              = (case DecodeJson_WalkJsonPointerFragment E (ctx m) f of
                   None \<Rightarrow> None
                 | Some Walk_undefined_behaviour \<Rightarrow> Some (Inl (Inl Stopped_undefined_behaviour))
                 | Some (Walked ret_error_message s') \<Rightarrow>
                     if ret_error_message \<noteq> []
                     then Some (Inl (Inl (At_done ret_error_message (m\<lparr>ctx := s'\<rparr>))))
                     else Some (Inr (i + 1 + length (spec_raw_fragment s (i + 1)),
                                     m\<lparr>ctx := s'\<rparr>)))"
    by (simp add: DecodeJson_pointer_step_def SplitJsonPointer_refines Let_def
        split: option.splits walked.splits)
  have c6: "length s \<le> i \<longrightarrow> DecodeJson_pointer_step E s (i, m) = Some (Inl (Inr m))"
    by (simp add: DecodeJson_pointer_step_def)
  have c7: "DecodeJson_run E cb s m = Some (At_done DecodeJson_BadJsonPointer m)"
    if "s \<noteq> []" "s ! 0 \<noteq> CHR ''/'' \<or> spec_unescape (spec_raw_fragment s 1) = None"
  proof -
    from that have "DecodeJson_pointer_step E s (0, m)
        = Some (Inl (Inl (At_done DecodeJson_BadJsonPointer m)))"
      using bad [of 0] by simp
    then have "DecodeJson_pointer_loop E s m = Some (Inl (At_done DecodeJson_BadJsonPointer m))"
      unfolding DecodeJson_pointer_loop_def by (rule while_true_exit)
    then show ?thesis by (simp add: DecodeJson_run_def)
  qed
  from bad [of i] have c4: "i < length s
        \<and> (s ! i \<noteq> CHR ''/'' \<or> spec_unescape (spec_raw_fragment s (i + 1)) = None)
        \<longrightarrow> DecodeJson_pointer_step E s (i, m)
              = Some (Inl (Inl (At_done DecodeJson_BadJsonPointer m)))"
    by blast
  from c7 have c7': "s \<noteq> []
        \<and> (s ! 0 \<noteq> CHR ''/'' \<or> spec_unescape (spec_raw_fragment s 1) = None)
        \<longrightarrow> DecodeJson_run E cb s m = Some (At_done DecodeJson_BadJsonPointer m)"
    by blast
  from raw_fragment_stops [of i s] have c2: "i \<le> length s \<longrightarrow>
        i + length (spec_raw_fragment s i) = length s
        \<or> (i + length (spec_raw_fragment s i) < length s
            \<and> s ! (i + length (spec_raw_fragment s i)) = CHR ''/'')"
    by blast
  show ?thesis
    by (intro conjI SplitJsonPointer_refines c2 c3 c4 c5 c6 c7')
qed

text \<open>
  The claim as it was stated fails in two places. On the input \<open>7\<close> the pointer
  \<open>/a/~\<close>, whose second fragment is a lone \<open>~\<close>, ends the call with "no match", not
  with "bad JSON Pointer": the walk of the first fragment fails before the second is
  looked at. And \<open>DecodeJson_SplitJsonPointer\<close> returns index 0 for \<open>/a\<close> at index 0,
  which is no syntax error.
\<close>

theorem json_pointer_counterexample:
  "DecodeJson (script_env (Some [(Status_ok, [tok 5 0x403 False 1], 1)])
       (Some (window ''7'' 0 1 True))) quiet_callbacks () [] [] ''/a/~''
     = Some (Returned
         \<lparr>error_message = ''wuffs_aux::DecodeJson: no match'', cursor_position = 1\<rparr> ()
         [Ev_Done \<lparr>error_message = ''wuffs_aux::DecodeJson: no match'', cursor_position = 1\<rparr>])
   \<and> DecodeJson_SplitJsonPointer ''/a/~'' 3 = ([], 0)
   \<and> DecodeJson_SplitJsonPointer ''/a'' 0 = ([], 0)
   \<and> spec_unescape (spec_raw_fragment ''/a'' 0) = Some []"
  by (simp add: driver_defs script_defs VBC_defs while_true.simps Let_def
      DecodeJson_SplitJsonPointer_def DecodeJson_SplitJsonPointer_loop.simps
      walker_defs spec_raw_fragment_def)


theorem json_pointer_syntax_witness:
  "DecodeJson_SplitJsonPointer ''/a~1b~0/c'' 1 = (''a/b~'', 7)
   \<and> ''/a~1b~0/c'' ! 7 = CHR ''/''
   \<and> DecodeJson_SplitJsonPointer ''/a~1b~0/c'' 8 = (''c'', 9)
   \<and> snd (DecodeJson_SplitJsonPointer ''/~2'' 1) = 0
   \<and> DecodeJson_pointer_step (script_env None None) ''/~2''
         (0, script_frame (script_ctx Status_ok [tok 5 0x403 False 1] 0 []
               (window ''7'' 1 1 True) [] 0 []) 0 [])
       = Some (Inl (Inl (At_done ''wuffs_aux::DecodeJson: bad JSON Pointer''
           (script_frame (script_ctx Status_ok [tok 5 0x403 False 1] 0 []
               (window ''7'' 1 1 True) [] 0 []) 0 []))))
   \<and> DecodeJson_pointer_step (script_env None None) ''/a''
         (0, script_frame (script_ctx Status_ok [tok 5 0x403 False 1] 0 []
               (window ''7'' 1 1 True) [] 0 []) 0 [])
       = Some (Inl (Inl (At_done ''wuffs_aux::DecodeJson: no match''
           (script_frame (script_ctx Status_ok [tok 5 0x403 False 1] 1 []
               (window ''7'' 1 1 True) [] 1 []) 0 []))))
   \<and> DecodeJson_pointer_step (script_env None None) ''/0''
         (0, script_frame (script_ctx Status_ok [tok 1 0x2011 False 1, tok 5 0x403 False 1] 0 []
               (window ''[7]'' 3 3 True) [] 0 []) 0 [])
       = Some (Inr (2,
           script_frame (script_ctx Status_ok [tok 1 0x2011 False 1, tok 5 0x403 False 1] 1 []
               (window ''[7]'' 3 3 True) [] 1 []) 0 []))
   \<and> DecodeJson_pointer_step (script_env None None) ''/a''
         (2, script_frame (script_ctx Status_ok [tok 5 0x403 False 1] 0 []
               (window ''7'' 1 1 True) [] 0 []) 0 [])
       = Some (Inl (Inr (script_frame (script_ctx Status_ok [tok 5 0x403 False 1] 0 []
               (window ''7'' 1 1 True) [] 0 []) 0 [])))
   \<and> DecodeJson_run (script_env None None) quiet_callbacks ''a/b''
         (script_frame (script_ctx Status_ok [tok 5 0x403 False 1] 0 []
               (window ''7'' 1 1 True) [] 0 []) 0 [])
       = Some (At_done ''wuffs_aux::DecodeJson: bad JSON Pointer''
           (script_frame (script_ctx Status_ok [tok 5 0x403 False 1] 0 []
               (window ''7'' 1 1 True) [] 0 []) 0 []))"
proof -
  let ?E = "script_env None None"
  let ?c = "script_ctx Status_ok [tok 5 0x403 False 1] 0 [] (window ''7'' 1 1 True) [] 0 []"
  let ?c' = "script_ctx Status_ok [tok 5 0x403 False 1] 1 [] (window ''7'' 1 1 True) [] 1 []"
  let ?m = "script_frame ?c 0 []"
  let ?l = "script_ctx Status_ok [tok 1 0x2011 False 1, tok 5 0x403 False 1] 0 []
      (window ''[7]'' 3 3 True) [] 0 []"
  let ?l' = "script_ctx Status_ok [tok 1 0x2011 False 1, tok 5 0x403 False 1] 1 []
      (window ''[7]'' 3 3 True) [] 1 []"
  let ?n = "script_frame ?l 0 []"
  let ?cb = "quiet_callbacks :: (script_input, unit) DecodeJsonCallbacks"
  have w1: "DecodeJson_WalkJsonPointerFragment ?E (ctx ?m) ''a''
      = Some (Walked ''wuffs_aux::DecodeJson: no match'' ?c')"
    by (simp add: walker_defs driver_defs script_defs VBC_defs while_true.simps Let_def
        script_frame_def word_le_nat_alt word_less_nat_alt)
  have w2: "DecodeJson_WalkJsonPointerFragment ?E (ctx ?n) ''0'' = Some (Walked [] ?l')"
    by (simp add: walker_defs driver_defs script_defs VBC_defs while_true.simps Let_def
        script_frame_def word_le_nat_alt word_less_nat_alt)
  have k1: "DecodeJson_SplitJsonPointer ''/a~1b~0/c'' 1 = (''a/b~'', 7)
      \<and> ''/a~1b~0/c'' ! 7 = CHR ''/''"
    using json_pointer_syntax [where s = "''/a~1b~0/c''" and i = 1 and E = ?E and m = ?m
        and cb = ?cb and f = "[]"]
    by (simp add: spec_raw_fragment_def)
  have k2: "DecodeJson_SplitJsonPointer ''/a~1b~0/c'' 8 = (''c'', 9)"
    using json_pointer_syntax [where s = "''/a~1b~0/c''" and i = 8 and E = ?E and m = ?m
        and cb = ?cb and f = "[]"]
    by (simp add: spec_raw_fragment_def)
  have k3: "snd (DecodeJson_SplitJsonPointer ''/~2'' 1) = 0"
    using json_pointer_syntax [where s = "''/~2''" and i = 1 and E = ?E and m = ?m
        and cb = ?cb and f = "[]"]
    by (simp add: spec_raw_fragment_def)
  have k4: "DecodeJson_pointer_step ?E ''/~2'' (0, ?m)
      = Some (Inl (Inl (At_done ''wuffs_aux::DecodeJson: bad JSON Pointer'' ?m)))"
    using json_pointer_syntax [where s = "''/~2''" and i = 0 and E = ?E and m = ?m
        and cb = ?cb and f = "[]"]
    by (simp add: spec_raw_fragment_def DecodeJson_BadJsonPointer_def)
  have k5: "DecodeJson_pointer_step ?E ''/a'' (0, ?m)
      = Some (Inl (Inl (At_done ''wuffs_aux::DecodeJson: no match'' (script_frame ?c' 0 []))))"
    using json_pointer_syntax [where s = "''/a''" and i = 0 and E = ?E and m = ?m
        and cb = ?cb and f = "''a''"]
    unfolding w1 by (simp add: spec_raw_fragment_def script_frame_def)
  have k6: "DecodeJson_pointer_step ?E ''/0'' (0, ?n) = Some (Inr (2, script_frame ?l' 0 []))"
    using json_pointer_syntax [where s = "''/0''" and i = 0 and E = ?E and m = ?n
        and cb = ?cb and f = "''0''"]
    unfolding w2 by (simp add: spec_raw_fragment_def script_frame_def)
  have k7: "DecodeJson_pointer_step ?E ''/a'' (2, ?m) = Some (Inl (Inr ?m))"
    using json_pointer_syntax [where s = "''/a''" and i = 2 and E = ?E and m = ?m
        and cb = ?cb and f = "[]"]
    by simp
  have k8: "DecodeJson_run ?E ?cb ''a/b'' ?m
      = Some (At_done ''wuffs_aux::DecodeJson: bad JSON Pointer'' ?m)"
    using json_pointer_syntax [where s = "''a/b''" and i = 0 and E = ?E and m = ?m
        and cb = ?cb and f = "[]"]
    by (simp add: DecodeJson_BadJsonPointer_def)
  from k1 k2 k3 k4 k5 k6 k7 k8 show ?thesis by blast
qed

text \<open>
  Claim C5. One round of \<open>DecodeJson_WalkJsonPointerFragment\<close> fetches a token with the
  macro and handles it; a \<open>goto done\<close> of the macro ends the walk with the macro's
  message. In the first loop filler is passed over, and the first other token decides:
  a Structure token with the \<open>PUSH\<close> bit enters the list mode if it has the \<open>TO_LIST\<close>
  bit and the dict mode (reading a key into an empty \<open>str\<close>) if not; every other token
  ends the walk with the "no match" message. While a key is read, filler is passed over;
  a Structure token ends the walk, with the "internal error: unexpected token" message
  if it has the \<open>PUSH\<close> bit and with "no match" if not; a String token with the \<open>DROP\<close>
  bit adds nothing to \<open>str\<close>, one with the \<open>COPY\<close> bit adds its source bytes, one with
  the \<open>BACKSLASH_X\<close> bit adds the bytes that \<open>DecodeJson_DecodeBackslashX\<close> decodes (or
  ends the walk with its message), and one with none of these bits is an unexpected
  token; a UnicodeCodePoint token adds the UTF-8 encoding of its code point; a token of
  any other category is an unexpected token. After a String or UnicodeCodePoint token, a
  continued token keeps the key open; otherwise \<open>str\<close> is compared with the fragment: if
  they are equal the walk returns the empty message, with the variables as the macro
  left them after the key's last token, and if not the next value is skipped.
\<close>

theorem container_entry_and_dict_descent:
  "walk_token E frag At_entry token p l s
     = Some (if value_base_category token = WUFFS_BASE__TOKEN__VBC__FILLER
             then Inr (At_entry, s)
             else if value_base_category token = WUFFS_BASE__TOKEN__VBC__STRUCTURE
                     \<and> value_base_detail token AND STRUCTURE__PUSH E \<noteq> 0
             then if value_base_detail token AND STRUCTURE__TO_LIST E \<noteq> 0
                  then do_list E frag s
                  else Inr (Do_dict_key [], s)
             else Inl (Walked DecodeJson_NoMatch s))
   \<and> (value_base_category token = WUFFS_BASE__TOKEN__VBC__FILLER \<longrightarrow>
        walk_token E frag (Do_dict_key acc) token p l s = Some (Inr (Do_dict_key acc, s)))
   \<and> (value_base_category token = WUFFS_BASE__TOKEN__VBC__STRUCTURE \<longrightarrow>
        walk_token E frag (Do_dict_key acc) token p l s
          = Some (Inl (Walked (if value_base_detail token AND STRUCTURE__PUSH E \<noteq> 0
                               then unexpected_token else DecodeJson_NoMatch) s)))
   \<and> (value_base_category token = WUFFS_BASE__TOKEN__VBC__STRING
        \<and> value_base_detail token AND STRING__CONVERT_0_DST_1_SRC_DROP E \<noteq> 0 \<longrightarrow>
        walk_token E frag (Do_dict_key acc) token p l s
          = Some (dict_key_end frag token acc s))
   \<and> (value_base_category token = WUFFS_BASE__TOKEN__VBC__STRING
        \<and> value_base_detail token AND STRING__CONVERT_0_DST_1_SRC_DROP E = 0
        \<and> value_base_detail token AND STRING__CONVERT_1_DST_1_SRC_COPY E \<noteq> 0 \<longrightarrow>
        walk_token E frag (Do_dict_key acc) token p l s
          = Some (dict_key_end frag token (acc @ token_src (io_buf s) p l) s))
   \<and> (value_base_category token = WUFFS_BASE__TOKEN__VBC__STRING
        \<and> value_base_detail token AND STRING__CONVERT_0_DST_1_SRC_DROP E = 0
        \<and> value_base_detail token AND STRING__CONVERT_1_DST_1_SRC_COPY E = 0
        \<and> value_base_detail token AND STRING__CONVERT_1_DST_4_SRC_BACKSLASH_X E \<noteq> 0 \<longrightarrow>
        walk_token E frag (Do_dict_key acc) token p l s
          = (case DecodeJson_DecodeBackslashX E acc (token_src (io_buf s) p l) of
               None \<Rightarrow> None
             | Some (ret_error_message, acc') \<Rightarrow>
                 if ret_error_message \<noteq> [] then Some (Inl (Walked ret_error_message s))
                 else Some (dict_key_end frag token acc' s)))
   \<and> (value_base_category token = WUFFS_BASE__TOKEN__VBC__STRING
        \<and> value_base_detail token AND STRING__CONVERT_0_DST_1_SRC_DROP E = 0
        \<and> value_base_detail token AND STRING__CONVERT_1_DST_1_SRC_COPY E = 0
        \<and> value_base_detail token AND STRING__CONVERT_1_DST_4_SRC_BACKSLASH_X E = 0 \<longrightarrow>
        walk_token E frag (Do_dict_key acc) token p l s
          = Some (Inl (Walked unexpected_token s)))
   \<and> (value_base_category token = WUFFS_BASE__TOKEN__VBC__UNICODE_CODE_POINT \<longrightarrow>
        walk_token E frag (Do_dict_key acc) token p l s
          = Some (dict_key_end frag token
                    (acc @ utf_8__encode E (ucast (value_base_detail token))) s))
   \<and> (value_base_category token \<notin> {WUFFS_BASE__TOKEN__VBC__FILLER,
          WUFFS_BASE__TOKEN__VBC__STRUCTURE, WUFFS_BASE__TOKEN__VBC__STRING,
          WUFFS_BASE__TOKEN__VBC__UNICODE_CODE_POINT} \<longrightarrow>
        walk_token E frag (Do_dict_key acc) token p l s
          = Some (Inl (Walked unexpected_token s)))
   \<and> dict_key_end frag token acc s
       = (if continued token then Inr (Do_dict_key acc, s)
          else if acc = frag then Inl (Walked [] s)
          else Inr (Skip_the_next_dict_value 0, s))
   \<and> (GET_THE_NEXT_TOKEN E sa = Some (Goto_done ret_error_message sb) \<longrightarrow>
        while_true (walk_step E frag) (label, sa) = Some (Walked ret_error_message sb))
   \<and> (GET_THE_NEXT_TOKEN E sa = Some (Fetched token p l sb)
        \<and> walk_token E frag label token p l sb = Some (Inl out) \<longrightarrow>
        while_true (walk_step E frag) (label, sa) = Some out)
   \<and> (GET_THE_NEXT_TOKEN E sa = Some (Fetched token p l sb)
        \<and> walk_token E frag label token p l sb = Some (Inr nxt) \<longrightarrow>
        while_true (walk_step E frag) (label, sa) = while_true (walk_step E frag) nxt)
   \<and> DecodeJson_WalkJsonPointerFragment E sa frag
       = while_true (walk_step E frag) (At_entry, sa)"
proof -
  have entry: "walk_token E frag At_entry token p l s
     = Some (if value_base_category token = WUFFS_BASE__TOKEN__VBC__FILLER
             then Inr (At_entry, s)
             else if value_base_category token = WUFFS_BASE__TOKEN__VBC__STRUCTURE
                     \<and> value_base_detail token AND STRUCTURE__PUSH E \<noteq> 0
             then if value_base_detail token AND STRUCTURE__TO_LIST E \<noteq> 0
                  then do_list E frag s
                  else Inr (Do_dict_key [], s)
             else Inl (Walked DecodeJson_NoMatch s))"
    by (simp add: walk_token_def walk_at_entry_def Let_def)
  have key: "walk_token E frag (Do_dict_key acc) token p l s
      = walk_dict_key E frag acc token p l s"
    by (simp add: walk_token_def)
  have finished: "while_true (walk_step E frag) (label, sa) = Some (Walked ret_error_message sb)"
    if "GET_THE_NEXT_TOKEN E sa = Some (Goto_done ret_error_message sb)"
    by (rule while_true_exit) (simp add: walk_step_def that)
  have out: "while_true (walk_step E frag) (label, sa) = Some out"
    if "GET_THE_NEXT_TOKEN E sa = Some (Fetched token p l sb)"
      "walk_token E frag label token p l sb = Some (Inl out)"
    by (rule while_true_exit) (simp add: walk_step_def that)
  have again: "while_true (walk_step E frag) (label, sa) = while_true (walk_step E frag) nxt"
    if "GET_THE_NEXT_TOKEN E sa = Some (Fetched token p l sb)"
      "walk_token E frag label token p l sb = Some (Inr nxt)"
    by (rule while_true_again) (simp add: walk_step_def that)
  show ?thesis
    apply (intro conjI impI)
                 apply (rule entry)
                apply (simp add: key walk_dict_key_def Let_def)
               apply (simp add: key walk_dict_key_def Let_def VBC_defs)
              apply (simp add: key walk_dict_key_def Let_def VBC_defs)
             apply (simp add: key walk_dict_key_def Let_def VBC_defs)
            apply (simp add: key walk_dict_key_def Let_def VBC_defs)
           apply (simp add: key walk_dict_key_def Let_def VBC_defs)
          apply (simp add: key walk_dict_key_def Let_def VBC_defs)
         apply (simp add: key walk_dict_key_def Let_def VBC_defs)
        apply (simp add: dict_key_end_def)
       apply (erule finished)
      apply (erule conjE, erule (1) out)
     apply (erule conjE, erule (1) again)
    apply (simp add: DecodeJson_WalkJsonPointerFragment_def)
    done
qed


theorem container_entry_and_dict_descent_witness:
  "walk_token (script_env None None) ''a'' At_entry (tok 0 0 False 1) 0 1 (object_ctx 1)
     = Some (Inr (At_entry, object_ctx 1))
   \<and> walk_token (script_env None None) ''a'' At_entry (tok 1 0x4011 False 1) 0 1 (object_ctx 1)
     = Some (Inr (Do_dict_key [], object_ctx 1))
   \<and> walk_token (script_env None None) ''0'' At_entry (tok 1 0x2011 False 1) 0 1 (object_ctx 1)
     = Some (Inr (Check_that_a_value_follows, object_ctx 1))
   \<and> walk_token (script_env None None) ''a'' At_entry (tok 5 0x403 False 1) 0 1 (object_ctx 1)
     = Some (Inl (Walked ''wuffs_aux::DecodeJson: no match'' (object_ctx 1)))
   \<and> walk_token (script_env None None) ''a'' At_entry (tok 1 0x1042 False 1) 0 1 (object_ctx 1)
     = Some (Inl (Walked ''wuffs_aux::DecodeJson: no match'' (object_ctx 1)))
   \<and> walk_token (script_env None None) ''a'' (Do_dict_key ''a'') (tok 0 0 False 1) 4 1
       (object_ctx 5)
     = Some (Inr (Do_dict_key ''a'', object_ctx 5))
   \<and> walk_token (script_env None None) ''a'' (Do_dict_key []) (tok 1 0x4011 False 1) 0 1
       (object_ctx 1)
     = Some (Inl (Walked ''wuffs_aux::DecodeJson: internal error: unexpected token''
         (object_ctx 1)))
   \<and> walk_token (script_env None None) ''a'' (Do_dict_key []) (tok 1 0x1042 False 1) 6 1
       (object_ctx 7)
     = Some (Inl (Walked ''wuffs_aux::DecodeJson: no match'' (object_ctx 7)))
   \<and> walk_token (script_env None None) ''a'' (Do_dict_key []) (tok 2 0x102 True 1) 1 1
       (object_ctx 2)
     = Some (Inr (Do_dict_key [], object_ctx 2))
   \<and> walk_token (script_env None None) ''a'' (Do_dict_key []) (tok 2 0x203 True 1) 2 1
       (object_ctx 3)
     = Some (Inr (Do_dict_key ''a'', object_ctx 3))
   \<and> walk_token (script_env None None) ''a'' (Do_dict_key ''a'') (tok 2 0x102 False 1) 3 1
       (object_ctx 4)
     = Some (Inl (Walked [] (object_ctx 4)))
   \<and> walk_token (script_env None None) ''b'' (Do_dict_key ''a'') (tok 2 0x102 False 1) 3 1
       (object_ctx 4)
     = Some (Inr (Skip_the_next_dict_value 0, object_ctx 4))
   \<and> walk_token (script_env None None) ''aA'' (Do_dict_key ''a'') (tok 2 0x800 False 4) 0 4
       ((object_ctx 4)\<lparr>io_buf := window (CHR 0x5C # ''x41'') 4 4 True\<rparr>)
     = Some (Inl (Walked [] ((object_ctx 4)\<lparr>io_buf := window (CHR 0x5C # ''x41'') 4 4 True\<rparr>)))
   \<and> walk_token (script_env None None) ''a'' (Do_dict_key ''a'') (tok 2 0x2 False 1) 3 1
       (object_ctx 4)
     = Some (Inl (Walked ''wuffs_aux::DecodeJson: internal error: unexpected token''
         (object_ctx 4)))
   \<and> walk_token (script_env None None) ''aA'' (Do_dict_key ''a'') (tok 3 0x41 False 1) 3 1
       (object_ctx 4)
     = Some (Inl (Walked [] (object_ctx 4)))
   \<and> walk_token (script_env None None) ''a'' (Do_dict_key []) (tok 5 0x403 False 1) 3 1
       (object_ctx 4)
     = Some (Inl (Walked ''wuffs_aux::DecodeJson: internal error: unexpected token''
         (object_ctx 4)))
   \<and> DecodeJson_WalkJsonPointerFragment (script_env None None) (object_ctx 0) ''a''
     = Some (Walked [] (object_ctx 4))
   \<and> DecodeJson_WalkJsonPointerFragment (script_env None None) (object_ctx 0) ''b''
     = Some (Walked ''wuffs_aux::DecodeJson: no match'' (object_ctx 7))"
proof -
  let ?E = "script_env None None"
  note T = container_entry_and_dict_descent [where E = ?E and sa = "object_ctx 0"
      and sb = "object_ctx 1" and label = At_entry and ret_error_message = "[]"
      and out = Walk_undefined_behaviour]
  note ev = script_defs VBC_defs dict_key_end_def do_list_def token_src_def
    DecodeJson_NoMatch_def unexpected_token_def object_ctx_def
  have k1: "walk_token ?E ''a'' At_entry (tok 0 0 False 1) 0 1 (object_ctx 1)
      = Some (Inr (At_entry, object_ctx 1))"
    using T [where frag = "''a''" and token = "tok 0 0 False 1" and p = 0 and l = 1
        and s = "object_ctx 1" and acc = "[]" and nxt = "(At_entry, object_ctx 1)"]
    by (simp add: ev)
  have k2: "walk_token ?E ''a'' At_entry (tok 1 0x4011 False 1) 0 1 (object_ctx 1)
      = Some (Inr (Do_dict_key [], object_ctx 1))"
    using T [where frag = "''a''" and token = "tok 1 0x4011 False 1" and p = 0 and l = 1
        and s = "object_ctx 1" and acc = "[]" and nxt = "(At_entry, object_ctx 1)"]
    by (simp add: ev)
  have k3: "walk_token ?E ''0'' At_entry (tok 1 0x2011 False 1) 0 1 (object_ctx 1)
      = Some (Inr (Check_that_a_value_follows, object_ctx 1))"
    using T [where frag = "''0''" and token = "tok 1 0x2011 False 1" and p = 0 and l = 1
        and s = "object_ctx 1" and acc = "[]" and nxt = "(At_entry, object_ctx 1)"]
    by (simp add: ev)
  have k4: "walk_token ?E ''a'' At_entry (tok 5 0x403 False 1) 0 1 (object_ctx 1)
      = Some (Inl (Walked ''wuffs_aux::DecodeJson: no match'' (object_ctx 1)))"
    using T [where frag = "''a''" and token = "tok 5 0x403 False 1" and p = 0 and l = 1
        and s = "object_ctx 1" and acc = "[]" and nxt = "(At_entry, object_ctx 1)"]
    by (simp add: ev)
  have k5: "walk_token ?E ''a'' At_entry (tok 1 0x1042 False 1) 0 1 (object_ctx 1)
      = Some (Inl (Walked ''wuffs_aux::DecodeJson: no match'' (object_ctx 1)))"
    using T [where frag = "''a''" and token = "tok 1 0x1042 False 1" and p = 0 and l = 1
        and s = "object_ctx 1" and acc = "[]" and nxt = "(At_entry, object_ctx 1)"]
    by (simp add: ev)
  have k6: "walk_token ?E ''a'' (Do_dict_key ''a'') (tok 0 0 False 1) 4 1 (object_ctx 5)
      = Some (Inr (Do_dict_key ''a'', object_ctx 5))"
    using T [where frag = "''a''" and token = "tok 0 0 False 1" and p = 4 and l = 1
        and s = "object_ctx 5" and acc = "''a''" and nxt = "(At_entry, object_ctx 1)"]
    by (simp add: ev)
  have k7: "walk_token ?E ''a'' (Do_dict_key []) (tok 1 0x4011 False 1) 0 1 (object_ctx 1)
      = Some (Inl (Walked ''wuffs_aux::DecodeJson: internal error: unexpected token'' (object_ctx 1)))"
    using T [where frag = "''a''" and token = "tok 1 0x4011 False 1" and p = 0 and l = 1
        and s = "object_ctx 1" and acc = "[]" and nxt = "(At_entry, object_ctx 1)"]
    by (simp add: ev)
  have k8: "walk_token ?E ''a'' (Do_dict_key []) (tok 1 0x1042 False 1) 6 1 (object_ctx 7)
      = Some (Inl (Walked ''wuffs_aux::DecodeJson: no match'' (object_ctx 7)))"
    using T [where frag = "''a''" and token = "tok 1 0x1042 False 1" and p = 6 and l = 1
        and s = "object_ctx 7" and acc = "[]" and nxt = "(At_entry, object_ctx 1)"]
    by (simp add: ev)
  have k9: "walk_token ?E ''a'' (Do_dict_key []) (tok 2 0x102 True 1) 1 1 (object_ctx 2)
      = Some (Inr (Do_dict_key [], object_ctx 2))"
    using T [where frag = "''a''" and token = "tok 2 0x102 True 1" and p = 1 and l = 1
        and s = "object_ctx 2" and acc = "[]" and nxt = "(At_entry, object_ctx 1)"]
    by (simp add: ev)
  have k10: "walk_token ?E ''a'' (Do_dict_key []) (tok 2 0x203 True 1) 2 1 (object_ctx 3)
      = Some (Inr (Do_dict_key ''a'', object_ctx 3))"
    using T [where frag = "''a''" and token = "tok 2 0x203 True 1" and p = 2 and l = 1
        and s = "object_ctx 3" and acc = "[]" and nxt = "(At_entry, object_ctx 1)"]
    by (simp add: ev)
  have k11: "walk_token ?E ''a'' (Do_dict_key ''a'') (tok 2 0x102 False 1) 3 1 (object_ctx 4)
      = Some (Inl (Walked [] (object_ctx 4)))"
    using T [where frag = "''a''" and token = "tok 2 0x102 False 1" and p = 3 and l = 1
        and s = "object_ctx 4" and acc = "''a''" and nxt = "(At_entry, object_ctx 1)"]
    by (simp add: ev)
  have k12: "walk_token ?E ''b'' (Do_dict_key ''a'') (tok 2 0x102 False 1) 3 1 (object_ctx 4)
      = Some (Inr (Skip_the_next_dict_value 0, object_ctx 4))"
    using T [where frag = "''b''" and token = "tok 2 0x102 False 1" and p = 3 and l = 1
        and s = "object_ctx 4" and acc = "''a''" and nxt = "(At_entry, object_ctx 1)"]
    by (simp add: ev)
  have bx: "DecodeJson_DecodeBackslashX ?E ''a'' (CHR 0x5C # ''x41'') = Some ([], ''aA'')"
    by (simp add: DecodeJson_DecodeBackslashX_def DecodeJson_DecodeBackslashX_body_def
        while_true.simps script_defs)
  have k13: "walk_token ?E ''aA'' (Do_dict_key ''a'') (tok 2 0x800 False 4) 0 4 ((object_ctx 4)\<lparr>io_buf := window (CHR 0x5C # ''x41'') 4 4 True\<rparr>)
      = Some (Inl (Walked [] ((object_ctx 4)\<lparr>io_buf := window (CHR 0x5C # ''x41'') 4 4 True\<rparr>)))"
    using T [where frag = "''aA''" and token = "tok 2 0x800 False 4" and p = 0 and l = 4
        and s = "(object_ctx 4)\<lparr>io_buf := window (CHR 0x5C # ''x41'') 4 4 True\<rparr>" and acc = "''a''" and nxt = "(At_entry, object_ctx 1)"]
    by (simp add: ev bx)
  have k14: "walk_token ?E ''a'' (Do_dict_key ''a'') (tok 2 0x2 False 1) 3 1 (object_ctx 4)
      = Some (Inl (Walked ''wuffs_aux::DecodeJson: internal error: unexpected token'' (object_ctx 4)))"
    using T [where frag = "''a''" and token = "tok 2 0x2 False 1" and p = 3 and l = 1
        and s = "object_ctx 4" and acc = "''a''" and nxt = "(At_entry, object_ctx 1)"]
    by (simp add: ev)
  have k15: "walk_token ?E ''aA'' (Do_dict_key ''a'') (tok 3 0x41 False 1) 3 1 (object_ctx 4)
      = Some (Inl (Walked [] (object_ctx 4)))"
    using T [where frag = "''aA''" and token = "tok 3 0x41 False 1" and p = 3 and l = 1
        and s = "object_ctx 4" and acc = "''a''" and nxt = "(At_entry, object_ctx 1)"]
    by (simp add: ev)
  have k16: "walk_token ?E ''a'' (Do_dict_key []) (tok 5 0x403 False 1) 3 1 (object_ctx 4)
      = Some (Inl (Walked ''wuffs_aux::DecodeJson: internal error: unexpected token'' (object_ctx 4)))"
    using T [where frag = "''a''" and token = "tok 5 0x403 False 1" and p = 3 and l = 1
        and s = "object_ctx 4" and acc = "[]" and nxt = "(At_entry, object_ctx 1)"]
    by (simp add: ev)
  have k17: "DecodeJson_WalkJsonPointerFragment ?E (object_ctx 0) ''a''
      = Some (Walked [] (object_ctx 4))"
    by (simp add: walker_defs driver_defs script_defs VBC_defs while_true.simps Let_def
        object_ctx_def object_tokens_def word_le_nat_alt word_less_nat_alt)
  have k18: "DecodeJson_WalkJsonPointerFragment ?E (object_ctx 0) ''b''
      = Some (Walked ''wuffs_aux::DecodeJson: no match'' (object_ctx 7))"
    by (simp add: walker_defs driver_defs script_defs VBC_defs while_true.simps Let_def
        object_ctx_def object_tokens_def word_le_nat_alt word_less_nat_alt)
  from k1 k2 k3 k4 k5 k6 k7 k8 k9 k10 k11 k12 k13 k14 k15 k16 k17 k18
  show ?thesis by blast
qed

end
